theory Spec2Isabelle
  imports Main "HOL-Library.Multiset" "HOL-Library.Sublist"
begin

section \<open>Frontend router: \<^verbatim>\<open>src/app/app.routes.ts\<close>\<close>

text \<open>
  The route table is an array of four object literals. An entry has a path and either a
  redirect (with its \<^verbatim>\<open>pathMatch\<close> strategy) or a page component; a field that the
  literal does not write is \<open>None\<close>.
\<close>

datatype page_component = LoginComponent | SignupComponent | MoviesComponent

record route =
  path :: string
  redirectTo :: "string option"
  pathMatch :: "string option"
  component :: "page_component option"

definition routes :: "route list" where
  "routes =
    [ \<lparr>path = '''', redirectTo = Some ''login'', pathMatch = Some ''full'', component = None\<rparr>,
      \<lparr>path = ''login'', redirectTo = None, pathMatch = None, component = Some LoginComponent\<rparr>,
      \<lparr>path = ''signup'', redirectTo = None, pathMatch = None, component = Some SignupComponent\<rparr>,
      \<lparr>path = ''movies'', redirectTo = None, pathMatch = None, component = Some MoviesComponent\<rparr> ]"

text \<open>
  The router walks the array in order and takes the first entry whose path is the
  requested one (the table has static, single-segment paths only).
\<close>

definition match_route :: "route list \<Rightarrow> string \<Rightarrow> route option" where
  "match_route rs p = find (\<lambda>r. path r = p) rs"

section \<open>Verification script: \<^verbatim>\<open>backend/dbTests.js\<close>\<close>

subsection \<open>Connection parameters\<close>

text \<open>
  \<^verbatim>\<open>process.env\<close> (after \<^verbatim>\<open>dotenv\<close> has filled it) maps a variable name to a string,
  or to nothing when the variable is unset. JavaScript's \<^verbatim>\<open>x || d\<close> yields \<open>d\<close> when
  \<open>x\<close> is \<^verbatim>\<open>undefined\<close> and also when it is the empty string.
\<close>

type_synonym process_env = "string \<rightharpoonup> string"

definition or_default :: "string option \<Rightarrow> string \<Rightarrow> string" where
  "or_default x d = (case x of None \<Rightarrow> d | Some s \<Rightarrow> if s = [] then d else s)"

record conn_config =
  host :: string
  user :: string
  password :: "string option"
  multipleStatements :: bool

definition connection_config :: "process_env \<Rightarrow> conn_config" where
  "connection_config env =
     \<lparr>host = or_default (env ''DB_HOST'') ''localhost'',
      user = or_default (env ''DB_USER'') ''root'',
      password = env ''DB_PASSWORD'',
      multipleStatements = True\<rparr>"

subsection \<open>The schema: rows and tables\<close>

text \<open>
  One record per \<^verbatim>\<open>CREATE TABLE\<close> of the script, one field per column. \<^verbatim>\<open>INT\<close> columns
  are integers (not bounded here), a column without \<^verbatim>\<open>NOT NULL\<close> is an option,
  \<^verbatim>\<open>DECIMAL(3,1)\<close> is kept as a number of tenths. The \<^verbatim>\<open>TIMESTAMP\<close> columns
  (\<^verbatim>\<open>created_at\<close>, \<^verbatim>\<open>deleted_at\<close>) are left out: wall-clock time is not modelled.
  A table with an \<^verbatim>\<open>AUTO_INCREMENT\<close> key carries the next value of its counter.
\<close>

record user_row =
  users_id :: int
  users_username :: string
  users_password :: string

record movie_row =
  movies_id :: int
  movies_tmdb_id :: "int option"
  movies_title :: string
  movies_overview :: "string option"
  movies_poster_path :: "string option"
  movies_vote_average :: "int option"

record user_movie_row =
  user_movies_user_id :: int
  user_movies_movie_id :: int

record user_mood_row =
  user_moods_id :: int
  user_moods_user_id :: int
  user_moods_mood :: string

record deletion_log_row =
  deletion_logs_id :: int
  deletion_logs_user_id :: int
  deletion_logs_movie_id :: int

record 'r auto_table =
  table_rows :: "'r list"
  auto_increment :: int

definition new_table :: "'r auto_table" where
  "new_table = \<lparr>table_rows = [], auto_increment = 1\<rparr>"

text \<open>
  A database holds each of the five tables or not (\<open>None\<close>: the table does not exist),
  and the trigger \<^verbatim>\<open>after_movie_delete\<close> or not. A table that exists has the columns the
  script declares for it.
\<close>

record database =
  users :: "user_row auto_table option"
  movies :: "movie_row auto_table option"
  user_movies :: "user_movie_row list option"
  user_moods :: "user_mood_row auto_table option"
  deletion_logs :: "deletion_log_row auto_table option"
  after_movie_delete :: bool

definition empty_database :: database where
  "empty_database =
     \<lparr>users = None, movies = None, user_movies = None, user_moods = None,
      deletion_logs = None, after_movie_delete = False\<rparr>"

datatype db_error =
    ER_ACCESS_DENIED_ERROR | ECONNREFUSED | PROTOCOL_CONNECTION_LOST
  | ER_NO_DB_ERROR | ER_BAD_DB_ERROR
  | ER_TABLE_EXISTS_ERROR | ER_NO_SUCH_TABLE
  | ER_FK_CANNOT_OPEN_PARENT | ER_FK_CANNOT_DROP_PARENT
  | ER_TRG_ALREADY_EXISTS | ER_DUP_ENTRY

subsection \<open>The database engine\<close>

text \<open>
  The script talks to a MySQL server through the \<^verbatim>\<open>mysql2\<close> driver; what its SQL does is
  decided by that server, not by the script. Three points of the server's behaviour
  decide claims about the script and are kept as settings of the engine:
  \<^item> whether a row deleted by \<^verbatim>\<open>ON DELETE CASCADE\<close> activates the triggers of its table
    (MySQL: no, cascaded foreign key actions do not activate triggers);
  \<^item> whether \<^verbatim>\<open>DROP TABLE\<close> also drops the triggers of the table (MySQL: yes);
  \<^item> the collation of \<^verbatim>\<open>users.username\<close>, as the weight it gives a character (MySQL's
    default collations compare letters without regard to case).
\<close>

record engine =
  cascade_fires_triggers :: bool
  drop_table_drops_triggers :: bool
  collation :: "char \<Rightarrow> char"

definition ascii_lower :: "char \<Rightarrow> char" where
  "ascii_lower c =
     (case map_of (zip ''ABCDEFGHIJKLMNOPQRSTUVWXYZ'' ''abcdefghijklmnopqrstuvwxyz'') c of
        None \<Rightarrow> c
      | Some l \<Rightarrow> l)"

definition mysql :: engine where
  "mysql = \<lparr>cascade_fires_triggers = False, drop_table_drops_triggers = True,
            collation = ascii_lower\<rparr>"

text \<open>
  \<^verbatim>\<open>s LIKE pattern\<close>: \<^verbatim>\<open>%\<close> stands for any run of characters, \<^verbatim>\<open>_\<close> for one character,
  any other character of the pattern for the characters of the same weight.
\<close>

fun sql_like :: "(char \<Rightarrow> char) \<Rightarrow> string \<Rightarrow> string \<Rightarrow> bool" where
  "sql_like w [] s = (s = [])"
| "sql_like w (p # ps) [] = (p = CHR ''%'' \<and> sql_like w ps [])"
| "sql_like w (p # ps) (c # cs) =
     (if p = CHR ''%'' then sql_like w ps (c # cs) \<or> sql_like w (p # ps) cs
      else (p = CHR ''_'' \<or> w p = w c) \<and> sql_like w ps cs)"

subsection \<open>The statements of the script, on one database\<close>

text \<open>
  Each SQL statement of the script is a function from the database to an error or the
  new database; a statement that fails changes nothing.

  \<^verbatim>\<open>CREATE TABLE IF NOT EXISTS users (...)\<close>
\<close>

definition create_table_users_if_not_exists :: "database \<Rightarrow> db_error + database" where
  "create_table_users_if_not_exists d =
     (case users d of None \<Rightarrow> Inr (d\<lparr>users := Some new_table\<rparr>) | Some _ \<Rightarrow> Inr d)"

text \<open>\<^verbatim>\<open>DROP TABLE IF EXISTS user_movies\<close>; the engine decides what becomes of the trigger.\<close>

definition drop_table_if_exists_user_movies :: "engine \<Rightarrow> database \<Rightarrow> db_error + database" where
  "drop_table_if_exists_user_movies eng d =
     (case user_movies d of
        None \<Rightarrow> Inr d
      | Some _ \<Rightarrow>
          Inr (d\<lparr>user_movies := None,
                 after_movie_delete :=
                   (if drop_table_drops_triggers eng then False else after_movie_delete d)\<rparr>))"

text \<open>
  \<^verbatim>\<open>DROP TABLE IF EXISTS movies\<close>: refused while \<^verbatim>\<open>user_movies\<close>, whose foreign key
  references \<^verbatim>\<open>movies\<close>, exists.
\<close>

definition drop_table_if_exists_movies :: "database \<Rightarrow> db_error + database" where
  "drop_table_if_exists_movies d =
     (case movies d of
        None \<Rightarrow> Inr d
      | Some _ \<Rightarrow>
          if user_movies d \<noteq> None then Inl ER_FK_CANNOT_DROP_PARENT
          else Inr (d\<lparr>movies := None\<rparr>))"

text \<open>\<^verbatim>\<open>CREATE TABLE movies (...)\<close>, without \<^verbatim>\<open>IF NOT EXISTS\<close>.\<close>

definition create_table_movies :: "database \<Rightarrow> db_error + database" where
  "create_table_movies d =
     (if movies d \<noteq> None then Inl ER_TABLE_EXISTS_ERROR
      else Inr (d\<lparr>movies := Some new_table\<rparr>))"

text \<open>
  \<^verbatim>\<open>CREATE TABLE user_movies (...)\<close>, without \<^verbatim>\<open>IF NOT EXISTS\<close>; its two foreign keys
  need the tables \<^verbatim>\<open>users\<close> and \<^verbatim>\<open>movies\<close>.
\<close>

definition create_table_user_movies :: "database \<Rightarrow> db_error + database" where
  "create_table_user_movies d =
     (if user_movies d \<noteq> None then Inl ER_TABLE_EXISTS_ERROR
      else if users d = None \<or> movies d = None then Inl ER_FK_CANNOT_OPEN_PARENT
      else Inr (d\<lparr>user_movies := Some []\<rparr>))"

text \<open>\<^verbatim>\<open>CREATE TABLE IF NOT EXISTS user_moods (...)\<close>; its foreign key needs \<^verbatim>\<open>users\<close>.\<close>

definition create_table_user_moods_if_not_exists :: "database \<Rightarrow> db_error + database" where
  "create_table_user_moods_if_not_exists d =
     (case user_moods d of
        Some _ \<Rightarrow> Inr d
      | None \<Rightarrow>
          if users d = None then Inl ER_FK_CANNOT_OPEN_PARENT
          else Inr (d\<lparr>user_moods := Some new_table\<rparr>))"

text \<open>\<^verbatim>\<open>CREATE TABLE IF NOT EXISTS deletion_logs (...)\<close>; the table declares no foreign key.\<close>

definition create_table_deletion_logs_if_not_exists :: "database \<Rightarrow> db_error + database" where
  "create_table_deletion_logs_if_not_exists d =
     (case deletion_logs d of
        Some _ \<Rightarrow> Inr d
      | None \<Rightarrow> Inr (d\<lparr>deletion_logs := Some new_table\<rparr>))"

text \<open>
  \<^verbatim>\<open>CREATE TRIGGER after_movie_delete AFTER DELETE ON user_movies FOR EACH ROW ...\<close>:
  the statement has no existence guard.
\<close>

definition create_trigger_after_movie_delete :: "database \<Rightarrow> db_error + database" where
  "create_trigger_after_movie_delete d =
     (if user_movies d = None then Inl ER_NO_SUCH_TABLE
      else if after_movie_delete d then Inl ER_TRG_ALREADY_EXISTS
      else Inr (d\<lparr>after_movie_delete := True\<rparr>))"

text \<open>
  The body of the trigger, for one deleted row \<open>old\<close>:
  \<^verbatim>\<open>INSERT INTO deletion_logs (user_id, movie_id, deleted_at)
   VALUES (OLD.user_id, OLD.movie_id, NOW())\<close>.
  The new row takes its \<^verbatim>\<open>id\<close> from the counter of \<^verbatim>\<open>deletion_logs\<close>; nothing is checked
  against \<^verbatim>\<open>users\<close> or \<^verbatim>\<open>movies\<close>.
\<close>

definition insert_deletion_log :: "user_movie_row \<Rightarrow> database \<Rightarrow> db_error + database" where
  "insert_deletion_log old d =
     (case deletion_logs d of
        None \<Rightarrow> Inl ER_NO_SUCH_TABLE
      | Some t \<Rightarrow>
          Inr (d\<lparr>deletion_logs :=
                   Some \<lparr>table_rows = table_rows t @
                           [\<lparr>deletion_logs_id = auto_increment t,
                             deletion_logs_user_id = user_movies_user_id old,
                             deletion_logs_movie_id = user_movies_movie_id old\<rparr>],
                         auto_increment = auto_increment t + 1\<rparr>\<rparr>))"

fun fire_after_movie_delete :: "user_movie_row list \<Rightarrow> database \<Rightarrow> db_error + database" where
  "fire_after_movie_delete [] d = Inr d"
| "fire_after_movie_delete (old # olds) d =
     (case insert_deletion_log old d of
        Inl e \<Rightarrow> Inl e
      | Inr d' \<Rightarrow> fire_after_movie_delete olds d')"

text \<open>
  Removing the rows of \<^verbatim>\<open>user_movies\<close> that satisfy \<open>P\<close>. The trigger runs once for each
  removed row when it exists and the removal activates triggers (\<open>activates\<close>).
\<close>

definition remove_user_movies ::
  "bool \<Rightarrow> (user_movie_row \<Rightarrow> bool) \<Rightarrow> user_movie_row list \<Rightarrow> database \<Rightarrow> db_error + database"
where
  "remove_user_movies activates P rs d =
     (let d1 = d\<lparr>user_movies := Some (filter (\<lambda>r. \<not> P r) rs)\<rparr>
      in if activates \<and> after_movie_delete d then fire_after_movie_delete (filter P rs) d1
         else Inr d1)"

text \<open>
  \<^verbatim>\<open>DELETE FROM user_movies [WHERE P]\<close>, a deletion that names the table: it activates the
  trigger. The script issues it without \<^verbatim>\<open>WHERE\<close>.
\<close>

definition delete_from_user_movies :: "(user_movie_row \<Rightarrow> bool) \<Rightarrow> database \<Rightarrow> db_error + database" where
  "delete_from_user_movies P d =
     (case user_movies d of
        None \<Rightarrow> Inl ER_NO_SUCH_TABLE
      | Some rs \<Rightarrow> remove_user_movies True P rs d)"

text \<open>
  The two \<^verbatim>\<open>ON DELETE CASCADE\<close> foreign keys of \<^verbatim>\<open>user_movies\<close> and the one of
  \<^verbatim>\<open>user_moods\<close>: when rows of a parent table go, the child rows that reference them go
  as well. Whether that activates the trigger is the engine's choice.
\<close>

definition cascade_user_movies :: "engine \<Rightarrow> (user_movie_row \<Rightarrow> bool) \<Rightarrow> database \<Rightarrow> db_error + database" where
  "cascade_user_movies eng P d =
     (case user_movies d of
        None \<Rightarrow> Inr d
      | Some rs \<Rightarrow> remove_user_movies (cascade_fires_triggers eng) P rs d)"

definition cascade_user_moods :: "(user_mood_row \<Rightarrow> bool) \<Rightarrow> database \<Rightarrow> database" where
  "cascade_user_moods P d =
     (case user_moods d of
        None \<Rightarrow> d
      | Some t \<Rightarrow> d\<lparr>user_moods := Some (t\<lparr>table_rows := filter (\<lambda>r. \<not> P r) (table_rows t)\<rparr>)\<rparr>)"

text \<open>\<^verbatim>\<open>DELETE FROM user_moods\<close>\<close>

definition delete_from_user_moods :: "database \<Rightarrow> db_error + database" where
  "delete_from_user_moods d =
     (case user_moods d of
        None \<Rightarrow> Inl ER_NO_SUCH_TABLE
      | Some t \<Rightarrow> Inr (d\<lparr>user_moods := Some (t\<lparr>table_rows := []\<rparr>)\<rparr>))"

text \<open>
  \<^verbatim>\<open>DELETE FROM users WHERE P\<close>; the script's \<open>P\<close> is \<^verbatim>\<open>username LIKE 'testuser%'\<close>.
\<close>

definition delete_from_users :: "engine \<Rightarrow> (user_row \<Rightarrow> bool) \<Rightarrow> database \<Rightarrow> db_error + database" where
  "delete_from_users eng P d =
     (case users d of
        None \<Rightarrow> Inl ER_NO_SUCH_TABLE
      | Some t \<Rightarrow>
          let ids = map users_id (filter P (table_rows t));
              d1 = d\<lparr>users := Some (t\<lparr>table_rows := filter (\<lambda>r. \<not> P r) (table_rows t)\<rparr>)\<rparr>
          in case cascade_user_movies eng (\<lambda>r. user_movies_user_id r \<in> set ids) d1 of
               Inl e \<Rightarrow> Inl e
             | Inr d2 \<Rightarrow> Inr (cascade_user_moods (\<lambda>r. user_moods_user_id r \<in> set ids) d2))"

definition username_like_testuser :: "engine \<Rightarrow> user_row \<Rightarrow> bool" where
  "username_like_testuser eng r = sql_like (collation eng) ''testuser%'' (users_username r)"

text \<open>\<^verbatim>\<open>DELETE FROM movies [WHERE P]\<close>; the script issues it without \<^verbatim>\<open>WHERE\<close>.\<close>

definition delete_from_movies :: "engine \<Rightarrow> (movie_row \<Rightarrow> bool) \<Rightarrow> database \<Rightarrow> db_error + database" where
  "delete_from_movies eng P d =
     (case movies d of
        None \<Rightarrow> Inl ER_NO_SUCH_TABLE
      | Some t \<Rightarrow>
          let ids = map movies_id (filter P (table_rows t));
              d1 = d\<lparr>movies := Some (t\<lparr>table_rows := filter (\<lambda>r. \<not> P r) (table_rows t)\<rparr>)\<rparr>
          in cascade_user_movies eng (\<lambda>r. user_movies_movie_id r \<in> set ids) d1)"

text \<open>
  \<^verbatim>\<open>INSERT INTO movies (title, tmdb_id, overview, poster_path, vote_average) VALUES ...\<close>:
  each tuple becomes a row whose \<^verbatim>\<open>id\<close> is the next value of the counter; \<^verbatim>\<open>tmdb_id\<close> is
  \<^verbatim>\<open>UNIQUE\<close>, so a value that the table or an earlier tuple already has is refused.
\<close>

record movie_values =
  title :: string
  tmdb_id :: "int option"
  overview :: "string option"
  poster_path :: "string option"
  vote_average :: "int option"

definition movie_of_values :: "int \<Rightarrow> nat \<times> movie_values \<Rightarrow> movie_row" where
  "movie_of_values first kv =
     \<lparr>movies_id = first + int (fst kv),
      movies_tmdb_id = tmdb_id (snd kv),
      movies_title = title (snd kv),
      movies_overview = overview (snd kv),
      movies_poster_path = poster_path (snd kv),
      movies_vote_average = vote_average (snd kv)\<rparr>"

definition insert_into_movies :: "movie_values list \<Rightarrow> database \<Rightarrow> db_error + database" where
  "insert_into_movies vs d =
     (case movies d of
        None \<Rightarrow> Inl ER_NO_SUCH_TABLE
      | Some t \<Rightarrow>
          let keys = filter (\<lambda>k. k \<noteq> None) (map movies_tmdb_id (table_rows t) @ map tmdb_id vs)
          in if \<not> distinct keys then Inl ER_DUP_ENTRY
             else Inr (d\<lparr>movies :=
                          Some \<lparr>table_rows = table_rows t @
                                  map (movie_of_values (auto_increment t)) (enumerate 0 vs),
                                auto_increment = auto_increment t + int (length vs)\<rparr>\<rparr>))"

definition test_movies :: "movie_values list" where
  "test_movies =
    [ \<lparr>title = ''The Shawshank Redemption'', tmdb_id = Some 278,
       overview = Some ''Two imprisoned men bond over a number of years.'',
       poster_path = Some ''/path/to/poster1.jpg'', vote_average = Some 93\<rparr>,
      \<lparr>title = ''The Godfather'', tmdb_id = Some 238,
       overview = Some ''The aging patriarch of an organized crime dynasty.'',
       poster_path = Some ''/path/to/poster2.jpg'', vote_average = Some 92\<rparr>,
      \<lparr>title = ''The Dark Knight'', tmdb_id = Some 155,
       overview = Some ''Batman raises the stakes in his war on crime.'',
       poster_path = Some ''/path/to/poster3.jpg'', vote_average = Some 90\<rparr> ]"

text \<open>\<^verbatim>\<open>SELECT * FROM movies\<close>\<close>

definition select_from_movies :: "database \<Rightarrow> db_error + movie_row list" where
  "select_from_movies d =
     (case movies d of None \<Rightarrow> Inl ER_NO_SUCH_TABLE | Some t \<Rightarrow> Inr (table_rows t))"

subsection \<open>JavaScript values and the HTTP client\<close>

text \<open>
  The values the script handles: what \<^verbatim>\<open>axios\<close> parses from a response body, and
  \<^verbatim>\<open>undefined\<close>. An object is the list of its properties, in the order in which
  JavaScript enumerates them.

  A number is a double in JavaScript. The script does no arithmetic on numbers: it
  converts a number to a string, compares it by \<^verbatim>\<open>===\<close> with the literal \<open>1\<close>, tests it for
  truth and serialises it. Each of the four is determined by the text that \<^verbatim>\<open>String(x)\<close>
  gives for the number (\<open>1\<close>, \<open>9.3\<close>, \<open>1e+21\<close>, \<open>NaN\<close>), so a number is kept as that text.
  The two zeros share the text \<open>0\<close> and behave alike in all four.
\<close>

datatype json =
    JUndefined | JNull | JBool bool | JNum string | JStr string
  | JArr "json list" | JObj "(string \<times> json) list"

datatype http_method = GET | POST | PUT | DELETE

record request =
  http_method :: http_method
  url :: string
  body :: json

text \<open>
  What the script catches: a \<^verbatim>\<open>TypeError\<close> of the language (a property read on
  \<^verbatim>\<open>undefined\<close> or \<^verbatim>\<open>null\<close>, a call of something that is no function), or the error
  \<^verbatim>\<open>axios\<close> rejects with, which carries its message, the response (status and body)
  when there was one, and the request as \<^verbatim>\<open>config\<close>.
\<close>

datatype js_error = TypeError string | AxiosError string "(nat \<times> json) option" request

text \<open>
  The object that the \<^verbatim>\<open>catch\<close> block of \<^verbatim>\<open>testAPI\<close> prints. A field that is
  \<^verbatim>\<open>undefined\<close> is \<open>None\<close> (\<open>JUndefined\<close> for the two fields that hold any value).
\<close>

record failure_report =
  message :: json
  status :: "nat option"
  endpoint :: "string option"
  "method" :: "string option"
  data :: json

datatype payload =
    NoData | Text string | Rows "movie_row list" | Cause db_error | Data json
  | Report failure_report

text \<open>
  What a run of the script does to the outside, in order: lines on the console, calls of
  the database driver, calls of \<^verbatim>\<open>axios\<close>.
\<close>

datatype event =
    ConsoleLog string payload | ConsoleError string payload
  | CreateConnection conn_config | ConnectionQuery nat | ConnectionEnd
  | Axios request

text \<open>
  The decimal digits of a natural number: the text of \<^verbatim>\<open>Date.now()\<close>, a whole number of
  milliseconds that is far below \<open>10^21\<close>, where JavaScript starts to print exponents, and
  the text of an HTTP status.
\<close>

definition digit_char :: "nat \<Rightarrow> char" where
  "digit_char n = ''0123456789'' ! (n mod 10)"

function show_nat :: "nat \<Rightarrow> string" where
  "show_nat n = (if n < 10 then [digit_char n] else show_nat (n div 10) @ [digit_char (n mod 10)])"
  by pat_completeness auto
termination
  by (relation "measure (\<lambda>n. n)") auto

declare show_nat.simps [simp del]

fun join_comma :: "string list \<Rightarrow> string" where
  "join_comma [] = []"
| "join_comma [s] = s"
| "join_comma (s # ss) = s @ '','' @ join_comma ss"

text \<open>String conversion, as a template literal \<^verbatim>\<open>`${x}`\<close> does it.\<close>

fun js_to_string :: "json \<Rightarrow> string" where
  "js_to_string JUndefined = ''undefined''"
| "js_to_string JNull = ''null''"
| "js_to_string (JBool b) = (if b then ''true'' else ''false'')"
| "js_to_string (JNum n) = n"
| "js_to_string (JStr s) = s"
| "js_to_string (JArr xs) =
     join_comma (map (\<lambda>x. if x = JUndefined \<or> x = JNull then [] else js_to_string x) xs)"
| "js_to_string (JObj kvs) = ''[object Object]''"

text \<open>Truth of a value: false are \<^verbatim>\<open>undefined\<close>, \<^verbatim>\<open>null\<close>, \<^verbatim>\<open>false\<close>, zero, \<^verbatim>\<open>NaN\<close> and the empty string.\<close>

definition truthy :: "json \<Rightarrow> bool" where
  "truthy x =
     (case x of
        JUndefined \<Rightarrow> False | JNull \<Rightarrow> False | JBool b \<Rightarrow> b
      | JNum n \<Rightarrow> n \<noteq> ''0'' \<and> n \<noteq> ''NaN''
      | JStr s \<Rightarrow> s \<noteq> [] | JArr _ \<Rightarrow> True | JObj _ \<Rightarrow> True)"

text \<open>\<^verbatim>\<open>a || b\<close>\<close>

definition js_or :: "json \<Rightarrow> json \<Rightarrow> json" where
  "js_or a b = (if truthy a then a else b)"

text \<open>
  The \<^verbatim>\<open>TypeError\<close> of a property read on \<^verbatim>\<open>undefined\<close> or \<^verbatim>\<open>null\<close>, with the message
  of the V8 engine: \<^verbatim>\<open>Cannot read properties of undefined (reading 'id')\<close>.
\<close>

definition cannot_read :: "string \<Rightarrow> string \<Rightarrow> js_error" where
  "cannot_read what f =
     TypeError (''Cannot read properties of '' @ what @ '' (reading '' @ [CHR 0x27] @ f @ [CHR 0x27] @ '')'')"

text \<open>
  \<^verbatim>\<open>x.f\<close> for the field names the script reads (none of them is a property of a string,
  a number or an array): a \<^verbatim>\<open>TypeError\<close> on \<^verbatim>\<open>undefined\<close> and \<^verbatim>\<open>null\<close>; on an object the
  field, where a name written twice has its last value; \<^verbatim>\<open>undefined\<close> otherwise.
\<close>

definition property :: "json \<Rightarrow> string \<Rightarrow> js_error + json" where
  "property x f =
     (case x of
        JUndefined \<Rightarrow> Inl (cannot_read ''undefined'' f)
      | JNull \<Rightarrow> Inl (cannot_read ''null'' f)
      | JObj kvs \<Rightarrow> Inr (case map_of (rev kvs) f of None \<Rightarrow> JUndefined | Some v \<Rightarrow> v)
      | _ \<Rightarrow> Inr JUndefined)"

text \<open>\<^verbatim>\<open>x?.f\<close>\<close>

definition optional_prop :: "json \<Rightarrow> string \<Rightarrow> json" where
  "optional_prop x f = (case property x f of Inl _ \<Rightarrow> JUndefined | Inr v \<Rightarrow> v)"

text \<open>\<^verbatim>\<open>x[0]\<close>\<close>

definition index0 :: "json \<Rightarrow> js_error + json" where
  "index0 x =
     (case x of
        JUndefined \<Rightarrow> Inl (cannot_read ''undefined'' ''0'')
      | JNull \<Rightarrow> Inl (cannot_read ''null'' ''0'')
      | JArr xs \<Rightarrow> Inr (case xs of [] \<Rightarrow> JUndefined | y # _ \<Rightarrow> y)
      | JStr s \<Rightarrow> Inr (case s of [] \<Rightarrow> JUndefined | c # _ \<Rightarrow> JStr [c])
      | JObj kvs \<Rightarrow> Inr (case map_of (rev kvs) ''0'' of None \<Rightarrow> JUndefined | Some v \<Rightarrow> v)
      | _ \<Rightarrow> Inr JUndefined)"

text \<open>
  \<^verbatim>\<open>xs.some(movie => movie.id === movieId)\<close>, where \<^verbatim>\<open>movieId\<close> is a number: left to
  right, stopping at the first element whose \<^verbatim>\<open>id\<close> is that number; only an array has
  \<^verbatim>\<open>some\<close>.
\<close>

fun some_id :: "string \<Rightarrow> json list \<Rightarrow> js_error + bool" where
  "some_id movieId [] = Inr False"
| "some_id movieId (movie # rest) =
     (case property movie ''id'' of
        Inl e \<Rightarrow> Inl e
      | Inr v \<Rightarrow> if v = JNum movieId then Inr True else some_id movieId rest)"

definition array_some_id :: "string \<Rightarrow> json \<Rightarrow> js_error + bool" where
  "array_some_id movieId x =
     (case x of
        JArr xs \<Rightarrow> some_id movieId xs
      | JUndefined \<Rightarrow> Inl (cannot_read ''undefined'' ''some'')
      | JNull \<Rightarrow> Inl (cannot_read ''null'' ''some'')
      | _ \<Rightarrow> Inl (TypeError ''updatedMovies.some is not a function''))"

text \<open>
  \<^verbatim>\<open>JSON.stringify\<close>. A string stands between double quotes, with the double quote, the
  backslash and the control characters escaped; a number that is not finite becomes
  \<^verbatim>\<open>null\<close>; a property whose value is \<^verbatim>\<open>undefined\<close> is left out of an object, and an
  \<^verbatim>\<open>undefined\<close> element of an array becomes \<^verbatim>\<open>null\<close>.
\<close>

definition json_escapes :: "(char \<times> string) list" where
  "json_escapes =
    [ (CHR 0x22, [CHR 0x5C, CHR 0x22]), (CHR 0x5C, [CHR 0x5C, CHR 0x5C]),
      (CHR 0x00, CHR 0x5C # ''u0000''), (CHR 0x01, CHR 0x5C # ''u0001''),
      (CHR 0x02, CHR 0x5C # ''u0002''), (CHR 0x03, CHR 0x5C # ''u0003''),
      (CHR 0x04, CHR 0x5C # ''u0004''), (CHR 0x05, CHR 0x5C # ''u0005''),
      (CHR 0x06, CHR 0x5C # ''u0006''), (CHR 0x07, CHR 0x5C # ''u0007''),
      (CHR 0x08, [CHR 0x5C, CHR ''b'']), (CHR 0x09, [CHR 0x5C, CHR ''t'']),
      (CHR 0x0A, [CHR 0x5C, CHR ''n'']), (CHR 0x0B, CHR 0x5C # ''u000b''),
      (CHR 0x0C, [CHR 0x5C, CHR ''f'']), (CHR 0x0D, [CHR 0x5C, CHR ''r'']),
      (CHR 0x0E, CHR 0x5C # ''u000e''), (CHR 0x0F, CHR 0x5C # ''u000f''),
      (CHR 0x10, CHR 0x5C # ''u0010''), (CHR 0x11, CHR 0x5C # ''u0011''),
      (CHR 0x12, CHR 0x5C # ''u0012''), (CHR 0x13, CHR 0x5C # ''u0013''),
      (CHR 0x14, CHR 0x5C # ''u0014''), (CHR 0x15, CHR 0x5C # ''u0015''),
      (CHR 0x16, CHR 0x5C # ''u0016''), (CHR 0x17, CHR 0x5C # ''u0017''),
      (CHR 0x18, CHR 0x5C # ''u0018''), (CHR 0x19, CHR 0x5C # ''u0019''),
      (CHR 0x1A, CHR 0x5C # ''u001a''), (CHR 0x1B, CHR 0x5C # ''u001b''),
      (CHR 0x1C, CHR 0x5C # ''u001c''), (CHR 0x1D, CHR 0x5C # ''u001d''),
      (CHR 0x1E, CHR 0x5C # ''u001e''), (CHR 0x1F, CHR 0x5C # ''u001f'') ]"

definition json_quote :: "string \<Rightarrow> string" where
  "json_quote s =
     [CHR 0x22] @ concat (map (\<lambda>c. case map_of json_escapes c of None \<Rightarrow> [c] | Some e \<Rightarrow> e) s)
     @ [CHR 0x22]"

fun json_stringify :: "json \<Rightarrow> string" where
  "json_stringify JUndefined = ''null''"
| "json_stringify JNull = ''null''"
| "json_stringify (JBool b) = (if b then ''true'' else ''false'')"
| "json_stringify (JNum n) =
     (if n = ''NaN'' \<or> n = ''Infinity'' \<or> n = ''-Infinity'' then ''null'' else n)"
| "json_stringify (JStr s) = json_quote s"
| "json_stringify (JArr xs) = ''['' @ join_comma (map json_stringify xs) @ '']''"
| "json_stringify (JObj kvs) =
     ''{'' @ join_comma (map (\<lambda>kv. json_quote (fst kv) @ '':'' @ json_stringify (snd kv))
                           (filter (\<lambda>kv. snd kv \<noteq> JUndefined) kvs)) @ ''}''"

text \<open>
  What \<^verbatim>\<open>axios\<close> keeps as \<^verbatim>\<open>config.data\<close> of a request: the JSON text of the object that
  the script passes as the body, and \<^verbatim>\<open>undefined\<close> when the script passes none. The script
  passes nothing else. The \<^verbatim>\<open>config.method\<close> it keeps is the name of the method in lower
  case.
\<close>

definition config_data :: "json \<Rightarrow> json" where
  "config_data b =
     (case b of
        JObj _ \<Rightarrow> JStr (json_stringify b)
      | JArr _ \<Rightarrow> JStr (json_stringify b)
      | _ \<Rightarrow> b)"

definition config_method :: "http_method \<Rightarrow> string" where
  "config_method m = (case m of GET \<Rightarrow> ''get'' | POST \<Rightarrow> ''post'' | PUT \<Rightarrow> ''put'' | DELETE \<Rightarrow> ''delete'')"

text \<open>
  The API service is not part of the script. It is a parameter: what it answers to a
  request of the script, given the requests that the script has made before. The answer
  is a response, with its status and its parsed body; or a redirect, which is a response
  with a status in \<open>300..399\<close> and a \<^verbatim>\<open>Location\<close> header, and of which only what comes of
  the request that the HTTP client then makes on its own matters; or nothing (the
  connection failed; the string is the client's error message). A response with a status
  in \<open>300..399\<close> that has no \<^verbatim>\<open>Location\<close> header is of the first kind: the client does not
  follow it.
\<close>

datatype reply = Reply nat json | Redirect reply | NoReply string

type_synonym api_service = "request list \<Rightarrow> request \<Rightarrow> reply"

text \<open>
  The HTTP client follows redirects, up to 21 of them for one call (the default of its
  transport, which the script does not change), and gives up at the next one. What a call
  ends with: the status and body of the response at the end of the redirects, or an error
  message without a response.
\<close>

fun settle :: "nat \<Rightarrow> reply \<Rightarrow> string + nat \<times> json" where
  "settle n (Reply st b) = Inr (st, b)"
| "settle n (NoReply msg) = Inl msg"
| "settle n (Redirect r) =
     (case n of 0 \<Rightarrow> Inl ''Maximum number of redirects exceeded'' | Suc m \<Rightarrow> settle m r)"

definition maxRedirects :: nat where
  "maxRedirects = 21"

text \<open>
  An awaited step of \<^verbatim>\<open>testAPI\<close>: it extends the events and returns a value or throws.
  \<open>await_then\<close> is the sequencing of the \<^verbatim>\<open>try\<close> block: after a throw nothing of the
  rest runs.
\<close>

type_synonym 'a js = "event list \<Rightarrow> (js_error + 'a) \<times> event list"

definition await_then :: "'a js \<Rightarrow> ('a \<Rightarrow> 'b js) \<Rightarrow> 'b js" where
  "await_then m f t = (case m t of (Inl e, t') \<Rightarrow> (Inl e, t') | (Inr x, t') \<Rightarrow> f x t')"

definition evaluate :: "js_error + 'a \<Rightarrow> 'a js" where
  "evaluate r t = (r, t)"

definition console_log :: "string \<Rightarrow> payload \<Rightarrow> unit js" where
  "console_log label x t = (Inr (), t @ [ConsoleLog label x])"

definition console_error :: "string \<Rightarrow> payload \<Rightarrow> unit js" where
  "console_error label x t = (Inr (), t @ [ConsoleError label x])"

text \<open>The calls of \<^verbatim>\<open>axios\<close> among the events, in order.\<close>

fun requests_of :: "event list \<Rightarrow> request list" where
  "requests_of [] = []"
| "requests_of (Axios r # es) = r # requests_of es"
| "requests_of (_ # es) = requests_of es"

text \<open>
  One \<^verbatim>\<open>axios\<close> call; the value is the \<^verbatim>\<open>data\<close> of the response. The call resolves when
  the status of the response it ends with is in \<open>200..299\<close> (the client's default
  \<^verbatim>\<open>validateStatus\<close>); with any other status, and without a response, it rejects.
\<close>

definition axios :: "api_service \<Rightarrow> request \<Rightarrow> json js" where
  "axios api req t =
     (case settle maxRedirects (api (requests_of t) req) of
        Inr (st, b) \<Rightarrow>
          if 200 \<le> st \<and> st < 300 then (Inr b, t @ [Axios req])
          else (Inl (AxiosError (''Request failed with status code '' @ show_nat st) (Some (st, b)) req),
                t @ [Axios req])
      | Inl msg \<Rightarrow> (Inl (AxiosError msg None req), t @ [Axios req]))"

definition API_URL :: string where
  "API_URL = ''http://localhost:3000''"

subsection \<open>The server, the connection and the queries\<close>

text \<open>
  The server holds databases by name and counts the connections open to it. A
  connection starts with no database selected. A statement runs on the connection's
  view of the server.
\<close>

record mysql_server =
  databases :: "string \<rightharpoonup> database"
  open_connections :: nat

record session =
  server :: mysql_server
  current_db :: "string option"

type_synonym statement = "session \<Rightarrow> db_error + session"

text \<open>\<^verbatim>\<open>CREATE DATABASE IF NOT EXISTS name\<close>\<close>

definition create_database_if_not_exists :: "string \<Rightarrow> statement" where
  "create_database_if_not_exists name ss =
     (case databases (server ss) name of
        Some _ \<Rightarrow> Inr ss
      | None \<Rightarrow>
          Inr (ss\<lparr>server := (server ss)\<lparr>databases := (databases (server ss))(name \<mapsto> empty_database)\<rparr>\<rparr>))"

text \<open>\<^verbatim>\<open>USE name\<close>\<close>

definition use_database :: "string \<Rightarrow> statement" where
  "use_database name ss =
     (if databases (server ss) name = None then Inl ER_BAD_DB_ERROR
      else Inr (ss\<lparr>current_db := Some name\<rparr>))"

text \<open>A statement on tables runs on the selected database.\<close>

definition on_current_db :: "(database \<Rightarrow> db_error + database) \<Rightarrow> statement" where
  "on_current_db f ss =
     (case current_db ss of
        None \<Rightarrow> Inl ER_NO_DB_ERROR
      | Some name \<Rightarrow>
          (case databases (server ss) name of
             None \<Rightarrow> Inl ER_BAD_DB_ERROR
           | Some d \<Rightarrow>
               (case f d of
                  Inl e \<Rightarrow> Inl e
                | Inr d' \<Rightarrow>
                    Inr (ss\<lparr>server := (server ss)\<lparr>databases := (databases (server ss))(name \<mapsto> d')\<rparr>\<rparr>))))"

text \<open>
  A query with \<^verbatim>\<open>multipleStatements\<close>: the statements run in order, the first error
  ends the query, and what the earlier statements did stays done.
\<close>

fun run_statements :: "('s \<Rightarrow> db_error + 's) list \<Rightarrow> 's \<Rightarrow> db_error option \<times> 's" where
  "run_statements [] s = (None, s)"
| "run_statements (f # fs) s =
     (case f s of Inl e \<Rightarrow> (Some e, s) | Inr s' \<Rightarrow> run_statements fs s')"

text \<open>The statements of the modifying queries of \<^verbatim>\<open>setupTestDatabase\<close>.\<close>

definition create_tables :: "engine \<Rightarrow> (database \<Rightarrow> db_error + database) list" where
  "create_tables eng =
    [ create_table_users_if_not_exists,
      drop_table_if_exists_user_movies eng,
      drop_table_if_exists_movies,
      create_table_movies,
      create_table_user_movies,
      create_table_user_moods_if_not_exists,
      create_table_deletion_logs_if_not_exists,
      create_trigger_after_movie_delete ]"

definition clear_test_data :: "engine \<Rightarrow> (database \<Rightarrow> db_error + database) list" where
  "clear_test_data eng =
    [ delete_from_user_movies (\<lambda>_. True),
      delete_from_user_moods,
      delete_from_users eng (username_like_testuser eng),
      delete_from_movies eng (\<lambda>_. True) ]"

definition insert_test_movies :: "(database \<Rightarrow> db_error + database) list" where
  "insert_test_movies = [insert_into_movies test_movies]"

text \<open>Each query with the console line that announces it.\<close>

definition setup_queries :: "engine \<Rightarrow> (string \<times> statement list) list" where
  "setup_queries eng =
    [ (''Creating database if it doesn't exist...'',
         [create_database_if_not_exists ''movie_recommendation_app'']),
      (''Switching to movie_recommendation_app database...'',
         [use_database ''movie_recommendation_app'']),
      (''Creating tables...'', map on_current_db (create_tables eng)),
      (''Clearing existing test data...'', map on_current_db (clear_test_data eng)),
      (''Inserting test movies...'', map on_current_db insert_test_movies) ]"

text \<open>
  The host of the server, as the script meets it: how it answers the connection attempt,
  and whether the \<open>k\<close>-th query of the connection is cut off before it runs (a lost
  connection, a timeout).
\<close>

record db_host =
  accepts :: "conn_config \<Rightarrow> db_error option"
  fault :: "nat \<Rightarrow> db_error option"

definition query :: "db_host \<Rightarrow> nat \<Rightarrow> statement list \<Rightarrow> session \<Rightarrow> db_error option \<times> session" where
  "query h k q ss = (case fault h k of Some e \<Rightarrow> (Some e, ss) | None \<Rightarrow> run_statements q ss)"

fun run_queries ::
  "db_host \<Rightarrow> nat \<Rightarrow> (string \<times> statement list) list \<Rightarrow> session \<Rightarrow> event list
     \<Rightarrow> db_error option \<times> session \<times> event list"
where
  "run_queries h k [] ss t = (None, ss, t)"
| "run_queries h k ((line, q) # qs) ss t =
     (case query h k q ss of
        (Some e, ss') \<Rightarrow> (Some e, ss', t @ [ConsoleLog line NoData, ConnectionQuery k])
      | (None, ss') \<Rightarrow> run_queries h (Suc k) qs ss' (t @ [ConsoleLog line NoData, ConnectionQuery k]))"

definition query_select_movies :: "db_host \<Rightarrow> nat \<Rightarrow> session \<Rightarrow> db_error + movie_row list" where
  "query_select_movies h k ss =
     (case fault h k of
        Some e \<Rightarrow> Inl e
      | None \<Rightarrow>
          (case current_db ss of
             None \<Rightarrow> Inl ER_NO_DB_ERROR
           | Some name \<Rightarrow>
               (case databases (server ss) name of
                  None \<Rightarrow> Inl ER_BAD_DB_ERROR
                | Some d \<Rightarrow> select_from_movies d)))"

subsection \<open>\<^verbatim>\<open>setupTestDatabase\<close>\<close>

text \<open>The \<^verbatim>\<open>catch\<close> block.\<close>

definition catch_setup_error :: "db_error \<Rightarrow> event list" where
  "catch_setup_error error =
     ConsoleError ''Detailed database setup error:'' (Cause error) #
     (if error = ER_ACCESS_DENIED_ERROR then
        [ConsoleError ''Access denied. Please check your MySQL username and password in .env file'' NoData]
      else if error = ECONNREFUSED then
        [ConsoleError ''Connection refused. Please check if MySQL is running'' NoData]
      else [])"

text \<open>\<^verbatim>\<open>connection.end()\<close>\<close>

definition connection_end :: "session \<Rightarrow> mysql_server" where
  "connection_end ss = (server ss)\<lparr>open_connections := open_connections (server ss) - 1\<rparr>"

record setup_result =
  returned :: bool
  server_after :: mysql_server
  events :: "event list"

text \<open>
  The function: the \<^verbatim>\<open>try\<close> block up to the first error, the \<^verbatim>\<open>catch\<close> block on an
  error, and the \<^verbatim>\<open>finally\<close> block, which ends the connection when there is one.
\<close>

definition setupTestDatabase :: "engine \<Rightarrow> db_host \<Rightarrow> process_env \<Rightarrow> mysql_server \<Rightarrow> setup_result" where
  "setupTestDatabase eng h env srv =
     (let cfg = connection_config env;
          t0 = [ConsoleLog ''Attempting to connect to MySQL...'' NoData,
                ConsoleLog ''Using host:'' (Text (host cfg)),
                ConsoleLog ''Using user:'' (Text (user cfg)),
                CreateConnection cfg]
      in case accepts h cfg of
           Some error \<Rightarrow>
             \<lparr>returned = False, server_after = srv, events = t0 @ catch_setup_error error\<rparr>
         | None \<Rightarrow>
             (let ss0 = \<lparr>server = srv\<lparr>open_connections := Suc (open_connections srv)\<rparr>,
                        current_db = None\<rparr>
              in case run_queries h 0 (setup_queries eng) ss0
                        (t0 @ [ConsoleLog ''Successfully connected to MySQL'' NoData]) of
                   (Some error, ss1, t1) \<Rightarrow>
                     \<lparr>returned = False, server_after = connection_end ss1,
                      events = t1 @ catch_setup_error error @ [ConnectionEnd]\<rparr>
                 | (None, ss1, t1) \<Rightarrow>
                     (case query_select_movies h 5 ss1 of
                        Inl error \<Rightarrow>
                          \<lparr>returned = False, server_after = connection_end ss1,
                           events = t1 @ [ConnectionQuery 5] @ catch_setup_error error @ [ConnectionEnd]\<rparr>
                      | Inr movies' \<Rightarrow>
                          \<lparr>returned = True, server_after = connection_end ss1,
                           events = t1 @ [ConnectionQuery 5,
                                          ConsoleLog ''Inserted movies:'' (Rows movies'),
                                          ConsoleLog ''Database setup completed successfully'' NoData,
                                          ConnectionEnd]\<rparr>)))"

subsection \<open>\<^verbatim>\<open>testAPI\<close>\<close>

text \<open>
  The object the \<^verbatim>\<open>catch\<close> block prints:
  \<^verbatim>\<open>message: error.response?.data?.message || error.message\<close>,
  \<^verbatim>\<open>status: error.response?.status\<close>, \<^verbatim>\<open>endpoint: error.config?.url\<close>,
  \<^verbatim>\<open>method: error.config?.method\<close>, \<^verbatim>\<open>data: error.config?.data\<close>.
  A \<^verbatim>\<open>TypeError\<close> has neither \<^verbatim>\<open>response\<close> nor \<^verbatim>\<open>config\<close>.
\<close>

definition failure_report :: "js_error \<Rightarrow> failure_report" where
  "failure_report error =
     (case error of
        TypeError msg \<Rightarrow>
          \<lparr>message = JStr msg, status = None, endpoint = None, method = None, data = JUndefined\<rparr>
      | AxiosError msg response config \<Rightarrow>
          \<lparr>message =
             js_or (case response of None \<Rightarrow> JUndefined | Some (st, b) \<Rightarrow> optional_prop b ''message'')
                   (JStr msg),
           status = map_option fst response,
           endpoint = Some (url config),
           method = Some (config_method (http_method config)),
           data = config_data (body config)\<rparr>)"

text \<open>
  The \<^verbatim>\<open>try\<close> block, statement by statement. A name bound to a response stands for the
  \<^verbatim>\<open>data\<close> of that response, which is all the script reads of it. \<open>now\<close> is the value of
  \<^verbatim>\<open>Date.now()\<close>. The console labels are written without their line breaks.
\<close>

definition user_movies_url :: "json \<Rightarrow> string" where
  "user_movies_url userId = API_URL @ ''/user/'' @ js_to_string userId @ ''/movies''"

definition testAPI_try :: "api_service \<Rightarrow> nat \<Rightarrow> unit js" where
  "testAPI_try api now =
     await_then (console_log ''=== Starting API Tests ==='' NoData) (\<lambda>_.
     (let testUser = JObj [(''username'', JStr (''testuser_'' @ show_nat now)),
                           (''password'', JStr ''password123'')] in
     await_then (console_log ''1. Testing user creation...'' NoData) (\<lambda>_.
     await_then (axios api \<lparr>http_method = POST, url = API_URL @ ''/users'', body = testUser\<rparr>)
       (\<lambda>createUserResponse.
     await_then (console_log ''User created:'' (Data createUserResponse)) (\<lambda>_.
     await_then (console_log ''2. Testing login...'' NoData) (\<lambda>_.
     await_then (axios api \<lparr>http_method = POST, url = API_URL @ ''/login'', body = testUser\<rparr>)
       (\<lambda>loginResponse.
     await_then (console_log ''Login successful:'' (Data loginResponse)) (\<lambda>_.
     await_then (evaluate (property createUserResponse ''userId'')) (\<lambda>userId.
     await_then (console_log ''3. Testing get users...'' NoData) (\<lambda>_.
     await_then (axios api \<lparr>http_method = GET, url = API_URL @ ''/users'', body = JUndefined\<rparr>)
       (\<lambda>usersResponse.
     await_then (console_log ''Users retrieved:'' (Data usersResponse)) (\<lambda>_.
     await_then (console_log ''4. Testing get all movies...'' NoData) (\<lambda>_.
     await_then (axios api \<lparr>http_method = GET, url = API_URL @ ''/movies'', body = JUndefined\<rparr>)
       (\<lambda>moviesResponse.
     await_then (console_log ''Available movies:'' (Data moviesResponse)) (\<lambda>_.
     await_then (console_log ''5. Testing adding movie to user...'' NoData) (\<lambda>_.
     await_then (evaluate (index0 moviesResponse)) (\<lambda>movieToAdd.
     await_then (evaluate (property movieToAdd ''tmdb_id'')) (\<lambda>movieToAdd_tmdb_id.
     await_then (evaluate (property movieToAdd ''title'')) (\<lambda>movieToAdd_title.
     await_then (evaluate (property movieToAdd ''overview'')) (\<lambda>movieToAdd_overview.
     await_then (evaluate (property movieToAdd ''poster_path'')) (\<lambda>movieToAdd_poster_path.
     await_then (evaluate (property movieToAdd ''vote_average'')) (\<lambda>movieToAdd_vote_average.
     await_then (axios api
         \<lparr>http_method = POST, url = user_movies_url userId,
          body = JObj [(''movieId'', movieToAdd_tmdb_id),
                       (''movieDetails'',
                          JObj [(''title'', movieToAdd_title),
                                (''overview'', js_or movieToAdd_overview (JStr [])),
                                (''poster_path'', js_or movieToAdd_poster_path (JStr [])),
                                (''vote_average'', js_or movieToAdd_vote_average (JNum ''0''))])]\<rparr>)
       (\<lambda>addMovieResponse.
     await_then (console_log ''Movie added:'' (Data addMovieResponse)) (\<lambda>_.
     await_then (console_log ''6. Testing get user movies...'' NoData) (\<lambda>_.
     await_then (axios api \<lparr>http_method = GET, url = user_movies_url userId, body = JUndefined\<rparr>)
       (\<lambda>userMoviesResponse.
     await_then (console_log ''User movies:'' (Data userMoviesResponse)) (\<lambda>_.
     (let movieId = ''1'' in
     await_then (console_log ''6. Testing delete movie from user...'' NoData) (\<lambda>_.
     await_then (axios api
         \<lparr>http_method = DELETE,
          url = user_movies_url userId @ ''/'' @ js_to_string (JNum movieId),
          body = JUndefined\<rparr>)
       (\<lambda>deleteResponse.
     await_then (console_log ''Movie deleted:'' (Data deleteResponse)) (\<lambda>_.
     await_then (axios api \<lparr>http_method = GET, url = user_movies_url userId, body = JUndefined\<rparr>)
       (\<lambda>updatedMovies.
     await_then (console_log ''Updated user movies list:'' (Data updatedMovies)) (\<lambda>_.
     await_then (evaluate (array_some_id movieId updatedMovies)) (\<lambda>movieStillExists.
     await_then
       (if movieStillExists then console_error ''Test failed: Movie was not deleted.'' NoData
        else console_log ''Test passed: Movie successfully deleted.'' NoData) (\<lambda>_.
     await_then (console_log ''8. Testing update user password...'' NoData) (\<lambda>_.
     await_then (axios api
         \<lparr>http_method = PUT,
          url = API_URL @ ''/user/'' @ js_to_string userId @ ''/password'',
          body = JObj [(''newPassword'', JStr ''newpassword456'')]\<rparr>)
       (\<lambda>updatePasswordResponse.
     await_then (console_log ''Password updated:'' (Data updatePasswordResponse)) (\<lambda>_.
     await_then (console_log ''9. Testing login with updated password...'' NoData) (\<lambda>_.
     await_then (evaluate (property testUser ''username'')) (\<lambda>testUser_username.
     await_then (axios api
         \<lparr>http_method = POST, url = API_URL @ ''/login'',
          body = JObj [(''username'', testUser_username),
                       (''password'', JStr ''newpassword456'')]\<rparr>)
       (\<lambda>newLoginResponse.
     await_then (console_log ''Login with updated password successful:'' (Data newLoginResponse)) (\<lambda>_.
     console_log ''=== All tests completed successfully ==='' NoData
     ))))))))))))))))))))))))))))))))))))))))))"

definition testAPI :: "api_service \<Rightarrow> nat \<Rightarrow> event list \<Rightarrow> event list" where
  "testAPI api now t =
     (case testAPI_try api now t of
        (Inl error, t') \<Rightarrow> t' @ [ConsoleError ''Test failed:'' (Report (failure_report error))]
      | (Inr _, t') \<Rightarrow> t')"

subsection \<open>\<^verbatim>\<open>runTests\<close>\<close>

definition runTests ::
  "engine \<Rightarrow> db_host \<Rightarrow> process_env \<Rightarrow> api_service \<Rightarrow> nat \<Rightarrow> mysql_server
     \<Rightarrow> mysql_server \<times> event list"
where
  "runTests eng h env api now srv =
     (let r = setupTestDatabase eng h env srv;
          t = ConsoleLog ''Setting up test database...'' NoData # events r
      in if returned r then
           (server_after r, testAPI api now (t @ [ConsoleLog ''Starting API tests...'' NoData]))
         else
           (server_after r,
            t @ [ConsoleLog ''Skipping API tests due to database setup failure'' NoData]))"

subsection \<open>Notions used in the statements\<close>

text \<open>
  The rows the trigger writes when it runs for the rows \<open>olds\<close>, in order, starting at
  the counter value \<open>a\<close>, and the table \<^verbatim>\<open>deletion_logs\<close> after that.
\<close>

fun logged :: "int \<Rightarrow> user_movie_row list \<Rightarrow> deletion_log_row list" where
  "logged a [] = []"
| "logged a (old # olds) =
     \<lparr>deletion_logs_id = a, deletion_logs_user_id = user_movies_user_id old,
      deletion_logs_movie_id = user_movies_movie_id old\<rparr> # logged (a + 1) olds"

definition log_append ::
  "deletion_log_row auto_table \<Rightarrow> user_movie_row list \<Rightarrow> deletion_log_row auto_table" where
  "log_append l olds =
     \<lparr>table_rows = table_rows l @ logged (auto_increment l) olds,
      auto_increment = auto_increment l + int (length olds)\<rparr>"

text \<open>
  The trigger is still there when \<^verbatim>\<open>CREATE TRIGGER\<close> runs: it existed before, and the
  \<^verbatim>\<open>DROP TABLE\<close> did not take it away.
\<close>

definition trigger_kept :: "engine \<Rightarrow> database \<Rightarrow> bool" where
  "trigger_kept eng d \<longleftrightarrow>
     after_movie_delete d \<and> (user_movies d = None \<or> \<not> drop_table_drops_triggers eng)"

text \<open>The database after the statements of the \<^verbatim>\<open>Creating tables...\<close> query.\<close>

definition provisioned :: "database \<Rightarrow> database" where
  "provisioned d =
     \<lparr>users = Some (case users d of None \<Rightarrow> new_table | Some t \<Rightarrow> t),
      movies = Some new_table,
      user_movies = Some [],
      user_moods = Some (case user_moods d of None \<Rightarrow> new_table | Some t \<Rightarrow> t),
      deletion_logs = Some (case deletion_logs d of None \<Rightarrow> new_table | Some t \<Rightarrow> t),
      after_movie_delete = True\<rparr>"

text \<open>The session with the database \<open>n\<close> of its server replaced by \<open>d\<close>.\<close>

definition put_database :: "session \<Rightarrow> string \<Rightarrow> database \<Rightarrow> session" where
  "put_database ss n d = ss\<lparr>server := (server ss)\<lparr>databases := (databases (server ss))(n \<mapsto> d)\<rparr>\<rparr>"

text \<open>
  Events that are console lines and queries only, none of them the report of a failed
  API test.
\<close>

definition announces :: "event list \<Rightarrow> bool" where
  "announces es \<longleftrightarrow>
     list_all (\<lambda>e. case e of
                     ConsoleLog _ _ \<Rightarrow> True
                   | ConsoleError _ x \<Rightarrow> (case x of Report _ \<Rightarrow> False | _ \<Rightarrow> True)
                   | ConnectionQuery _ \<Rightarrow> True
                   | _ \<Rightarrow> False) es"

text \<open>The server of the second session has as many open connections as that of the first.\<close>

definition same_connections :: "session \<Rightarrow> session \<Rightarrow> bool" where
  "same_connections s s' \<longleftrightarrow> open_connections (server s') = open_connections (server s)"

text \<open>
  The database \<^verbatim>\<open>movie_recommendation_app\<close> as a run finds it on the server: the empty
  database, which \<^verbatim>\<open>CREATE DATABASE\<close> makes, when the server has none of that name.
\<close>

definition initial_database :: "mysql_server \<Rightarrow> database" where
  "initial_database srv =
     (case databases srv ''movie_recommendation_app'' of None \<Rightarrow> empty_database | Some d \<Rightarrow> d)"

text \<open>
  The database that the five modifying queries make of the database \<open>d\<close> when none of them
  fails.
\<close>

definition seeded :: "engine \<Rightarrow> database \<Rightarrow> database" where
  "seeded eng d =
     \<lparr>users =
        Some (case users d of
                None \<Rightarrow> new_table
              | Some u \<Rightarrow> u\<lparr>table_rows := filter (\<lambda>r. \<not> username_like_testuser eng r) (table_rows u)\<rparr>),
      movies = Some \<lparr>table_rows = map (movie_of_values 1) (enumerate 0 test_movies), auto_increment = 4\<rparr>,
      user_movies = Some [],
      user_moods =
        Some (case user_moods d of None \<Rightarrow> new_table | Some mo \<Rightarrow> mo\<lparr>table_rows := []\<rparr>),
      deletion_logs = Some (case deletion_logs d of None \<Rightarrow> new_table | Some l \<Rightarrow> l),
      after_movie_delete = True\<rparr>"

text \<open>
  A session on the server \<open>srv\<close> that has selected \<^verbatim>\<open>movie_recommendation_app\<close>, that
  database being \<open>d\<close>.
\<close>

definition selected :: "mysql_server \<Rightarrow> database \<Rightarrow> session" where
  "selected srv d =
     \<lparr>server = srv\<lparr>databases := (databases srv)(''movie_recommendation_app'' \<mapsto> d)\<rparr>,
      current_db = Some ''movie_recommendation_app''\<rparr>"

text \<open>
  Inputs for the examples. Three hosts: one that accepts the connection and runs every
  query, one that loses the connection at the fourth query, one that refuses the
  connection. A server without databases, and a server whose database holds three users
  (two of them with names that match \<^verbatim>\<open>testuser%\<close> in a collation that ignores case), a
  movie, two associations, a mood and the trigger; the same server with a row in
  \<^verbatim>\<open>deletion_logs\<close>. An engine that differs from MySQL in keeping the triggers of a dropped
  table.
\<close>

definition reachable :: db_host where
  "reachable = \<lparr>accepts = (\<lambda>_. None), fault = (\<lambda>_. None)\<rparr>"

definition flaky :: db_host where
  "flaky = \<lparr>accepts = (\<lambda>_. None),
            fault = (\<lambda>k. if k = 3 then Some PROTOCOL_CONNECTION_LOST else None)\<rparr>"

definition unreachable :: db_host where
  "unreachable = \<lparr>accepts = (\<lambda>_. Some ECONNREFUSED), fault = (\<lambda>_. None)\<rparr>"

definition no_databases :: mysql_server where
  "no_databases = \<lparr>databases = Map.empty, open_connections = 0\<rparr>"

definition example_database :: database where
  "example_database =
     \<lparr>users = Some \<lparr>table_rows =
                [\<lparr>users_id = 1, users_username = ''alice'', users_password = ''secret''\<rparr>,
                 \<lparr>users_id = 2, users_username = ''testuser_17'', users_password = ''password123''\<rparr>,
                 \<lparr>users_id = 3, users_username = ''TestUser_18'', users_password = ''password123''\<rparr>],
              auto_increment = 4\<rparr>,
      movies = Some \<lparr>table_rows =
                [\<lparr>movies_id = 1, movies_tmdb_id = Some 278, movies_title = ''The Shawshank Redemption'',
                  movies_overview = None, movies_poster_path = None, movies_vote_average = Some 93\<rparr>],
              auto_increment = 2\<rparr>,
      user_movies = Some [\<lparr>user_movies_user_id = 1, user_movies_movie_id = 1\<rparr>,
                          \<lparr>user_movies_user_id = 2, user_movies_movie_id = 1\<rparr>],
      user_moods = Some \<lparr>table_rows = [\<lparr>user_moods_id = 1, user_moods_user_id = 2, user_moods_mood = ''happy''\<rparr>],
                         auto_increment = 2\<rparr>,
      deletion_logs = Some \<lparr>table_rows = [], auto_increment = 1\<rparr>,
      after_movie_delete = True\<rparr>"

definition example_server :: mysql_server where
  "example_server =
     \<lparr>databases = [''movie_recommendation_app'' \<mapsto> example_database], open_connections = 0\<rparr>"

definition audited_server :: mysql_server where
  "audited_server =
     \<lparr>databases = [''movie_recommendation_app'' \<mapsto>
        example_database\<lparr>deletion_logs :=
          Some \<lparr>table_rows = [\<lparr>deletion_logs_id = 1, deletion_logs_user_id = 7,
                                deletion_logs_movie_id = 9\<rparr>],
                auto_increment = 2\<rparr>\<rparr>],
      open_connections = 0\<rparr>"

definition keeps_triggers :: engine where
  "keeps_triggers = mysql\<lparr>drop_table_drops_triggers := False\<rparr>"

text \<open>
  The rows of \<^verbatim>\<open>deletion_logs\<close> in a database, and in the database
  \<^verbatim>\<open>movie_recommendation_app\<close> of a server; none when the table or the database is missing.
\<close>

definition deletion_log_rows :: "database \<Rightarrow> deletion_log_row list" where
  "deletion_log_rows d = (case deletion_logs d of None \<Rightarrow> [] | Some t \<Rightarrow> table_rows t)"

definition logged_rows :: "mysql_server \<Rightarrow> deletion_log_row list" where
  "logged_rows srv =
     (case databases srv ''movie_recommendation_app'' of None \<Rightarrow> [] | Some d \<Rightarrow> deletion_log_rows d)"

text \<open>
  A statement keeps the log: the rows of \<^verbatim>\<open>deletion_logs\<close> before it are the first rows
  after it. The same between two sessions.
\<close>

definition keeps_log :: "(database \<Rightarrow> db_error + database) \<Rightarrow> bool" where
  "keeps_log f \<longleftrightarrow> (\<forall>d d'. f d = Inr d' \<longrightarrow> prefix (deletion_log_rows d) (deletion_log_rows d'))"

definition log_grows :: "session \<Rightarrow> session \<Rightarrow> bool" where
  "log_grows s s' \<longleftrightarrow> prefix (logged_rows (server s)) (logged_rows (server s'))"

text \<open>
  A reply with which a call of \<^verbatim>\<open>axios\<close> rejects, and the error the call then throws for
  the request \<open>req\<close>.
\<close>

definition rejected :: "reply \<Rightarrow> bool" where
  "rejected r =
     (case settle maxRedirects r of Inr (st, b) \<Rightarrow> \<not> (200 \<le> st \<and> st < 300) | Inl msg \<Rightarrow> True)"

definition rejection :: "request \<Rightarrow> reply \<Rightarrow> js_error" where
  "rejection req r =
     (case settle maxRedirects r of
        Inr (st, b) \<Rightarrow> AxiosError (''Request failed with status code '' @ show_nat st) (Some (st, b)) req
      | Inl msg \<Rightarrow> AxiosError msg None req)"

text \<open>The service rejects none of the requests \<open>rs\<close>, sent in this order.\<close>

definition all_accepted :: "api_service \<Rightarrow> request list \<Rightarrow> bool" where
  "all_accepted api rs \<longleftrightarrow> (\<forall>k < length rs. \<not> rejected (api (take k rs) (rs ! k)))"

text \<open>The failure reports among the events.\<close>

definition reports :: "event list \<Rightarrow> event list" where
  "reports t = filter (\<lambda>e. case e of ConsoleError _ (Report _) \<Rightarrow> True | _ \<Rightarrow> False) t"

text \<open>
  How a step that started with the events \<open>t\<close> has ended, \<open>out\<close> being its result and the
  events then: it has printed no failure report; and either it throws the rejection of
  the request sent last, every request before that one having been accepted, or every
  request sent so far has been accepted. A step is orderly when it ends so whenever every
  request sent before it has been accepted.
\<close>

definition ends_well :: "api_service \<Rightarrow> event list \<Rightarrow> (js_error + 'a) \<times> event list \<Rightarrow> bool" where
  "ends_well api t out =
     (case out of
        (Inl (AxiosError msg resp req), t') \<Rightarrow>
           reports t' = reports t
         \<and> requests_of t' \<noteq> [] \<and> last (requests_of t') = req
         \<and> all_accepted api (butlast (requests_of t'))
         \<and> rejected (api (butlast (requests_of t')) req)
         \<and> AxiosError msg resp req = rejection req (api (butlast (requests_of t')) req)
      | (_, t') \<Rightarrow> reports t' = reports t \<and> all_accepted api (requests_of t'))"

definition orderly :: "api_service \<Rightarrow> 'a js \<Rightarrow> bool" where
  "orderly api m \<longleftrightarrow> (\<forall>t. all_accepted api (requests_of t) \<longrightarrow> ends_well api t (m t))"

text \<open>An evaluation that throws nothing but a \<^verbatim>\<open>TypeError\<close>.\<close>

definition type_errors_only :: "js_error + 'a \<Rightarrow> bool" where
  "type_errors_only r = (case r of Inl (AxiosError _ _ _) \<Rightarrow> False | _ \<Rightarrow> True)"

text \<open>
  The requests of the \<^verbatim>\<open>try\<close> block of \<^verbatim>\<open>testAPI\<close>, in the order in which the block sends
  them, with the URLs written out: for the time \<open>now\<close>, the user identifier \<open>userId\<close> and
  the movie \<open>movie\<close> that goes into the fifth request. The first four requests depend on
  the time only.
\<close>

definition test_user :: "nat \<Rightarrow> json" where
  "test_user now =
     JObj [(''username'', JStr (''testuser_'' @ show_nat now)), (''password'', JStr ''password123'')]"

definition scenario_start :: "nat \<Rightarrow> request list" where
  "scenario_start now =
    [ \<lparr>http_method = POST, url = ''http://localhost:3000/users'', body = test_user now\<rparr>,
      \<lparr>http_method = POST, url = ''http://localhost:3000/login'', body = test_user now\<rparr>,
      \<lparr>http_method = GET, url = ''http://localhost:3000/users'', body = JUndefined\<rparr>,
      \<lparr>http_method = GET, url = ''http://localhost:3000/movies'', body = JUndefined\<rparr> ]"

definition scenario :: "nat \<Rightarrow> json \<Rightarrow> json \<Rightarrow> request list" where
  "scenario now userId movie =
     scenario_start now @
    [ \<lparr>http_method = POST,
       url = ''http://localhost:3000/user/'' @ js_to_string userId @ ''/movies'',
       body = JObj [(''movieId'', optional_prop movie ''tmdb_id''),
                    (''movieDetails'',
                       JObj [(''title'', optional_prop movie ''title''),
                             (''overview'', js_or (optional_prop movie ''overview'') (JStr [])),
                             (''poster_path'', js_or (optional_prop movie ''poster_path'') (JStr [])),
                             (''vote_average'', js_or (optional_prop movie ''vote_average'') (JNum ''0''))])]\<rparr>,
      \<lparr>http_method = GET,
       url = ''http://localhost:3000/user/'' @ js_to_string userId @ ''/movies'', body = JUndefined\<rparr>,
      \<lparr>http_method = DELETE,
       url = ''http://localhost:3000/user/'' @ js_to_string userId @ ''/movies/1'', body = JUndefined\<rparr>,
      \<lparr>http_method = GET,
       url = ''http://localhost:3000/user/'' @ js_to_string userId @ ''/movies'', body = JUndefined\<rparr>,
      \<lparr>http_method = PUT,
       url = ''http://localhost:3000/user/'' @ js_to_string userId @ ''/password'',
       body = JObj [(''newPassword'', JStr ''newpassword456'')]\<rparr>,
      \<lparr>http_method = POST, url = ''http://localhost:3000/login'',
       body = JObj [(''username'', JStr (''testuser_'' @ show_nat now)),
                    (''password'', JStr ''newpassword456'')]\<rparr> ]"

text \<open>
  The \<^verbatim>\<open>data\<close> that a call has when the service answers it with \<open>r\<close>. The user identifier
  that the script takes from the answer to its first request and the movie that it takes
  from the answer to its fourth, and with them the requests of the script for a given
  service.
\<close>

definition reply_data :: "reply \<Rightarrow> json" where
  "reply_data r = (case settle maxRedirects r of Inr (st, b) \<Rightarrow> b | Inl msg \<Rightarrow> JUndefined)"

definition created_user_id :: "api_service \<Rightarrow> nat \<Rightarrow> json" where
  "created_user_id api now =
     optional_prop (reply_data (api [] (scenario_start now ! 0))) ''userId''"

definition first_movie :: "api_service \<Rightarrow> nat \<Rightarrow> json" where
  "first_movie api now =
     (case index0 (reply_data (api (take 3 (scenario_start now)) (scenario_start now ! 3))) of
        Inl _ \<Rightarrow> JUndefined
      | Inr movie \<Rightarrow> movie)"

definition script_requests :: "api_service \<Rightarrow> nat \<Rightarrow> request list" where
  "script_requests api now = scenario now (created_user_id api now) (first_movie api now)"

text \<open>
  The lines among the events with which the script says whether the movie was deleted,
  and the line it prints for a given answer to the request that fetches the list again.
\<close>

definition verdicts :: "event list \<Rightarrow> event list" where
  "verdicts t =
     filter (\<lambda>e. e = ConsoleError ''Test failed: Movie was not deleted.'' NoData
               \<or> e = ConsoleLog ''Test passed: Movie successfully deleted.'' NoData) t"

definition verdict_for :: "json \<Rightarrow> event" where
  "verdict_for updatedMovies =
     (if array_some_id ''1'' updatedMovies = Inr True
      then ConsoleError ''Test failed: Movie was not deleted.'' NoData
      else ConsoleLog ''Test passed: Movie successfully deleted.'' NoData)"

text \<open>
  A step follows the requests \<open>sc\<close> from position \<open>k\<close> to position \<open>k'\<close>: started when the
  requests sent are the first \<open>k\<close> of \<open>sc\<close> and the verdict lines printed are \<open>c\<close>, it
  returns with the first \<open>k'\<close> of \<open>sc\<close> sent, the verdict lines \<open>c'\<close> printed and a value
  that satisfies \<open>Q\<close>, or it throws with some first part of \<open>sc\<close> sent.
\<close>

definition follows ::
  "request list \<Rightarrow> nat \<Rightarrow> event list \<Rightarrow> nat \<Rightarrow> event list \<Rightarrow> ('a \<Rightarrow> bool) \<Rightarrow> 'a js \<Rightarrow> bool" where
  "follows sc k c k' c' Q m \<longleftrightarrow>
     (\<forall>t. requests_of t = take k sc \<and> verdicts t = c \<longrightarrow>
        (case m t of
           (Inr x, t') \<Rightarrow> requests_of t' = take k' sc \<and> verdicts t' = c' \<and> Q x
         | (Inl e, t') \<Rightarrow> (\<exists>j. requests_of t' = take j sc)))"

text \<open>
  Services for the examples. One that refuses every login. One whose catalogue is empty.
  One that accepts every request, any login among them, and whose lists of a user's
  movies are empty. One that differs from it in that every list of a user's movies holds
  the movie 1 and is delivered through a redirect.
\<close>

definition login_refused :: api_service where
  "login_refused earlier r =
     (if url r = ''http://localhost:3000/login''
      then Reply 401 (JObj [(''message'', JStr ''Invalid credentials'')])
      else Reply 201 (JObj [(''userId'', JNum ''7'')]))"

definition empty_catalog :: api_service where
  "empty_catalog earlier r =
     (if url r = ''http://localhost:3000/users'' \<and> http_method r = POST then
        Reply 201 (JObj [(''userId'', JNum ''7'')])
      else if http_method r = GET then Reply 200 (JArr [])
      else Reply 200 (JObj [(''message'', JStr ''ok'')]))"

definition accommodating :: api_service where
  "accommodating earlier r =
     (if url r = ''http://localhost:3000/users'' \<and> http_method r = POST then
        Reply 201 (JObj [(''userId'', JNum ''7'')])
      else if url r = ''http://localhost:3000/movies'' then
        Reply 200 (JArr [JObj [(''id'', JNum ''1''), (''tmdb_id'', JNum ''278''),
                               (''title'', JStr ''The Shawshank Redemption''),
                               (''overview'', JStr ''Two imprisoned men bond over a number of years.''),
                               (''poster_path'', JStr ''/path/to/poster1.jpg''),
                               (''vote_average'', JStr ''9.3'')]])
      else if http_method r = GET then Reply 200 (JArr [])
      else Reply 200 (JObj [(''message'', JStr ''ok'')]))"

definition forgetful :: api_service where
  "forgetful earlier r =
     (if http_method r = GET \<and> url r \<noteq> ''http://localhost:3000/users''
         \<and> url r \<noteq> ''http://localhost:3000/movies''
      then Redirect
             (Reply 200 (JArr [JObj [(''id'', JNum ''1''), (''title'', JStr ''The Shawshank Redemption'')]]))
      else accommodating earlier r)"

section \<open>Proofs: frontend router\<close>

lemma match_route_unique:
  assumes "distinct (map path rs)" and "r \<in> set rs"
  shows "match_route rs (path r) = Some r"
  using assms unfolding match_route_def
  by (induction rs) (auto simp: image_iff)

lemma match_route_none:
  assumes "p \<notin> path ` set rs"
  shows "match_route rs p = None"
  using assms unfolding match_route_def by (auto simp: find_None_iff)

lemma match_route_perm:
  assumes "mset rs = mset qs" and "distinct (map path qs)"
  shows "match_route rs p = match_route qs p"
proof -
  have s: "set rs = set qs" using assms(1) by (rule mset_eq_setD)
  have "mset (map path rs) = mset (map path qs)" using assms(1) by simp
  then have d: "distinct (map path rs)"
    using assms(2) mset_eq_imp_distinct_iff by blast
  show ?thesis
  proof (cases "p \<in> path ` set qs")
    case True
    then obtain r where r: "r \<in> set qs" "p = path r" by auto
    then show ?thesis
      using match_route_unique [OF d, of r] match_route_unique [OF assms(2), of r] s by simp
  next
    case False
    then show ?thesis using match_route_none [of p rs] match_route_none [of p qs] s by simp
  qed
qed

text \<open>
  Claim C9. The route table has exactly four entries, for the paths \<open>''\<close>, \<open>login\<close>,
  \<open>signup\<close> and \<open>movies\<close>; the empty path redirects to \<open>login\<close> with pathMatch
  \<open>full\<close>, the other three paths map to LoginComponent, SignupComponent and
  MoviesComponent; no path occurs twice, and every reordering of the entries resolves
  every path to the same entry.
\<close>

theorem routes_static_table:
  "length routes = 4
   \<and> map path routes = ['''', ''login'', ''signup'', ''movies'']
   \<and> match_route routes '''' =
       Some \<lparr>path = '''', redirectTo = Some ''login'', pathMatch = Some ''full'', component = None\<rparr>
   \<and> match_route routes ''login'' =
       Some \<lparr>path = ''login'', redirectTo = None, pathMatch = None, component = Some LoginComponent\<rparr>
   \<and> match_route routes ''signup'' =
       Some \<lparr>path = ''signup'', redirectTo = None, pathMatch = None, component = Some SignupComponent\<rparr>
   \<and> match_route routes ''movies'' =
       Some \<lparr>path = ''movies'', redirectTo = None, pathMatch = None, component = Some MoviesComponent\<rparr>
   \<and> distinct (map path routes)
   \<and> (\<forall>rs p. mset rs = mset routes \<longrightarrow> match_route rs p = match_route routes p)"
proof -
  have d: "distinct (map path routes)" by (simp add: routes_def)
  have "\<forall>rs p. mset rs = mset routes \<longrightarrow> match_route rs p = match_route routes p"
    using match_route_perm [OF _ d] by blast
  then show ?thesis by (simp add: routes_def match_route_def)
qed

theorem routes_static_table_witness:
  "mset (rev routes) = mset routes
   \<and> match_route (rev routes) ''movies'' = match_route routes ''movies''
   \<and> match_route (rev routes) ''movies'' =
       Some \<lparr>path = ''movies'', redirectTo = None, pathMatch = None, component = Some MoviesComponent\<rparr>"
proof -
  have m: "mset (rev routes) = mset routes" by simp
  from routes_static_table have
    "\<forall>rs p. mset rs = mset routes \<longrightarrow> match_route rs p = match_route routes p"
    and "match_route routes ''movies'' =
       Some \<lparr>path = ''movies'', redirectTo = None, pathMatch = None, component = Some MoviesComponent\<rparr>"
    by blast+
  then show ?thesis using m by metis
qed

section \<open>Proofs: the schema store\<close>

lemma sql_like_percent: "sql_like w ''%'' s"
  by (induction s) auto

lemma sql_like_char:
  "p \<noteq> CHR ''%'' \<Longrightarrow> p \<noteq> CHR ''_'' \<Longrightarrow>
   sql_like w (p # ps) s = (case s of [] \<Rightarrow> False | c # cs \<Rightarrow> w p = w c \<and> sql_like w ps cs)"
  by (cases s) auto

lemma take_Suc_map_eq:
  "(map w (take (Suc n) s) = x # xs) =
   (case s of [] \<Rightarrow> False | c # cs \<Rightarrow> w c = x \<and> map w (take n cs) = xs)"
  by (cases s) auto

lemma sql_like_testuser:
  "sql_like w ''testuser%'' s \<longleftrightarrow> map w (take 8 s) = map w ''testuser''"
  by (simp add: sql_like_char sql_like_percent eval_nat_numeral take_Suc_map_eq split: list.splits) metis

lemmas statement_defs =
  create_table_users_if_not_exists_def drop_table_if_exists_user_movies_def
  drop_table_if_exists_movies_def create_table_movies_def create_table_user_movies_def
  create_table_user_moods_if_not_exists_def create_table_deletion_logs_if_not_exists_def
  create_trigger_after_movie_delete_def

lemma create_tables_result:
  "run_statements (create_tables eng) d =
     (if trigger_kept eng d then Some ER_TRG_ALREADY_EXISTS else None, provisioned d)"
  by (cases d; cases "users d"; cases "movies d"; cases "user_movies d"; cases "user_moods d";
      cases "deletion_logs d";
      simp add: create_tables_def statement_defs trigger_kept_def provisioned_def)

lemma log_append_Nil [simp]: "log_append l [] = l"
  by (simp add: log_append_def)

lemma log_append_Cons:
  "log_append l (old # olds) =
   log_append \<lparr>table_rows = table_rows l @
                  [\<lparr>deletion_logs_id = auto_increment l,
                    deletion_logs_user_id = user_movies_user_id old,
                    deletion_logs_movie_id = user_movies_movie_id old\<rparr>],
               auto_increment = auto_increment l + 1\<rparr> olds"
  by (simp add: log_append_def)

lemma logged_keys:
  "map (\<lambda>r. (deletion_logs_user_id r, deletion_logs_movie_id r)) (logged a olds) =
   map (\<lambda>r. (user_movies_user_id r, user_movies_movie_id r)) olds"
  by (induction olds arbitrary: a) auto

lemma fire_after_movie_delete_result:
  "deletion_logs d = Some l \<Longrightarrow>
   fire_after_movie_delete olds d = Inr (d\<lparr>deletion_logs := Some (log_append l olds)\<rparr>)"
proof (induction olds arbitrary: d l)
  case Nil
  then show ?case by simp
next
  case (Cons old olds)
  show ?case
    using Cons.prems
    by (simp add: insert_deletion_log_def Cons.IH log_append_Cons)
qed

lemma remove_user_movies_result:
  "deletion_logs d = Some l \<Longrightarrow>
   remove_user_movies a P rs d =
     Inr (d\<lparr>user_movies := Some (filter (\<lambda>r. \<not> P r) rs),
            deletion_logs := Some (if a \<and> after_movie_delete d then log_append l (filter P rs) else l)\<rparr>)"
  by (cases d) (simp add: remove_user_movies_def fire_after_movie_delete_result Let_def)

lemma delete_from_user_movies_result:
  "user_movies d = Some rs \<Longrightarrow> deletion_logs d = Some l \<Longrightarrow>
   delete_from_user_movies P d =
     Inr (d\<lparr>user_movies := Some (filter (\<lambda>r. \<not> P r) rs),
            deletion_logs := Some (if after_movie_delete d then log_append l (filter P rs) else l)\<rparr>)"
  by (simp add: delete_from_user_movies_def remove_user_movies_result)

lemma cascade_user_movies_result:
  "user_movies d = Some rs \<Longrightarrow> deletion_logs d = Some l \<Longrightarrow>
   cascade_user_movies eng P d =
     Inr (d\<lparr>user_movies := Some (filter (\<lambda>r. \<not> P r) rs),
            deletion_logs := Some (if cascade_fires_triggers eng \<and> after_movie_delete d
                                   then log_append l (filter P rs) else l)\<rparr>)"
  by (simp add: cascade_user_movies_def remove_user_movies_result)

lemma delete_from_users_result:
  "users d = Some u \<Longrightarrow> user_movies d = Some rs \<Longrightarrow> user_moods d = Some mo \<Longrightarrow>
   deletion_logs d = Some l \<Longrightarrow>
   delete_from_users eng P d =
     Inr (d\<lparr>users := Some (u\<lparr>table_rows := filter (\<lambda>r. \<not> P r) (table_rows u)\<rparr>),
            user_movies :=
              Some (filter (\<lambda>r. user_movies_user_id r \<notin> set (map users_id (filter P (table_rows u)))) rs),
            user_moods :=
              Some (mo\<lparr>table_rows :=
                filter (\<lambda>r. user_moods_user_id r \<notin> set (map users_id (filter P (table_rows u))))
                  (table_rows mo)\<rparr>),
            deletion_logs :=
              Some (if cascade_fires_triggers eng \<and> after_movie_delete d
                    then log_append l
                      (filter (\<lambda>r. user_movies_user_id r \<in> set (map users_id (filter P (table_rows u)))) rs)
                    else l)\<rparr>)"
  by (cases d) (simp add: delete_from_users_def cascade_user_movies_result cascade_user_moods_def Let_def)

lemma delete_from_movies_result:
  "movies d = Some m \<Longrightarrow> user_movies d = Some rs \<Longrightarrow> deletion_logs d = Some l \<Longrightarrow>
   delete_from_movies eng P d =
     Inr (d\<lparr>movies := Some (m\<lparr>table_rows := filter (\<lambda>r. \<not> P r) (table_rows m)\<rparr>),
            user_movies :=
              Some (filter (\<lambda>r. user_movies_movie_id r \<notin> set (map movies_id (filter P (table_rows m)))) rs),
            deletion_logs :=
              Some (if cascade_fires_triggers eng \<and> after_movie_delete d
                    then log_append l
                      (filter (\<lambda>r. user_movies_movie_id r \<in> set (map movies_id (filter P (table_rows m)))) rs)
                    else l)\<rparr>)"
  by (cases d) (simp add: delete_from_movies_def cascade_user_movies_result Let_def)

lemma clear_test_data_result:
  "users d = Some u \<Longrightarrow> movies d = Some m \<Longrightarrow> user_movies d = Some rs \<Longrightarrow>
   user_moods d = Some mo \<Longrightarrow> deletion_logs d = Some l \<Longrightarrow>
   run_statements (clear_test_data eng) d =
     (None,
      d\<lparr>users := Some (u\<lparr>table_rows := filter (\<lambda>r. \<not> username_like_testuser eng r) (table_rows u)\<rparr>),
        movies := Some (m\<lparr>table_rows := []\<rparr>),
        user_movies := Some [],
        user_moods := Some (mo\<lparr>table_rows := []\<rparr>),
        deletion_logs := Some (if after_movie_delete d then log_append l rs else l)\<rparr>)"
  by (cases d)
     (simp add: clear_test_data_def delete_from_user_movies_result delete_from_user_moods_def
        delete_from_users_result delete_from_movies_result)

lemma insert_test_movies_result:
  "movies d = Some m \<Longrightarrow> table_rows m = [] \<Longrightarrow>
   run_statements insert_test_movies d =
     (None,
      d\<lparr>movies := Some \<lparr>table_rows = map (movie_of_values (auto_increment m)) (enumerate 0 test_movies),
                         auto_increment = auto_increment m + 3\<rparr>\<rparr>)"
  by (simp add: insert_test_movies_def insert_into_movies_def test_movies_def)

lemma put_database_simps [simp]:
  "current_db (put_database ss n d) = current_db ss"
  "databases (server (put_database ss n d)) n = Some d"
  "put_database (put_database ss n d) n d' = put_database ss n d'"
  "open_connections (server (put_database ss n d)) = open_connections (server ss)"
  by (simp_all add: put_database_def)

lemma put_database_same: "databases (server ss) n = Some d \<Longrightarrow> put_database ss n d = ss"
  by (simp add: put_database_def map_upd_triv)

lemma on_current_db_eq:
  "current_db ss = Some n \<Longrightarrow> databases (server ss) n = Some d \<Longrightarrow>
   on_current_db f ss = (case f d of Inl e \<Rightarrow> Inl e | Inr d' \<Rightarrow> Inr (put_database ss n d'))"
  by (simp add: on_current_db_def put_database_def split: sum.splits)

lemma run_statements_on_current_db:
  "current_db ss = Some n \<Longrightarrow> databases (server ss) n = Some d \<Longrightarrow>
   run_statements (map on_current_db fs) ss =
     (fst (run_statements fs d), put_database ss n (snd (run_statements fs d)))"
proof (induction fs arbitrary: ss d)
  case Nil
  then show ?case by (simp add: put_database_same)
next
  case (Cons f fs)
  show ?case
  proof (cases "f d")
    case (Inl e)
    then show ?thesis using Cons.prems by (simp add: on_current_db_eq put_database_same)
  next
    case (Inr d')
    have ih: "run_statements (map on_current_db fs) (put_database ss n d') =
        (fst (run_statements fs d'), put_database (put_database ss n d') n (snd (run_statements fs d')))"
      using Cons.prems by (intro Cons.IH) simp_all
    show ?thesis using Cons.prems Inr ih by (simp add: on_current_db_eq)
  qed
qed

lemma announces_simps [simp]:
  "announces []"
  "announces (ConsoleLog l x # es) = announces es"
  "announces (ConsoleError l NoData # es) = announces es"
  "announces (ConsoleError l (Cause e) # es) = announces es"
  "announces (ConnectionQuery k # es) = announces es"
  "announces (es @ fs) = (announces es \<and> announces fs)"
  by (simp_all add: announces_def)

lemma announces_no_end: "announces es \<Longrightarrow> ConnectionEnd \<notin> set es"
  by (auto simp: announces_def list_all_iff)

lemma announces_no_requests: "announces es \<Longrightarrow> requests_of es = []"
  by (induction es rule: requests_of.induct) (simp_all add: announces_def)

lemma run_queries_events:
  "\<exists>new. snd (snd (run_queries h k qs ss t)) = t @ new \<and> announces new"
proof (induction qs arbitrary: k ss t)
  case Nil
  then show ?case by simp
next
  case (Cons lq qs)
  obtain line q where lq: "lq = (line, q)" by (cases lq)
  obtain err ss' where q: "query h k q ss = (err, ss')" by (cases "query h k q ss")
  show ?case
  proof (cases err)
    case None
    from Cons.IH [of "Suc k" ss' "t @ [ConsoleLog line NoData, ConnectionQuery k]"]
    obtain new where
      "snd (snd (run_queries h (Suc k) qs ss' (t @ [ConsoleLog line NoData, ConnectionQuery k]))) =
         (t @ [ConsoleLog line NoData, ConnectionQuery k]) @ new" "announces new"
      by blast
    then have "snd (snd (run_queries h k (lq # qs) ss t)) =
        t @ ([ConsoleLog line NoData, ConnectionQuery k] @ new)
      \<and> announces ([ConsoleLog line NoData, ConnectionQuery k] @ new)"
      using lq q None by simp
    then show ?thesis by blast
  next
    case (Some e)
    have "snd (snd (run_queries h k (lq # qs) ss t)) = t @ [ConsoleLog line NoData, ConnectionQuery k]
       \<and> announces [ConsoleLog line NoData, ConnectionQuery k]"
      using lq q Some by simp
    then show ?thesis by blast
  qed
qed

lemma run_statements_invariant:
  assumes "\<And>f s s'. f \<in> set fs \<Longrightarrow> f s = Inr s' \<Longrightarrow> R s s'"
    and "\<And>s. R s s" and "\<And>a b c. R a b \<Longrightarrow> R b c \<Longrightarrow> R a c"
  shows "R s (snd (run_statements fs s))"
  using assms(1)
proof (induction fs arbitrary: s)
  case Nil
  then show ?case by (simp add: assms(2))
next
  case (Cons f fs)
  show ?case
  proof (cases "f s")
    case (Inl e)
    then show ?thesis by (simp add: assms(2))
  next
    case (Inr s')
    have "R s s'" using Cons.prems [of f s s'] Inr by simp
    moreover have "R s' (snd (run_statements fs s'))"
    proof (rule Cons.IH)
      fix g a b assume "g \<in> set fs" "g a = Inr b"
      then show "R a b" using Cons.prems [of g a b] by simp
    qed
    ultimately show ?thesis using Inr assms(3) by auto
  qed
qed

lemma run_queries_invariant:
  assumes "\<And>line q f s s'. (line, q) \<in> set qs \<Longrightarrow> f \<in> set q \<Longrightarrow> f s = Inr s' \<Longrightarrow> R s s'"
    and "\<And>s. R s s" and "\<And>a b c. R a b \<Longrightarrow> R b c \<Longrightarrow> R a c"
  shows "R ss (fst (snd (run_queries h k qs ss t)))"
  using assms(1)
proof (induction qs arbitrary: k ss t)
  case Nil
  then show ?case by (simp add: assms(2))
next
  case (Cons lq qs)
  obtain line q where lq: "lq = (line, q)" by (cases lq)
  obtain err ss' where q: "query h k q ss = (err, ss')" by (cases "query h k q ss")
  have step: "R ss ss'"
  proof (cases "fault h k")
    case None
    have "R ss (snd (run_statements q ss))"
    proof (rule run_statements_invariant [where R = R])
      fix f s s' assume "f \<in> set q" "f s = Inr s'"
      then show "R s s'" using Cons.prems [of line q f s s'] lq by simp
    qed (auto intro: assms(2) assms(3))
    then show ?thesis using q None by (simp add: query_def)
  next
    case (Some e)
    then show ?thesis using q by (simp add: query_def assms(2))
  qed
  show ?case
  proof (cases err)
    case None
    have "R ss' (fst (snd (run_queries h (Suc k) qs ss' (t @ [ConsoleLog line NoData, ConnectionQuery k]))))"
    proof (rule Cons.IH)
      fix l' q' g a b assume "(l', q') \<in> set qs" "g \<in> set q'" "g a = Inr b"
      then show "R a b" using Cons.prems [of l' q' g a b] by simp
    qed
    then show ?thesis using lq q None step assms(3) by auto
  next
    case (Some e)
    then show ?thesis using lq q step by simp
  qed
qed

lemma setup_statements_same_connections:
  assumes "(line, q) \<in> set (setup_queries eng)" and "f \<in> set q" and "f s = Inr s'"
  shows "same_connections s s'"
  using assms
  by (auto simp: setup_queries_def same_connections_def create_database_if_not_exists_def
        use_database_def on_current_db_def split: option.splits sum.splits if_splits)

lemma setup_queries_same_connections:
  "open_connections (server (fst (snd (run_queries h k (setup_queries eng) ss t)))) =
   open_connections (server ss)"
proof -
  have "same_connections ss (fst (snd (run_queries h k (setup_queries eng) ss t)))"
  proof (rule run_queries_invariant [where R = same_connections])
    fix line q f s s'
    assume "(line, q) \<in> set (setup_queries eng)" "f \<in> set q" "f s = Inr s'"
    then show "same_connections s s'" by (rule setup_statements_same_connections)
  qed (simp_all add: same_connections_def)
  then show ?thesis by (simp add: same_connections_def)
qed

lemma setupTestDatabase_connections:
  "open_connections (server_after (setupTestDatabase eng h env srv)) = open_connections srv"
proof (cases "accepts h (connection_config env)")
  case (Some e)
  then show ?thesis by (simp add: setupTestDatabase_def Let_def)
next
  case None
  let ?ss0 = "\<lparr>server = srv\<lparr>open_connections := Suc (open_connections srv)\<rparr>, current_db = None\<rparr>"
  let ?t0 = "[ConsoleLog ''Attempting to connect to MySQL...'' NoData,
                ConsoleLog ''Using host:'' (Text (host (connection_config env))),
                ConsoleLog ''Using user:'' (Text (user (connection_config env))),
                CreateConnection (connection_config env),
                ConsoleLog ''Successfully connected to MySQL'' NoData]"
  obtain err ss1 t1 where r: "run_queries h 0 (setup_queries eng) ?ss0 ?t0 = (err, ss1, t1)"
    by (cases "run_queries h 0 (setup_queries eng) ?ss0 ?t0") auto
  have "open_connections (server ss1) = Suc (open_connections srv)"
    using setup_queries_same_connections [of h 0 eng ?ss0 ?t0] r by simp
  then show ?thesis
    using None r
    by (simp add: setupTestDatabase_def Let_def connection_end_def split: option.splits sum.splits)
qed

lemma clear_provisioned:
  "run_statements (clear_test_data eng) (provisioned d) =
     (None, (seeded eng d)\<lparr>movies := Some new_table\<rparr>)"
proof -
  have "run_statements (clear_test_data eng) (provisioned d) =
     (None,
      (provisioned d)\<lparr>users := Some ((case users d of None \<Rightarrow> new_table | Some t \<Rightarrow> t)
           \<lparr>table_rows := filter (\<lambda>r. \<not> username_like_testuser eng r)
               (table_rows (case users d of None \<Rightarrow> new_table | Some t \<Rightarrow> t))\<rparr>),
        movies := Some ((new_table :: movie_row auto_table)\<lparr>table_rows := []\<rparr>),
        user_movies := Some [],
        user_moods := Some ((case user_moods d of None \<Rightarrow> new_table | Some t \<Rightarrow> t)\<lparr>table_rows := []\<rparr>),
        deletion_logs := Some (if after_movie_delete (provisioned d)
           then log_append (case deletion_logs d of None \<Rightarrow> new_table | Some t \<Rightarrow> t) []
           else (case deletion_logs d of None \<Rightarrow> new_table | Some t \<Rightarrow> t))\<rparr>)"
    by (rule clear_test_data_result) (simp_all add: provisioned_def)
  then show ?thesis
    by (simp add: provisioned_def seeded_def new_table_def split: option.splits)
qed

lemma insert_after_clear:
  "run_statements insert_test_movies ((seeded eng d)\<lparr>movies := Some new_table\<rparr>) = (None, seeded eng d)"
proof -
  have "run_statements insert_test_movies ((seeded eng d)\<lparr>movies := Some new_table\<rparr>) =
     (None,
      ((seeded eng d)\<lparr>movies := Some new_table\<rparr>)
        \<lparr>movies := Some \<lparr>table_rows = map (movie_of_values (auto_increment (new_table :: movie_row auto_table)))
                             (enumerate 0 test_movies),
                         auto_increment = auto_increment (new_table :: movie_row auto_table) + 3\<rparr>\<rparr>)"
    by (rule insert_test_movies_result) (simp_all add: new_table_def)
  then show ?thesis by (simp add: seeded_def new_table_def)
qed

lemma create_database_eq:
  "create_database_if_not_exists n ss =
     Inr (put_database ss n (case databases (server ss) n of None \<Rightarrow> empty_database | Some d \<Rightarrow> d))"
  by (simp add: create_database_if_not_exists_def put_database_def put_database_same [unfolded put_database_def]
        split: option.splits)

lemma selected_simps [simp]:
  "current_db (selected srv d) = Some ''movie_recommendation_app''"
  "databases (server (selected srv d)) ''movie_recommendation_app'' = Some d"
  "put_database (selected srv d) ''movie_recommendation_app'' d' = selected srv d'"
  "open_connections (server (selected srv d)) = open_connections srv"
  by (simp_all add: selected_def put_database_def)

lemma query_create_database:
  assumes "fault h k = None"
  shows "query h k [create_database_if_not_exists ''movie_recommendation_app''] \<lparr>server = srv, current_db = None\<rparr> =
     (None, \<lparr>server = srv\<lparr>databases := (databases srv)(''movie_recommendation_app'' \<mapsto> initial_database srv)\<rparr>,
             current_db = None\<rparr>)"
  using assms
  by (simp add: query_def create_database_eq put_database_def initial_database_def)

lemma query_use_database:
  assumes "fault h k = None"
  shows "query h k [use_database ''movie_recommendation_app'']
           \<lparr>server = srv\<lparr>databases := (databases srv)(''movie_recommendation_app'' \<mapsto> d)\<rparr>, current_db = None\<rparr> =
     (None, selected srv d)"
  using assms by (simp add: query_def use_database_def selected_def)

lemma query_create_tables:
  assumes "fault h k = None"
  shows "query h k (map on_current_db (create_tables eng)) (selected srv d) =
     (if trigger_kept eng d then Some ER_TRG_ALREADY_EXISTS else None, selected srv (provisioned d))"
  using assms
  by (simp add: query_def run_statements_on_current_db [of _ "''movie_recommendation_app''" d]
        create_tables_result)

lemma query_clear_test_data:
  assumes "fault h k = None"
  shows "query h k (map on_current_db (clear_test_data eng)) (selected srv (provisioned d)) =
     (None, selected srv ((seeded eng d)\<lparr>movies := Some new_table\<rparr>))"
  using assms
  by (simp add: query_def
        run_statements_on_current_db [of _ "''movie_recommendation_app''" "provisioned d"]
        clear_provisioned)

lemma query_insert_test_movies:
  assumes "fault h k = None"
  shows "query h k (map on_current_db insert_test_movies)
           (selected srv ((seeded eng d)\<lparr>movies := Some new_table\<rparr>)) =
     (None, selected srv (seeded eng d))"
  using assms
  by (simp add: query_def
        run_statements_on_current_db [of _ "''movie_recommendation_app''" "(seeded eng d)\<lparr>movies := Some new_table\<rparr>"]
        insert_after_clear)

lemmas query_results =
  query_create_database query_use_database query_create_tables query_clear_test_data
  query_insert_test_movies

lemma setup_queries_unfaulted:
  assumes "fault h = (\<lambda>_. None)"
  shows "run_queries h 0 (setup_queries eng) \<lparr>server = srv, current_db = None\<rparr> t =
     (if trigger_kept eng (initial_database srv) then
        (Some ER_TRG_ALREADY_EXISTS, selected srv (provisioned (initial_database srv)),
         t @ [ConsoleLog ''Creating database if it doesn't exist...'' NoData, ConnectionQuery 0,
              ConsoleLog ''Switching to movie_recommendation_app database...'' NoData, ConnectionQuery 1,
              ConsoleLog ''Creating tables...'' NoData, ConnectionQuery 2])
      else
        (None, selected srv (seeded eng (initial_database srv)),
         t @ [ConsoleLog ''Creating database if it doesn't exist...'' NoData, ConnectionQuery 0,
              ConsoleLog ''Switching to movie_recommendation_app database...'' NoData, ConnectionQuery 1,
              ConsoleLog ''Creating tables...'' NoData, ConnectionQuery 2,
              ConsoleLog ''Clearing existing test data...'' NoData, ConnectionQuery 3,
              ConsoleLog ''Inserting test movies...'' NoData, ConnectionQuery 4]))"
  using assms by (simp add: setup_queries_def query_results eval_nat_numeral)

lemma unselect:
  "(server (selected srv d))\<lparr>open_connections := n\<rparr> =
     srv\<lparr>databases := (databases srv)(''movie_recommendation_app'' \<mapsto> d), open_connections := n\<rparr>"
  by (simp add: selected_def)

lemma setupTestDatabase_unfaulted:
  assumes "accepts h (connection_config env) = None" and "fault h = (\<lambda>_. None)"
  shows "returned (setupTestDatabase eng h env srv) = (\<not> trigger_kept eng (initial_database srv))"
    and "server_after (setupTestDatabase eng h env srv) =
       srv\<lparr>databases := (databases srv)(''movie_recommendation_app'' \<mapsto>
              (if trigger_kept eng (initial_database srv) then provisioned (initial_database srv)
               else seeded eng (initial_database srv)))\<rparr>"
  using assms
  by (simp_all add: setupTestDatabase_def Let_def setup_queries_unfaulted [OF assms(2)]
        query_select_movies_def select_from_movies_def seeded_def connection_end_def unselect
        initial_database_def selected_def)

lemma query_faulted: "fault h k = Some e \<Longrightarrow> query h k q ss = (Some e, ss)"
  by (simp add: query_def)

lemma initial_database_connections [simp]:
  "initial_database (srv\<lparr>open_connections := n\<rparr>) = initial_database srv"
  by (simp add: initial_database_def)

lemma setup_queries_result:
  assumes "fault h 0 = None" and "fault h 1 = None" and "fault h 2 = None"
  shows "fst (run_queries h 0 (setup_queries eng) \<lparr>server = srv, current_db = None\<rparr> t) =
           (if trigger_kept eng (initial_database srv) then Some ER_TRG_ALREADY_EXISTS
            else case fault h 3 of Some e \<Rightarrow> Some e | None \<Rightarrow> fault h 4)"
    and "fst (snd (run_queries h 0 (setup_queries eng) \<lparr>server = srv, current_db = None\<rparr> t)) =
           selected srv
             (if trigger_kept eng (initial_database srv) \<or> fault h 3 \<noteq> None
              then provisioned (initial_database srv)
              else if fault h 4 \<noteq> None then (seeded eng (initial_database srv))\<lparr>movies := Some new_table\<rparr>
              else seeded eng (initial_database srv))"
proof -
  let ?run = "run_queries h 0 (setup_queries eng) \<lparr>server = srv, current_db = None\<rparr> t"
  have "fst ?run =
           (if trigger_kept eng (initial_database srv) then Some ER_TRG_ALREADY_EXISTS
            else case fault h 3 of Some e \<Rightarrow> Some e | None \<Rightarrow> fault h 4)
      \<and> fst (snd ?run) =
           selected srv
             (if trigger_kept eng (initial_database srv) \<or> fault h 3 \<noteq> None
              then provisioned (initial_database srv)
              else if fault h 4 \<noteq> None then (seeded eng (initial_database srv))\<lparr>movies := Some new_table\<rparr>
              else seeded eng (initial_database srv))"
  proof (cases "trigger_kept eng (initial_database srv)")
    case True
    then show ?thesis
      using assms by (simp add: setup_queries_def query_results eval_nat_numeral)
  next
    case False
    show ?thesis
    proof (cases "fault h 3")
      case (Some e)
      then have "query h (Suc (Suc (Suc 0))) q ss = (Some e, ss)" for q ss
        by (simp add: query_faulted eval_nat_numeral)
      then show ?thesis
        using assms False Some by (simp add: setup_queries_def query_results eval_nat_numeral)
    next
      case f3: None
      show ?thesis
      proof (cases "fault h 4")
        case (Some e)
        then have "query h (Suc (Suc (Suc (Suc 0)))) q ss = (Some e, ss)" for q ss
          by (simp add: query_faulted eval_nat_numeral)
        then show ?thesis
          using assms False f3 Some by (simp add: setup_queries_def query_results eval_nat_numeral)
      next
        case None
        then show ?thesis
          using assms False f3 by (simp add: setup_queries_def query_results eval_nat_numeral)
      qed
    qed
  qed
  then show "fst ?run =
           (if trigger_kept eng (initial_database srv) then Some ER_TRG_ALREADY_EXISTS
            else case fault h 3 of Some e \<Rightarrow> Some e | None \<Rightarrow> fault h 4)"
    and "fst (snd ?run) =
           selected srv
             (if trigger_kept eng (initial_database srv) \<or> fault h 3 \<noteq> None
              then provisioned (initial_database srv)
              else if fault h 4 \<noteq> None then (seeded eng (initial_database srv))\<lparr>movies := Some new_table\<rparr>
              else seeded eng (initial_database srv))"
    by blast+
qed

text \<open>
  What \<^verbatim>\<open>setupTestDatabase\<close> leaves and returns when the connection is accepted and the
  first three queries reach the server.
\<close>

lemma setupTestDatabase_result:
  assumes "accepts h (connection_config env) = None"
    and "fault h 0 = None" and "fault h 1 = None" and "fault h 2 = None"
  shows "server_after (setupTestDatabase eng h env srv) =
       srv\<lparr>databases := (databases srv)(''movie_recommendation_app'' \<mapsto>
              (if trigger_kept eng (initial_database srv) \<or> fault h 3 \<noteq> None
               then provisioned (initial_database srv)
               else if fault h 4 \<noteq> None then (seeded eng (initial_database srv))\<lparr>movies := Some new_table\<rparr>
               else seeded eng (initial_database srv)))\<rparr>"
    and "returned (setupTestDatabase eng h env srv) =
       (\<not> trigger_kept eng (initial_database srv) \<and> fault h 3 = None \<and> fault h 4 = None \<and> fault h 5 = None)"
    and "returned (setupTestDatabase eng h env srv) \<Longrightarrow>
       ConsoleLog ''Inserted movies:'' (Rows (map (movie_of_values 1) (enumerate 0 test_movies)))
         \<in> set (events (setupTestDatabase eng h env srv))"
proof -
  let ?srv = "srv\<lparr>open_connections := Suc (open_connections srv)\<rparr>"
  let ?ss0 = "\<lparr>server = ?srv, current_db = None\<rparr>"
  let ?t0 = "[ConsoleLog ''Attempting to connect to MySQL...'' NoData,
                ConsoleLog ''Using host:'' (Text (host (connection_config env))),
                ConsoleLog ''Using user:'' (Text (user (connection_config env))),
                CreateConnection (connection_config env),
                ConsoleLog ''Successfully connected to MySQL'' NoData]"
  let ?D = "if trigger_kept eng (initial_database srv) \<or> fault h 3 \<noteq> None
               then provisioned (initial_database srv)
               else if fault h 4 \<noteq> None then (seeded eng (initial_database srv))\<lparr>movies := Some new_table\<rparr>
               else seeded eng (initial_database srv)"
  obtain err ss1 t1 where r: "run_queries h 0 (setup_queries eng) ?ss0 ?t0 = (err, ss1, t1)"
    by (cases "run_queries h 0 (setup_queries eng) ?ss0 ?t0") auto
  have err: "err = (if trigger_kept eng (initial_database srv) then Some ER_TRG_ALREADY_EXISTS
            else case fault h 3 of Some e \<Rightarrow> Some e | None \<Rightarrow> fault h 4)"
    using setup_queries_result(1) [OF assms(2-4), of eng ?srv ?t0] r by simp
  have ss1: "ss1 = selected ?srv ?D"
    using setup_queries_result(2) [OF assms(2-4), of eng ?srv ?t0] r by simp
  have ce: "connection_end ss1 = srv\<lparr>databases := (databases srv)(''movie_recommendation_app'' \<mapsto> ?D)\<rparr>"
    unfolding ss1 by (simp add: connection_end_def selected_def)
  have R: "setupTestDatabase eng h env srv =
      (case err of
         Some error \<Rightarrow>
           \<lparr>returned = False, server_after = connection_end ss1,
            events = t1 @ catch_setup_error error @ [ConnectionEnd]\<rparr>
       | None \<Rightarrow>
           (case query_select_movies h 5 ss1 of
              Inl error \<Rightarrow>
                \<lparr>returned = False, server_after = connection_end ss1,
                 events = t1 @ [ConnectionQuery 5] @ catch_setup_error error @ [ConnectionEnd]\<rparr>
            | Inr movies' \<Rightarrow>
                \<lparr>returned = True, server_after = connection_end ss1,
                 events = t1 @ [ConnectionQuery 5,
                                ConsoleLog ''Inserted movies:'' (Rows movies'),
                                ConsoleLog ''Database setup completed successfully'' NoData,
                                ConnectionEnd]\<rparr>))"
    using assms(1) r by (simp add: setupTestDatabase_def Let_def split: option.splits)
  show "server_after (setupTestDatabase eng h env srv) =
       srv\<lparr>databases := (databases srv)(''movie_recommendation_app'' \<mapsto> ?D)\<rparr>"
    unfolding R using ce by (simp split: option.splits sum.splits)
  have sel: "err = None \<Longrightarrow>
      query_select_movies h 5 ss1 =
        (case fault h 5 of
           Some e \<Rightarrow> Inl e
         | None \<Rightarrow> Inr (map (movie_of_values 1) (enumerate 0 test_movies)))"
    unfolding ss1 using err
    by (simp add: query_select_movies_def select_from_movies_def seeded_def
          split: option.splits if_splits)
  show "returned (setupTestDatabase eng h env srv) =
       (\<not> trigger_kept eng (initial_database srv) \<and> fault h 3 = None \<and> fault h 4 = None \<and> fault h 5 = None)"
    unfolding R using err sel by (auto split: option.splits sum.splits if_splits)
  show "ConsoleLog ''Inserted movies:'' (Rows (map (movie_of_values 1) (enumerate 0 test_movies)))
         \<in> set (events (setupTestDatabase eng h env srv))"
    if "returned (setupTestDatabase eng h env srv)"
    using that unfolding R using sel by (auto split: option.splits sum.splits if_splits)
qed
lemma requests_of_append: "requests_of (a @ b) = requests_of a @ requests_of b"
  by (induction a rule: requests_of.induct) simp_all

lemma announces_catch: "announces (catch_setup_error e)"
  by (simp add: catch_setup_error_def)

lemma setupTestDatabase_events:
  "\<exists>mid. announces mid \<and>
     events (setupTestDatabase eng h env srv) =
       ConsoleLog ''Attempting to connect to MySQL...'' NoData #
       ConsoleLog ''Using host:'' (Text (host (connection_config env))) #
       ConsoleLog ''Using user:'' (Text (user (connection_config env))) #
       CreateConnection (connection_config env) #
       mid @ (case accepts h (connection_config env) of None \<Rightarrow> [ConnectionEnd] | Some _ \<Rightarrow> [])"
proof (cases "accepts h (connection_config env)")
  case (Some e)
  then show ?thesis
    by (simp add: setupTestDatabase_def Let_def announces_catch)
next
  case None
  let ?ss0 = "\<lparr>server = srv\<lparr>open_connections := Suc (open_connections srv)\<rparr>, current_db = None\<rparr>"
  let ?t0 = "[ConsoleLog ''Attempting to connect to MySQL...'' NoData,
                ConsoleLog ''Using host:'' (Text (host (connection_config env))),
                ConsoleLog ''Using user:'' (Text (user (connection_config env))),
                CreateConnection (connection_config env),
                ConsoleLog ''Successfully connected to MySQL'' NoData]"
  obtain err ss1 t1 where r: "run_queries h 0 (setup_queries eng) ?ss0 ?t0 = (err, ss1, t1)"
    by (cases "run_queries h 0 (setup_queries eng) ?ss0 ?t0") auto
  obtain new where new: "t1 = ?t0 @ new" "announces new"
    using run_queries_events [of h 0 "setup_queries eng" ?ss0 ?t0] r by auto
  show ?thesis
  proof (cases err)
    case (Some e)
    have "announces (ConsoleLog ''Successfully connected to MySQL'' NoData # new @ catch_setup_error e)"
      using new by (simp add: announces_catch)
    moreover have "events (setupTestDatabase eng h env srv) =
       ConsoleLog ''Attempting to connect to MySQL...'' NoData #
       ConsoleLog ''Using host:'' (Text (host (connection_config env))) #
       ConsoleLog ''Using user:'' (Text (user (connection_config env))) #
       CreateConnection (connection_config env) #
       (ConsoleLog ''Successfully connected to MySQL'' NoData # new @ catch_setup_error e) @ [ConnectionEnd]"
      using None r Some new by (simp add: setupTestDatabase_def Let_def)
    ultimately show ?thesis using None by (metis option.simps(4))
  next
    case noerr: None
    show ?thesis
    proof (cases "query_select_movies h 5 ss1")
      case (Inl e)
      have "announces (ConsoleLog ''Successfully connected to MySQL'' NoData # new @ ConnectionQuery 5 # catch_setup_error e)"
        using new by (simp add: announces_catch)
      moreover have "events (setupTestDatabase eng h env srv) =
         ConsoleLog ''Attempting to connect to MySQL...'' NoData #
         ConsoleLog ''Using host:'' (Text (host (connection_config env))) #
         ConsoleLog ''Using user:'' (Text (user (connection_config env))) #
         CreateConnection (connection_config env) #
         (ConsoleLog ''Successfully connected to MySQL'' NoData # new @ ConnectionQuery 5 # catch_setup_error e) @ [ConnectionEnd]"
        using None r noerr new Inl by (simp add: setupTestDatabase_def Let_def)
      ultimately show ?thesis using None by (metis option.simps(4))
    next
      case (Inr rows)
      have "announces (ConsoleLog ''Successfully connected to MySQL'' NoData # new @
          [ConnectionQuery 5, ConsoleLog ''Inserted movies:'' (Rows rows),
           ConsoleLog ''Database setup completed successfully'' NoData])"
        using new by simp
      moreover have "events (setupTestDatabase eng h env srv) =
         ConsoleLog ''Attempting to connect to MySQL...'' NoData #
         ConsoleLog ''Using host:'' (Text (host (connection_config env))) #
         ConsoleLog ''Using user:'' (Text (user (connection_config env))) #
         CreateConnection (connection_config env) #
         (ConsoleLog ''Successfully connected to MySQL'' NoData # new @
          [ConnectionQuery 5, ConsoleLog ''Inserted movies:'' (Rows rows),
           ConsoleLog ''Database setup completed successfully'' NoData]) @ [ConnectionEnd]"
        using None r noerr new Inr by (simp add: setupTestDatabase_def Let_def)
      ultimately show ?thesis using None by (metis option.simps(4))
    qed
  qed
qed

lemma setupTestDatabase_rejected:
  "accepts h (connection_config env) = Some e \<Longrightarrow>
   server_after (setupTestDatabase eng h env srv) = srv \<and> \<not> returned (setupTestDatabase eng h env srv)"
  by (simp add: setupTestDatabase_def Let_def)

lemma setupTestDatabase_no_requests: "requests_of (events (setupTestDatabase eng h env srv)) = []"
proof -
  obtain mid where "announces mid" and
    "events (setupTestDatabase eng h env srv) =
       ConsoleLog ''Attempting to connect to MySQL...'' NoData #
       ConsoleLog ''Using host:'' (Text (host (connection_config env))) #
       ConsoleLog ''Using user:'' (Text (user (connection_config env))) #
       CreateConnection (connection_config env) #
       mid @ (case accepts h (connection_config env) of None \<Rightarrow> [ConnectionEnd] | Some _ \<Rightarrow> [])"
    using setupTestDatabase_events by blast
  then show ?thesis
    by (simp add: requests_of_append announces_no_requests split: option.splits)
qed

lemma runTests_skips:
  "\<not> returned (setupTestDatabase eng h env srv) \<Longrightarrow>
   requests_of (snd (runTests eng h env api now srv)) = []"
  by (simp add: runTests_def Let_def requests_of_append setupTestDatabase_no_requests)

lemma run_queries_fault:
  "fault h j = Some e \<Longrightarrow> k \<le> j \<Longrightarrow> j < k + length qs \<Longrightarrow> fst (run_queries h k qs ss t) \<noteq> None"
proof (induction qs arbitrary: k ss t)
  case Nil
  then show ?case by simp
next
  case (Cons lq qs)
  obtain line q where lq: "lq = (line, q)" by (cases lq)
  obtain err ss' where q: "query h k q ss = (err, ss')" by (cases "query h k q ss")
  show ?case
  proof (cases err)
    case (Some e')
    then show ?thesis using lq q by simp
  next
    case None
    have "k \<noteq> j" using None q Cons.prems(1) by (auto simp: query_def)
    then have "fst (run_queries h (Suc k) qs ss' (t @ [ConsoleLog line NoData, ConnectionQuery k])) \<noteq> None"
      using Cons.prems by (intro Cons.IH) simp_all
    then show ?thesis using lq q None by simp
  qed
qed

lemma setupTestDatabase_faulted:
  assumes "fault h j = Some e" and "j < 5"
  shows "\<not> returned (setupTestDatabase eng h env srv)"
proof -
  let ?ss0 = "\<lparr>server = srv\<lparr>open_connections := Suc (open_connections srv)\<rparr>, current_db = None\<rparr>"
  let ?t0 = "[ConsoleLog ''Attempting to connect to MySQL...'' NoData,
                ConsoleLog ''Using host:'' (Text (host (connection_config env))),
                ConsoleLog ''Using user:'' (Text (user (connection_config env))),
                CreateConnection (connection_config env),
                ConsoleLog ''Successfully connected to MySQL'' NoData]"
  obtain err ss1 t1 where r: "run_queries h 0 (setup_queries eng) ?ss0 ?t0 = (err, ss1, t1)"
    by (cases "run_queries h 0 (setup_queries eng) ?ss0 ?t0") auto
  have "fst (run_queries h 0 (setup_queries eng) ?ss0 ?t0) \<noteq> None"
    using assms by (intro run_queries_fault [of h j e]) (simp_all add: setup_queries_def)
  then obtain e' where "err = Some e'" using r by auto
  then show ?thesis
    using r by (simp add: setupTestDatabase_def Let_def split: option.splits)
qed

lemma example_database_tables:
  "users example_database = Some \<lparr>table_rows =
                [\<lparr>users_id = 1, users_username = ''alice'', users_password = ''secret''\<rparr>,
                 \<lparr>users_id = 2, users_username = ''testuser_17'', users_password = ''password123''\<rparr>,
                 \<lparr>users_id = 3, users_username = ''TestUser_18'', users_password = ''password123''\<rparr>],
              auto_increment = 4\<rparr>"
  "movies example_database = Some \<lparr>table_rows =
                [\<lparr>movies_id = 1, movies_tmdb_id = Some 278, movies_title = ''The Shawshank Redemption'',
                  movies_overview = None, movies_poster_path = None, movies_vote_average = Some 93\<rparr>],
              auto_increment = 2\<rparr>"
  "user_movies example_database = Some [\<lparr>user_movies_user_id = 1, user_movies_movie_id = 1\<rparr>,
                          \<lparr>user_movies_user_id = 2, user_movies_movie_id = 1\<rparr>]"
  "user_moods example_database =
           Some \<lparr>table_rows = [\<lparr>user_moods_id = 1, user_moods_user_id = 2, user_moods_mood = ''happy''\<rparr>],
                         auto_increment = 2\<rparr>"
  "deletion_logs example_database = Some \<lparr>table_rows = [], auto_increment = 1\<rparr>"
  "after_movie_delete example_database"
  by (simp_all add: example_database_def)

lemma setupTestDatabase_returned:
  assumes "returned (setupTestDatabase eng h env srv)"
  shows "accepts h (connection_config env) = None"
    and "fault h 0 = None" and "fault h 1 = None" and "fault h 2 = None"
    and "fault h 3 = None" and "fault h 4 = None"
proof -
  show "accepts h (connection_config env) = None"
    using assms setupTestDatabase_rejected [of h env _ eng srv]
    by (cases "accepts h (connection_config env)") auto
  have "fault h j = None" if "j < 5" for j
    using assms that setupTestDatabase_faulted [of h j _ eng env srv]
    by (cases "fault h j") auto
  then show "fault h 0 = None" and "fault h 1 = None" and "fault h 2 = None"
    and "fault h 3 = None" and "fault h 4 = None"
    by simp_all
qed

section \<open>Proofs: the claims about the schema store\<close>

text \<open>
  Claim C3. Take a run of \<^verbatim>\<open>setupTestDatabase\<close> whose connection is accepted and whose
  first three queries reach the server, the third being the one that provisions the
  tables. However the run goes on, the server differs afterwards from the server before
  only in the database \<^verbatim>\<open>movie_recommendation_app\<close>, which exists (\<open>initial_database\<close> is
  that database as the run finds it, the empty one when there is none). In it
  \<^verbatim>\<open>user_movies\<close> is a table without rows, and \<^verbatim>\<open>movies\<close> is a new table, empty or holding
  only the three movies that the run itself inserts under the identifiers 1 to 3: what
  the two tables held before is gone. \<^verbatim>\<open>users\<close>, \<^verbatim>\<open>user_moods\<close> and \<^verbatim>\<open>deletion_logs\<close> are the
  tables found, or new ones where there were none; of the rows found, \<^verbatim>\<open>deletion_logs\<close>
  keeps all, and the other two lose only what the later clearing query deletes. When the
  run stops right after provisioning (its fourth query is cut off), \<^verbatim>\<open>users\<close> and
  \<^verbatim>\<open>user_moods\<close> are exactly as found, or new, and \<^verbatim>\<open>movies\<close> is new and empty.
\<close>

theorem provisioning_run:
  assumes "accepts h (connection_config env) = None"
    and "fault h 0 = None" and "fault h 1 = None" and "fault h 2 = None"
  shows "\<exists>d'.
      server_after (setupTestDatabase eng h env srv) =
        srv\<lparr>databases := (databases srv)(''movie_recommendation_app'' \<mapsto> d')\<rparr>
    \<and> user_movies d' = Some []
    \<and> (movies d' = Some new_table
       \<or> movies d' =
           Some \<lparr>table_rows = map (movie_of_values 1) (enumerate 0 test_movies), auto_increment = 4\<rparr>)
    \<and> (users d' = Some (case users (initial_database srv) of None \<Rightarrow> new_table | Some u \<Rightarrow> u)
       \<or> users d' =
           Some (case users (initial_database srv) of
                   None \<Rightarrow> new_table
                 | Some u \<Rightarrow>
                     u\<lparr>table_rows :=
                         filter (\<lambda>r. \<not> sql_like (collation eng) ''testuser%'' (users_username r))
                           (table_rows u)\<rparr>))
    \<and> (user_moods d' = Some (case user_moods (initial_database srv) of None \<Rightarrow> new_table | Some mo \<Rightarrow> mo)
       \<or> user_moods d' =
           Some (case user_moods (initial_database srv) of
                   None \<Rightarrow> new_table
                 | Some mo \<Rightarrow> mo\<lparr>table_rows := []\<rparr>))
    \<and> deletion_logs d' =
         Some (case deletion_logs (initial_database srv) of None \<Rightarrow> new_table | Some l \<Rightarrow> l)
    \<and> (fault h 3 \<noteq> None \<longrightarrow>
          users d' = Some (case users (initial_database srv) of None \<Rightarrow> new_table | Some u \<Rightarrow> u)
        \<and> movies d' = Some new_table
        \<and> user_moods d' =
            Some (case user_moods (initial_database srv) of None \<Rightarrow> new_table | Some mo \<Rightarrow> mo))"
proof -
  let ?d0 = "initial_database srv"
  let ?D = "if trigger_kept eng ?d0 \<or> fault h 3 \<noteq> None then provisioned ?d0
            else if fault h 4 \<noteq> None then (seeded eng ?d0)\<lparr>movies := Some new_table\<rparr>
            else seeded eng ?d0"
  have s: "server_after (setupTestDatabase eng h env srv) =
        srv\<lparr>databases := (databases srv)(''movie_recommendation_app'' \<mapsto> ?D)\<rparr>"
    using assms by (rule setupTestDatabase_result(1))
  have p: "user_movies ?D = Some []"
    "movies ?D = Some new_table
       \<or> movies ?D =
           Some \<lparr>table_rows = map (movie_of_values 1) (enumerate 0 test_movies), auto_increment = 4\<rparr>"
    "users ?D = Some (case users ?d0 of None \<Rightarrow> new_table | Some u \<Rightarrow> u)
       \<or> users ?D =
           Some (case users ?d0 of
                   None \<Rightarrow> new_table
                 | Some u \<Rightarrow>
                     u\<lparr>table_rows :=
                         filter (\<lambda>r. \<not> sql_like (collation eng) ''testuser%'' (users_username r))
                           (table_rows u)\<rparr>)"
    "user_moods ?D = Some (case user_moods ?d0 of None \<Rightarrow> new_table | Some mo \<Rightarrow> mo)
       \<or> user_moods ?D =
           Some (case user_moods ?d0 of
                   None \<Rightarrow> new_table
                 | Some mo \<Rightarrow> mo\<lparr>table_rows := []\<rparr>)"
    "deletion_logs ?D = Some (case deletion_logs ?d0 of None \<Rightarrow> new_table | Some l \<Rightarrow> l)"
    "fault h 3 \<noteq> None \<longrightarrow>
          users ?D = Some (case users ?d0 of None \<Rightarrow> new_table | Some u \<Rightarrow> u)
        \<and> movies ?D = Some new_table
        \<and> user_moods ?D = Some (case user_moods ?d0 of None \<Rightarrow> new_table | Some mo \<Rightarrow> mo)"
    by (simp_all add: provisioned_def seeded_def username_like_testuser_def new_table_def
          split: option.splits)
  show ?thesis
    by (rule exI [of _ ?D]) (use s p in blast)
qed

theorem provisioning_run_witness:
  "accepts flaky (connection_config Map.empty) = None
   \<and> fault flaky 0 = None \<and> fault flaky 1 = None \<and> fault flaky 2 = None \<and> fault flaky 3 \<noteq> None
   \<and> (\<exists>d'. server_after (setupTestDatabase mysql flaky Map.empty example_server) =
              example_server\<lparr>databases := (databases example_server)(''movie_recommendation_app'' \<mapsto> d')\<rparr>
         \<and> users d' = users example_database
         \<and> movies d' = Some \<lparr>table_rows = [], auto_increment = 1\<rparr>
         \<and> user_movies d' = Some []
         \<and> user_moods d' = user_moods example_database
         \<and> deletion_logs d' = deletion_logs example_database)"
proof -
  have a: "accepts flaky (connection_config Map.empty) = None" by (simp add: flaky_def)
  have f: "fault flaky 0 = None" "fault flaky 1 = None" "fault flaky 2 = None" "fault flaky 3 \<noteq> None"
    by (simp_all add: flaky_def)
  have i: "initial_database example_server = example_database"
    by (simp add: initial_database_def example_server_def)
  from provisioning_run [OF a f(1) f(2) f(3), of mysql example_server]
  obtain d' where d':
    "server_after (setupTestDatabase mysql flaky Map.empty example_server) =
        example_server\<lparr>databases := (databases example_server)(''movie_recommendation_app'' \<mapsto> d')\<rparr>"
    "user_movies d' = Some []"
    "deletion_logs d' =
         Some (case deletion_logs (initial_database example_server) of None \<Rightarrow> new_table | Some l \<Rightarrow> l)"
    "fault flaky 3 \<noteq> None \<longrightarrow>
          users d' = Some (case users (initial_database example_server) of None \<Rightarrow> new_table | Some u \<Rightarrow> u)
        \<and> movies d' = Some new_table
        \<and> user_moods d' =
            Some (case user_moods (initial_database example_server) of None \<Rightarrow> new_table | Some mo \<Rightarrow> mo)"
    by blast
  have "users d' = users example_database \<and> movies d' = Some \<lparr>table_rows = [], auto_increment = 1\<rparr>
      \<and> user_movies d' = Some [] \<and> user_moods d' = user_moods example_database
      \<and> deletion_logs d' = deletion_logs example_database"
    using d'(2-4) f(4) by (simp add: i example_database_tables new_table_def)
  then show ?thesis using a f d'(1) by blast
qed

text \<open>
  Claim C5. When \<^verbatim>\<open>setupTestDatabase\<close> returns true, it leaves the database
  \<^verbatim>\<open>movie_recommendation_app\<close> with \<^verbatim>\<open>user_movies\<close> and \<^verbatim>\<open>user_moods\<close> without rows, with
  \<^verbatim>\<open>users\<close> as found but without exactly the rows whose username matches \<^verbatim>\<open>testuser%\<close>, and
  with \<^verbatim>\<open>movies\<close> holding exactly three rows, titled \<open>The Shawshank Redemption\<close>,
  \<open>The Godfather\<close> and \<open>The Dark Knight\<close> with the tmdb_ids 278, 238 and 155, in this order
  under the identifiers 1 to 3; these are the rows that the function reads back and
  prints. A username matches the pattern when its first eight characters have the weights
  of \<open>testuser\<close> in the collation of the column.

  In the function the tables \<^verbatim>\<open>user_movies\<close> and \<^verbatim>\<open>movies\<close> have just been created again
  when the clearing query runs. What its four \<^verbatim>\<open>DELETE\<close> statements and the \<^verbatim>\<open>INSERT\<close> do to
  tables that hold rows is the last part: on any database that has the five tables, the
  clearing statements succeed and leave \<^verbatim>\<open>user_movies\<close>, \<^verbatim>\<open>user_moods\<close> and \<^verbatim>\<open>movies\<close> without
  rows and \<^verbatim>\<open>users\<close> without exactly the matching rows, and the insertion then adds exactly
  the three movies.
\<close>

theorem seed_reset:
  assumes "returned (setupTestDatabase eng h env srv)"
  shows "(\<exists>d' rows.
      server_after (setupTestDatabase eng h env srv) =
        srv\<lparr>databases := (databases srv)(''movie_recommendation_app'' \<mapsto> d')\<rparr>
    \<and> user_movies d' = Some []
    \<and> user_moods d' =
         Some (case user_moods (initial_database srv) of
                 None \<Rightarrow> new_table
               | Some mo \<Rightarrow> mo\<lparr>table_rows := []\<rparr>)
    \<and> users d' =
         Some (case users (initial_database srv) of
                 None \<Rightarrow> new_table
               | Some u \<Rightarrow>
                   u\<lparr>table_rows :=
                       filter (\<lambda>r. \<not> sql_like (collation eng) ''testuser%'' (users_username r))
                         (table_rows u)\<rparr>)
    \<and> movies d' = Some \<lparr>table_rows = rows, auto_increment = 4\<rparr>
    \<and> map (\<lambda>r. (movies_title r, movies_tmdb_id r)) rows =
          [(''The Shawshank Redemption'', Some 278), (''The Godfather'', Some 238),
           (''The Dark Knight'', Some 155)]
    \<and> map movies_id rows = [1, 2, 3]
    \<and> ConsoleLog ''Inserted movies:'' (Rows rows) \<in> set (events (setupTestDatabase eng h env srv)))
  \<and> (\<forall>s. sql_like (collation eng) ''testuser%'' s
          = (map (collation eng) (take 8 s) = map (collation eng) ''testuser''))
  \<and> (users d = Some u \<and> movies d = Some m \<and> user_movies d = Some rs
      \<and> user_moods d = Some mo \<and> deletion_logs d = Some l \<longrightarrow>
      (\<exists>d1 d2 rows.
          run_statements (clear_test_data eng) d = (None, d1)
        \<and> user_movies d1 = Some []
        \<and> user_moods d1 = Some (mo\<lparr>table_rows := []\<rparr>)
        \<and> users d1 = Some (u\<lparr>table_rows :=
              filter (\<lambda>r. \<not> sql_like (collation eng) ''testuser%'' (users_username r)) (table_rows u)\<rparr>)
        \<and> movies d1 = Some (m\<lparr>table_rows := []\<rparr>)
        \<and> run_statements insert_test_movies d1 = (None, d2)
        \<and> users d2 = users d1 \<and> user_movies d2 = Some [] \<and> user_moods d2 = user_moods d1
        \<and> movies d2 = Some \<lparr>table_rows = rows, auto_increment = auto_increment m + 3\<rparr>
        \<and> map (\<lambda>r. (movies_title r, movies_tmdb_id r)) rows =
              [(''The Shawshank Redemption'', Some 278), (''The Godfather'', Some 238),
               (''The Dark Knight'', Some 155)]
        \<and> map movies_id rows = [auto_increment m, auto_increment m + 1, auto_increment m + 2]))"
proof (intro conjI impI)
  let ?d0 = "initial_database srv"
  let ?R = "setupTestDatabase eng h env srv"
  let ?rows0 = "map (movie_of_values 1) (enumerate 0 test_movies)"
  note u = setupTestDatabase_returned [OF assms]
  have k: "\<not> trigger_kept eng ?d0"
    using assms setupTestDatabase_result(2) [OF u(1-4), of eng srv] by simp
  have s: "server_after ?R =
        srv\<lparr>databases := (databases srv)(''movie_recommendation_app'' \<mapsto> seeded eng ?d0)\<rparr>"
    using setupTestDatabase_result(1) [OF u(1-4), of eng srv] k u(5,6) by simp
  have e: "ConsoleLog ''Inserted movies:'' (Rows ?rows0) \<in> set (events ?R)"
    using assms by (rule setupTestDatabase_result(3) [OF u(1-4)])
  have r0: "map (\<lambda>r. (movies_title r, movies_tmdb_id r)) ?rows0 =
          [(''The Shawshank Redemption'', Some 278), (''The Godfather'', Some 238),
           (''The Dark Knight'', Some 155)]"
     "map movies_id ?rows0 = [1, 2, 3]"
    by (simp_all add: test_movies_def movie_of_values_def)
  have "server_after ?R =
        srv\<lparr>databases := (databases srv)(''movie_recommendation_app'' \<mapsto> seeded eng ?d0)\<rparr>
    \<and> user_movies (seeded eng ?d0) = Some []
    \<and> user_moods (seeded eng ?d0) =
         Some (case user_moods ?d0 of None \<Rightarrow> new_table | Some mo \<Rightarrow> mo\<lparr>table_rows := []\<rparr>)
    \<and> users (seeded eng ?d0) =
         Some (case users ?d0 of
                 None \<Rightarrow> new_table
               | Some u \<Rightarrow>
                   u\<lparr>table_rows :=
                       filter (\<lambda>r. \<not> sql_like (collation eng) ''testuser%'' (users_username r))
                         (table_rows u)\<rparr>)
    \<and> movies (seeded eng ?d0) = Some \<lparr>table_rows = ?rows0, auto_increment = 4\<rparr>
    \<and> map (\<lambda>r. (movies_title r, movies_tmdb_id r)) ?rows0 =
          [(''The Shawshank Redemption'', Some 278), (''The Godfather'', Some 238),
           (''The Dark Knight'', Some 155)]
    \<and> map movies_id ?rows0 = [1, 2, 3]
    \<and> ConsoleLog ''Inserted movies:'' (Rows ?rows0) \<in> set (events ?R)"
    using s e r0 by (simp add: seeded_def username_like_testuser_def split: option.splits)
  then show "\<exists>d' rows.
      server_after ?R =
        srv\<lparr>databases := (databases srv)(''movie_recommendation_app'' \<mapsto> d')\<rparr>
    \<and> user_movies d' = Some []
    \<and> user_moods d' =
         Some (case user_moods ?d0 of None \<Rightarrow> new_table | Some mo \<Rightarrow> mo\<lparr>table_rows := []\<rparr>)
    \<and> users d' =
         Some (case users ?d0 of
                 None \<Rightarrow> new_table
               | Some u \<Rightarrow>
                   u\<lparr>table_rows :=
                       filter (\<lambda>r. \<not> sql_like (collation eng) ''testuser%'' (users_username r))
                         (table_rows u)\<rparr>)
    \<and> movies d' = Some \<lparr>table_rows = rows, auto_increment = 4\<rparr>
    \<and> map (\<lambda>r. (movies_title r, movies_tmdb_id r)) rows =
          [(''The Shawshank Redemption'', Some 278), (''The Godfather'', Some 238),
           (''The Dark Knight'', Some 155)]
    \<and> map movies_id rows = [1, 2, 3]
    \<and> ConsoleLog ''Inserted movies:'' (Rows rows) \<in> set (events ?R)"
    by (intro exI [of _ "seeded eng ?d0"] exI [of _ ?rows0])
next
  show "\<forall>s. sql_like (collation eng) ''testuser%'' s
          = (map (collation eng) (take 8 s) = map (collation eng) ''testuser'')"
    using sql_like_testuser by blast
next
  assume t: "users d = Some u \<and> movies d = Some m \<and> user_movies d = Some rs
      \<and> user_moods d = Some mo \<and> deletion_logs d = Some l"
  let ?d1 = "d\<lparr>users := Some (u\<lparr>table_rows := filter (\<lambda>r. \<not> username_like_testuser eng r) (table_rows u)\<rparr>),
        movies := Some (m\<lparr>table_rows := []\<rparr>),
        user_movies := Some [],
        user_moods := Some (mo\<lparr>table_rows := []\<rparr>),
        deletion_logs := Some (if after_movie_delete d then log_append l rs else l)\<rparr>"
  let ?rows = "map (movie_of_values (auto_increment m)) (enumerate 0 test_movies)"
  let ?d2 = "?d1\<lparr>movies := Some \<lparr>table_rows = ?rows, auto_increment = auto_increment m + 3\<rparr>\<rparr>"
  have c: "run_statements (clear_test_data eng) d = (None, ?d1)"
    using t by (intro clear_test_data_result) simp_all
  have i: "run_statements insert_test_movies ?d1 = (None, ?d2)"
    using insert_test_movies_result [of ?d1 "m\<lparr>table_rows := []\<rparr>"] by simp
  have r: "map (\<lambda>r. (movies_title r, movies_tmdb_id r)) ?rows =
          [(''The Shawshank Redemption'', Some 278), (''The Godfather'', Some 238),
           (''The Dark Knight'', Some 155)]"
     "map movies_id ?rows = [auto_increment m, auto_increment m + 1, auto_increment m + 2]"
    by (simp_all add: test_movies_def movie_of_values_def)
  have "run_statements (clear_test_data eng) d = (None, ?d1)
    \<and> user_movies ?d1 = Some []
    \<and> user_moods ?d1 = Some (mo\<lparr>table_rows := []\<rparr>)
    \<and> users ?d1 = Some (u\<lparr>table_rows :=
          filter (\<lambda>r. \<not> sql_like (collation eng) ''testuser%'' (users_username r)) (table_rows u)\<rparr>)
    \<and> movies ?d1 = Some (m\<lparr>table_rows := []\<rparr>)
    \<and> run_statements insert_test_movies ?d1 = (None, ?d2)
    \<and> users ?d2 = users ?d1 \<and> user_movies ?d2 = Some [] \<and> user_moods ?d2 = user_moods ?d1
    \<and> movies ?d2 = Some \<lparr>table_rows = ?rows, auto_increment = auto_increment m + 3\<rparr>"
    using c i by (simp add: username_like_testuser_def)
  then show "\<exists>d1 d2 rows.
      run_statements (clear_test_data eng) d = (None, d1)
    \<and> user_movies d1 = Some []
    \<and> user_moods d1 = Some (mo\<lparr>table_rows := []\<rparr>)
    \<and> users d1 = Some (u\<lparr>table_rows :=
          filter (\<lambda>r. \<not> sql_like (collation eng) ''testuser%'' (users_username r)) (table_rows u)\<rparr>)
    \<and> movies d1 = Some (m\<lparr>table_rows := []\<rparr>)
    \<and> run_statements insert_test_movies d1 = (None, d2)
    \<and> users d2 = users d1 \<and> user_movies d2 = Some [] \<and> user_moods d2 = user_moods d1
    \<and> movies d2 = Some \<lparr>table_rows = rows, auto_increment = auto_increment m + 3\<rparr>
    \<and> map (\<lambda>r. (movies_title r, movies_tmdb_id r)) rows =
          [(''The Shawshank Redemption'', Some 278), (''The Godfather'', Some 238),
           (''The Dark Knight'', Some 155)]
    \<and> map movies_id rows = [auto_increment m, auto_increment m + 1, auto_increment m + 2]"
    using r by (intro exI [of _ ?d1] exI [of _ ?d2] exI [of _ ?rows]) (simp only: simp_thms)
qed

lemma setupTestDatabase_example:
  "returned (setupTestDatabase mysql reachable Map.empty example_server)"
proof -
  have a: "accepts reachable (connection_config Map.empty) = None" by (simp add: reachable_def)
  have f: "fault reachable = (\<lambda>_. None)" by (simp add: reachable_def)
  have i: "initial_database example_server = example_database"
    by (simp add: initial_database_def example_server_def)
  show ?thesis
    using setupTestDatabase_unfaulted(1) [OF a f, of mysql example_server]
    by (simp add: i trigger_kept_def mysql_def example_database_def)
qed

theorem seed_reset_witness:
  "returned (setupTestDatabase mysql reachable Map.empty example_server)
   \<and> (\<exists>d' rows.
        server_after (setupTestDatabase mysql reachable Map.empty example_server) =
          example_server\<lparr>databases := (databases example_server)(''movie_recommendation_app'' \<mapsto> d')\<rparr>
      \<and> user_movies d' = Some []
      \<and> user_moods d' = Some \<lparr>table_rows = [], auto_increment = 2\<rparr>
      \<and> users d' = Some \<lparr>table_rows = [\<lparr>users_id = 1, users_username = ''alice'', users_password = ''secret''\<rparr>],
                          auto_increment = 4\<rparr>
      \<and> movies d' = Some \<lparr>table_rows = rows, auto_increment = 4\<rparr>
      \<and> map (\<lambda>r. (movies_title r, movies_tmdb_id r)) rows =
            [(''The Shawshank Redemption'', Some 278), (''The Godfather'', Some 238),
             (''The Dark Knight'', Some 155)]
      \<and> map movies_id rows = [1, 2, 3])
   \<and> (\<exists>d1 d2 rows.
        run_statements (clear_test_data mysql) example_database = (None, d1)
      \<and> user_movies d1 = Some []
      \<and> user_moods d1 = Some \<lparr>table_rows = [], auto_increment = 2\<rparr>
      \<and> users d1 = Some \<lparr>table_rows = [\<lparr>users_id = 1, users_username = ''alice'', users_password = ''secret''\<rparr>],
                          auto_increment = 4\<rparr>
      \<and> movies d1 = Some \<lparr>table_rows = [], auto_increment = 2\<rparr>
      \<and> run_statements insert_test_movies d1 = (None, d2)
      \<and> movies d2 = Some \<lparr>table_rows = rows, auto_increment = 5\<rparr>
      \<and> map (\<lambda>r. (movies_title r, movies_tmdb_id r)) rows =
            [(''The Shawshank Redemption'', Some 278), (''The Godfather'', Some 238),
             (''The Dark Knight'', Some 155)]
      \<and> map movies_id rows = [2, 3, 4])"
proof -
  have i: "initial_database example_server = example_database"
    by (simp add: initial_database_def example_server_def)
  have t: "users example_database = Some \<lparr>table_rows =
                [\<lparr>users_id = 1, users_username = ''alice'', users_password = ''secret''\<rparr>,
                 \<lparr>users_id = 2, users_username = ''testuser_17'', users_password = ''password123''\<rparr>,
                 \<lparr>users_id = 3, users_username = ''TestUser_18'', users_password = ''password123''\<rparr>],
              auto_increment = 4\<rparr>
     \<and> movies example_database = Some \<lparr>table_rows =
                [\<lparr>movies_id = 1, movies_tmdb_id = Some 278, movies_title = ''The Shawshank Redemption'',
                  movies_overview = None, movies_poster_path = None, movies_vote_average = Some 93\<rparr>],
              auto_increment = 2\<rparr>
     \<and> user_movies example_database = Some [\<lparr>user_movies_user_id = 1, user_movies_movie_id = 1\<rparr>,
                          \<lparr>user_movies_user_id = 2, user_movies_movie_id = 1\<rparr>]
     \<and> user_moods example_database =
           Some \<lparr>table_rows = [\<lparr>user_moods_id = 1, user_moods_user_id = 2, user_moods_mood = ''happy''\<rparr>],
                         auto_increment = 2\<rparr>
     \<and> deletion_logs example_database = Some \<lparr>table_rows = [], auto_increment = 1\<rparr>"
    by (simp add: example_database_tables)
  note inst = seed_reset [OF setupTestDatabase_example,
      of example_database
         "\<lparr>table_rows =
                [\<lparr>users_id = 1, users_username = ''alice'', users_password = ''secret''\<rparr>,
                 \<lparr>users_id = 2, users_username = ''testuser_17'', users_password = ''password123''\<rparr>,
                 \<lparr>users_id = 3, users_username = ''TestUser_18'', users_password = ''password123''\<rparr>],
              auto_increment = 4\<rparr>"
         "\<lparr>table_rows =
                [\<lparr>movies_id = 1, movies_tmdb_id = Some 278, movies_title = ''The Shawshank Redemption'',
                  movies_overview = None, movies_poster_path = None, movies_vote_average = Some 93\<rparr>],
              auto_increment = 2\<rparr>"
         "[\<lparr>user_movies_user_id = 1, user_movies_movie_id = 1\<rparr>,
           \<lparr>user_movies_user_id = 2, user_movies_movie_id = 1\<rparr>]"
         "\<lparr>table_rows = [\<lparr>user_moods_id = 1, user_moods_user_id = 2, user_moods_mood = ''happy''\<rparr>],
                         auto_increment = 2\<rparr>"
         "\<lparr>table_rows = [], auto_increment = 1\<rparr>"]
  have a: "\<exists>d' rows.
        server_after (setupTestDatabase mysql reachable Map.empty example_server) =
          example_server\<lparr>databases := (databases example_server)(''movie_recommendation_app'' \<mapsto> d')\<rparr>
      \<and> user_movies d' = Some []
      \<and> user_moods d' = Some \<lparr>table_rows = [], auto_increment = 2\<rparr>
      \<and> users d' = Some \<lparr>table_rows = [\<lparr>users_id = 1, users_username = ''alice'', users_password = ''secret''\<rparr>],
                          auto_increment = 4\<rparr>
      \<and> movies d' = Some \<lparr>table_rows = rows, auto_increment = 4\<rparr>
      \<and> map (\<lambda>r. (movies_title r, movies_tmdb_id r)) rows =
            [(''The Shawshank Redemption'', Some 278), (''The Godfather'', Some 238),
             (''The Dark Knight'', Some 155)]
      \<and> map movies_id rows = [1, 2, 3]"
    using inst [THEN conjunct1]
    apply (elim exE conjE)
    subgoal for d' rows
      apply (rule exI [of _ d'], rule exI [of _ rows])
      apply (simp add: i example_database_tables mysql_def ascii_lower_def)
      done
    done
  have b: "\<exists>d1 d2 rows.
        run_statements (clear_test_data mysql) example_database = (None, d1)
      \<and> user_movies d1 = Some []
      \<and> user_moods d1 = Some \<lparr>table_rows = [], auto_increment = 2\<rparr>
      \<and> users d1 = Some \<lparr>table_rows = [\<lparr>users_id = 1, users_username = ''alice'', users_password = ''secret''\<rparr>],
                          auto_increment = 4\<rparr>
      \<and> movies d1 = Some \<lparr>table_rows = [], auto_increment = 2\<rparr>
      \<and> run_statements insert_test_movies d1 = (None, d2)
      \<and> movies d2 = Some \<lparr>table_rows = rows, auto_increment = 5\<rparr>
      \<and> map (\<lambda>r. (movies_title r, movies_tmdb_id r)) rows =
            [(''The Shawshank Redemption'', Some 278), (''The Godfather'', Some 238),
             (''The Dark Knight'', Some 155)]
      \<and> map movies_id rows = [2, 3, 4]"
    using inst [THEN conjunct2, THEN conjunct2, THEN mp, OF t]
    apply (elim exE conjE)
    subgoal for d1 d2 rows
      apply (rule exI [of _ d1], rule exI [of _ d2], rule exI [of _ rows])
      apply (simp add: mysql_def ascii_lower_def)
      done
    done
  show ?thesis
    using setupTestDatabase_example a b by (intro conjI)
qed

text \<open>
  Claim C7. Whatever the engine, the host, the environment and the server: when the
  connection was opened, \<^verbatim>\<open>connection.end()\<close> is the last thing \<^verbatim>\<open>setupTestDatabase\<close> does,
  and it does it once; when the connection attempt failed there is no connection and no
  call. The server has as many open connections after the function, and after the whole
  script, as before.
\<close>

theorem connection_released:
  "open_connections (server_after (setupTestDatabase eng h env srv)) = open_connections srv
   \<and> open_connections (fst (runTests eng h env api now srv)) = open_connections srv
   \<and> (accepts h (connection_config env) = None \<longrightarrow>
        last (events (setupTestDatabase eng h env srv)) = ConnectionEnd
      \<and> length (filter (\<lambda>e. e = ConnectionEnd) (events (setupTestDatabase eng h env srv))) = 1)
   \<and> (accepts h (connection_config env) \<noteq> None \<longrightarrow>
        ConnectionEnd \<notin> set (events (setupTestDatabase eng h env srv))
      \<and> server_after (setupTestDatabase eng h env srv) = srv)"
proof -
  obtain mid where mid: "announces mid" and
    ev: "events (setupTestDatabase eng h env srv) =
       ConsoleLog ''Attempting to connect to MySQL...'' NoData #
       ConsoleLog ''Using host:'' (Text (host (connection_config env))) #
       ConsoleLog ''Using user:'' (Text (user (connection_config env))) #
       CreateConnection (connection_config env) #
       mid @ (case accepts h (connection_config env) of None \<Rightarrow> [ConnectionEnd] | Some _ \<Rightarrow> [])"
    using setupTestDatabase_events by blast
  have no: "ConnectionEnd \<notin> set mid" using mid by (rule announces_no_end)
  then have f: "filter (\<lambda>e. e = ConnectionEnd) mid = []" by (auto simp: filter_empty_conv)
  have a: "open_connections (server_after (setupTestDatabase eng h env srv)) = open_connections srv"
    by (rule setupTestDatabase_connections)
  have b: "open_connections (fst (runTests eng h env api now srv)) = open_connections srv"
    using a by (simp add: runTests_def Let_def)
  have c: "accepts h (connection_config env) = None \<longrightarrow>
        last (events (setupTestDatabase eng h env srv)) = ConnectionEnd
      \<and> length (filter (\<lambda>e. e = ConnectionEnd) (events (setupTestDatabase eng h env srv))) = 1"
    using ev f by simp
  have d: "accepts h (connection_config env) \<noteq> None \<longrightarrow>
        ConnectionEnd \<notin> set (events (setupTestDatabase eng h env srv))
      \<and> server_after (setupTestDatabase eng h env srv) = srv"
    using ev no setupTestDatabase_rejected [of h env _ eng srv] by auto
  show ?thesis using a b c d by blast
qed

theorem connection_released_witness:
  "accepts flaky (connection_config Map.empty) = None
   \<and> \<not> returned (setupTestDatabase mysql flaky Map.empty example_server)
   \<and> last (events (setupTestDatabase mysql flaky Map.empty example_server)) = ConnectionEnd
   \<and> open_connections (server_after (setupTestDatabase mysql flaky Map.empty example_server)) = 0
   \<and> accepts unreachable (connection_config Map.empty) \<noteq> None
   \<and> ConnectionEnd \<notin> set (events (setupTestDatabase mysql unreachable Map.empty example_server))"
proof -
  have a: "accepts flaky (connection_config Map.empty) = None" by (simp add: flaky_def)
  have b: "accepts unreachable (connection_config Map.empty) \<noteq> None" by (simp add: unreachable_def)
  have "fault flaky 3 = Some PROTOCOL_CONNECTION_LOST" by (simp add: flaky_def)
  then have c: "\<not> returned (setupTestDatabase mysql flaky Map.empty example_server)"
    by (rule setupTestDatabase_faulted) simp
  show ?thesis
    using a b c connection_released [of mysql flaky Map.empty example_server]
      connection_released [of mysql unreachable Map.empty example_server]
    by (simp add: example_server_def)
qed

text \<open>
  Claim C8. The host of the connection is the value of \<^verbatim>\<open>DB_HOST\<close>, and \<open>localhost\<close> when the
  variable is unset (or set to the empty string, which \<^verbatim>\<open>||\<close> treats alike); the user is
  the value of \<^verbatim>\<open>DB_USER\<close>, and \<open>root\<close> when that is unset or empty; the password is the
  value of \<^verbatim>\<open>DB_PASSWORD\<close>. \<^verbatim>\<open>setupTestDatabase\<close> asks for exactly one connection, with these
  parameters, and returns true only if the server accepts them. When the connection is
  accepted and the first three queries reach the server, the tables of the script are
  afterwards in the database named \<^verbatim>\<open>movie_recommendation_app\<close>, and no other database of
  the server has changed: that database is the one the connection had selected.
\<close>

theorem connection_parameters:
  "host (connection_config env) =
     (case env ''DB_HOST'' of None \<Rightarrow> ''localhost'' | Some s \<Rightarrow> if s = [] then ''localhost'' else s)
   \<and> user (connection_config env) =
     (case env ''DB_USER'' of None \<Rightarrow> ''root'' | Some s \<Rightarrow> if s = [] then ''root'' else s)
   \<and> password (connection_config env) = env ''DB_PASSWORD''
   \<and> filter (\<lambda>e. case e of CreateConnection _ \<Rightarrow> True | _ \<Rightarrow> False)
        (events (setupTestDatabase eng h env srv)) = [CreateConnection (connection_config env)]
   \<and> (returned (setupTestDatabase eng h env srv) \<longrightarrow> accepts h (connection_config env) = None)
   \<and> (accepts h (connection_config env) = None
        \<and> fault h 0 = None \<and> fault h 1 = None \<and> fault h 2 = None \<longrightarrow>
        (\<exists>d'. server_after (setupTestDatabase eng h env srv) =
                 srv\<lparr>databases := (databases srv)(''movie_recommendation_app'' \<mapsto> d')\<rparr>
            \<and> users d' \<noteq> None \<and> movies d' \<noteq> None \<and> user_movies d' \<noteq> None
            \<and> user_moods d' \<noteq> None \<and> deletion_logs d' \<noteq> None))"
proof -
  obtain mid where mid: "announces mid" and
    ev: "events (setupTestDatabase eng h env srv) =
       ConsoleLog ''Attempting to connect to MySQL...'' NoData #
       ConsoleLog ''Using host:'' (Text (host (connection_config env))) #
       ConsoleLog ''Using user:'' (Text (user (connection_config env))) #
       CreateConnection (connection_config env) #
       mid @ (case accepts h (connection_config env) of None \<Rightarrow> [ConnectionEnd] | Some _ \<Rightarrow> [])"
    using setupTestDatabase_events by blast
  have "filter (\<lambda>e. case e of CreateConnection _ \<Rightarrow> True | _ \<Rightarrow> False) mid = []"
    using mid by (auto simp: filter_empty_conv announces_def list_all_iff split: event.splits)
  then have a: "filter (\<lambda>e. case e of CreateConnection _ \<Rightarrow> True | _ \<Rightarrow> False)
        (events (setupTestDatabase eng h env srv)) = [CreateConnection (connection_config env)]"
    using ev by (simp split: option.splits)
  have b: "returned (setupTestDatabase eng h env srv) \<longrightarrow> accepts h (connection_config env) = None"
    using setupTestDatabase_returned(1) by blast
  have c: "accepts h (connection_config env) = None
        \<and> fault h 0 = None \<and> fault h 1 = None \<and> fault h 2 = None \<longrightarrow>
        (\<exists>d'. server_after (setupTestDatabase eng h env srv) =
                 srv\<lparr>databases := (databases srv)(''movie_recommendation_app'' \<mapsto> d')\<rparr>
            \<and> users d' \<noteq> None \<and> movies d' \<noteq> None \<and> user_movies d' \<noteq> None
            \<and> user_moods d' \<noteq> None \<and> deletion_logs d' \<noteq> None)"
  proof (intro impI)
    assume f: "accepts h (connection_config env) = None
        \<and> fault h 0 = None \<and> fault h 1 = None \<and> fault h 2 = None"
    let ?d0 = "initial_database srv"
    let ?D = "if trigger_kept eng ?d0 \<or> fault h 3 \<noteq> None then provisioned ?d0
              else if fault h 4 \<noteq> None then (seeded eng ?d0)\<lparr>movies := Some new_table\<rparr>
              else seeded eng ?d0"
    have s: "server_after (setupTestDatabase eng h env srv) =
          srv\<lparr>databases := (databases srv)(''movie_recommendation_app'' \<mapsto> ?D)\<rparr>"
      using f by (intro setupTestDatabase_result(1)) simp_all
    have p: "users ?D \<noteq> None \<and> movies ?D \<noteq> None \<and> user_movies ?D \<noteq> None
            \<and> user_moods ?D \<noteq> None \<and> deletion_logs ?D \<noteq> None"
      by (simp add: provisioned_def seeded_def)
    show "\<exists>d'. server_after (setupTestDatabase eng h env srv) =
                 srv\<lparr>databases := (databases srv)(''movie_recommendation_app'' \<mapsto> d')\<rparr>
            \<and> users d' \<noteq> None \<and> movies d' \<noteq> None \<and> user_movies d' \<noteq> None
            \<and> user_moods d' \<noteq> None \<and> deletion_logs d' \<noteq> None"
      by (rule exI [of _ ?D]) (use s p in blast)
  qed
  have d: "host (connection_config env) =
     (case env ''DB_HOST'' of None \<Rightarrow> ''localhost'' | Some s \<Rightarrow> if s = [] then ''localhost'' else s)"
    "user (connection_config env) =
     (case env ''DB_USER'' of None \<Rightarrow> ''root'' | Some s \<Rightarrow> if s = [] then ''root'' else s)"
    "password (connection_config env) = env ''DB_PASSWORD''"
    by (simp_all add: connection_config_def or_default_def)
  show ?thesis using a b c d by (intro conjI)
qed

theorem connection_parameters_witness:
  "connection_config [''DB_HOST'' \<mapsto> ''db.example.org'', ''DB_USER'' \<mapsto> ''app'', ''DB_PASSWORD'' \<mapsto> ''hunter2''] =
     \<lparr>host = ''db.example.org'', user = ''app'', password = Some ''hunter2'', multipleStatements = True\<rparr>
   \<and> connection_config [''DB_HOST'' \<mapsto> '''', ''DB_PASSWORD'' \<mapsto> ''hunter2''] =
     \<lparr>host = ''localhost'', user = ''root'', password = Some ''hunter2'', multipleStatements = True\<rparr>
   \<and> connection_config Map.empty =
     \<lparr>host = ''localhost'', user = ''root'', password = None, multipleStatements = True\<rparr>
   \<and> returned (setupTestDatabase mysql reachable Map.empty example_server)
   \<and> accepts reachable (connection_config Map.empty) = None
   \<and> fault reachable 0 = None \<and> fault reachable 1 = None \<and> fault reachable 2 = None
   \<and> (\<exists>d'. server_after (setupTestDatabase mysql reachable Map.empty example_server) =
              example_server\<lparr>databases := (databases example_server)(''movie_recommendation_app'' \<mapsto> d')\<rparr>
         \<and> users d' \<noteq> None \<and> movies d' \<noteq> None \<and> user_movies d' \<noteq> None
         \<and> user_moods d' \<noteq> None \<and> deletion_logs d' \<noteq> None)"
proof -
  let ?env = "[''DB_HOST'' \<mapsto> ''db.example.org'', ''DB_USER'' \<mapsto> ''app'', ''DB_PASSWORD'' \<mapsto> ''hunter2'']"
  let ?env' = "[''DB_HOST'' \<mapsto> '''', ''DB_PASSWORD'' \<mapsto> ''hunter2'']"
  have m: "multipleStatements (connection_config e) = True" for e
    by (simp add: connection_config_def)
  have c1: "connection_config ?env =
     \<lparr>host = ''db.example.org'', user = ''app'', password = Some ''hunter2'', multipleStatements = True\<rparr>"
    using connection_parameters [of ?env mysql reachable example_server] m [of ?env]
    by (cases "connection_config ?env") simp
  have c2: "connection_config ?env' =
     \<lparr>host = ''localhost'', user = ''root'', password = Some ''hunter2'', multipleStatements = True\<rparr>"
    using connection_parameters [of ?env' mysql reachable example_server] m [of ?env']
    by (cases "connection_config ?env'") simp
  have c3: "connection_config Map.empty =
     \<lparr>host = ''localhost'', user = ''root'', password = None, multipleStatements = True\<rparr>"
    using connection_parameters [of Map.empty mysql reachable example_server] m [of Map.empty]
    by (cases "connection_config Map.empty") simp
  have f: "fault reachable 0 = None \<and> fault reachable 1 = None \<and> fault reachable 2 = None"
    by (simp add: reachable_def)
  have a: "accepts reachable (connection_config Map.empty) = None"
    using connection_parameters [of Map.empty mysql reachable example_server]
      setupTestDatabase_example by blast
  have e: "\<exists>d'. server_after (setupTestDatabase mysql reachable Map.empty example_server) =
              example_server\<lparr>databases := (databases example_server)(''movie_recommendation_app'' \<mapsto> d')\<rparr>
         \<and> users d' \<noteq> None \<and> movies d' \<noteq> None \<and> user_movies d' \<noteq> None
         \<and> user_moods d' \<noteq> None \<and> deletion_logs d' \<noteq> None"
    using connection_parameters [of Map.empty mysql reachable example_server] a f by blast
  show ?thesis using c1 c2 c3 setupTestDatabase_example a f e by (intro conjI) blast+
qed

text \<open>
  Claim C1, as the code has it. On a database that has the tables and the trigger: a
  \<^verbatim>\<open>DELETE\<close> on \<^verbatim>\<open>user_movies\<close> removes the rows it selects and appends to \<^verbatim>\<open>deletion_logs\<close>
  exactly one row for each of them, in order, with that row's \<open>(user_id, movie_id)\<close>. A
  \<^verbatim>\<open>DELETE\<close> on \<^verbatim>\<open>users\<close> or on \<^verbatim>\<open>movies\<close> removes the \<^verbatim>\<open>user_movies\<close> rows that reference a
  deleted row; it appends one such row for each of them when the engine activates
  triggers for cascaded deletions, and nothing otherwise.
\<close>

theorem user_movies_deletion_log:
  assumes "after_movie_delete d" and "users d = Some u" and "movies d = Some m"
    and "user_movies d = Some rs" and "user_moods d = Some mo" and "deletion_logs d = Some l"
  shows
   "(\<exists>d' new. delete_from_user_movies P d = Inr d'
       \<and> user_movies d' = Some (filter (\<lambda>r. \<not> P r) rs)
       \<and> deletion_logs d' =
           Some \<lparr>table_rows = table_rows l @ new, auto_increment = auto_increment l + int (length new)\<rparr>
       \<and> map (\<lambda>r. (deletion_logs_user_id r, deletion_logs_movie_id r)) new =
           map (\<lambda>r. (user_movies_user_id r, user_movies_movie_id r)) (filter P rs))
  \<and> (\<exists>d' new. delete_from_users eng Q d = Inr d'
       \<and> user_movies d' =
           Some (filter (\<lambda>r. user_movies_user_id r \<notin> set (map users_id (filter Q (table_rows u)))) rs)
       \<and> deletion_logs d' =
           Some \<lparr>table_rows = table_rows l @ new, auto_increment = auto_increment l + int (length new)\<rparr>
       \<and> map (\<lambda>r. (deletion_logs_user_id r, deletion_logs_movie_id r)) new =
           (if cascade_fires_triggers eng
            then map (\<lambda>r. (user_movies_user_id r, user_movies_movie_id r))
                   (filter (\<lambda>r. user_movies_user_id r \<in> set (map users_id (filter Q (table_rows u)))) rs)
            else []))
  \<and> (\<exists>d' new. delete_from_movies eng R d = Inr d'
       \<and> user_movies d' =
           Some (filter (\<lambda>r. user_movies_movie_id r \<notin> set (map movies_id (filter R (table_rows m)))) rs)
       \<and> deletion_logs d' =
           Some \<lparr>table_rows = table_rows l @ new, auto_increment = auto_increment l + int (length new)\<rparr>
       \<and> map (\<lambda>r. (deletion_logs_user_id r, deletion_logs_movie_id r)) new =
           (if cascade_fires_triggers eng
            then map (\<lambda>r. (user_movies_user_id r, user_movies_movie_id r))
                   (filter (\<lambda>r. user_movies_movie_id r \<in> set (map movies_id (filter R (table_rows m)))) rs)
            else []))"
proof (intro conjI)
  have len: "length (logged a olds) = length olds" for a olds
    by (induction olds arbitrary: a) auto
  show "\<exists>d' new. delete_from_user_movies P d = Inr d'
       \<and> user_movies d' = Some (filter (\<lambda>r. \<not> P r) rs)
       \<and> deletion_logs d' =
           Some \<lparr>table_rows = table_rows l @ new, auto_increment = auto_increment l + int (length new)\<rparr>
       \<and> map (\<lambda>r. (deletion_logs_user_id r, deletion_logs_movie_id r)) new =
           map (\<lambda>r. (user_movies_user_id r, user_movies_movie_id r)) (filter P rs)"
    using assms
    by (intro exI [of _ "logged (auto_increment l) (filter P rs)"]
          exI [of _ "d\<lparr>user_movies := Some (filter (\<lambda>r. \<not> P r) rs),
            deletion_logs := Some (log_append l (filter P rs))\<rparr>"])
       (simp add: delete_from_user_movies_result log_append_def logged_keys len)
  show "\<exists>d' new. delete_from_users eng Q d = Inr d'
       \<and> user_movies d' =
           Some (filter (\<lambda>r. user_movies_user_id r \<notin> set (map users_id (filter Q (table_rows u)))) rs)
       \<and> deletion_logs d' =
           Some \<lparr>table_rows = table_rows l @ new, auto_increment = auto_increment l + int (length new)\<rparr>
       \<and> map (\<lambda>r. (deletion_logs_user_id r, deletion_logs_movie_id r)) new =
           (if cascade_fires_triggers eng
            then map (\<lambda>r. (user_movies_user_id r, user_movies_movie_id r))
                   (filter (\<lambda>r. user_movies_user_id r \<in> set (map users_id (filter Q (table_rows u)))) rs)
            else [])"
    using assms
    by (intro exI [of _ "if cascade_fires_triggers eng
          then logged (auto_increment l)
                 (filter (\<lambda>r. user_movies_user_id r \<in> set (map users_id (filter Q (table_rows u)))) rs)
          else []"]
          exI [of _ "d\<lparr>users := Some (u\<lparr>table_rows := filter (\<lambda>r. \<not> Q r) (table_rows u)\<rparr>),
            user_movies :=
              Some (filter (\<lambda>r. user_movies_user_id r \<notin> set (map users_id (filter Q (table_rows u)))) rs),
            user_moods :=
              Some (mo\<lparr>table_rows :=
                filter (\<lambda>r. user_moods_user_id r \<notin> set (map users_id (filter Q (table_rows u))))
                  (table_rows mo)\<rparr>),
            deletion_logs :=
              Some (if cascade_fires_triggers eng \<and> after_movie_delete d
                    then log_append l
                      (filter (\<lambda>r. user_movies_user_id r \<in> set (map users_id (filter Q (table_rows u)))) rs)
                    else l)\<rparr>"])
       (simp add: delete_from_users_result log_append_def logged_keys len)
  show "\<exists>d' new. delete_from_movies eng R d = Inr d'
       \<and> user_movies d' =
           Some (filter (\<lambda>r. user_movies_movie_id r \<notin> set (map movies_id (filter R (table_rows m)))) rs)
       \<and> deletion_logs d' =
           Some \<lparr>table_rows = table_rows l @ new, auto_increment = auto_increment l + int (length new)\<rparr>
       \<and> map (\<lambda>r. (deletion_logs_user_id r, deletion_logs_movie_id r)) new =
           (if cascade_fires_triggers eng
            then map (\<lambda>r. (user_movies_user_id r, user_movies_movie_id r))
                   (filter (\<lambda>r. user_movies_movie_id r \<in> set (map movies_id (filter R (table_rows m)))) rs)
            else [])"
    using assms
    by (intro exI [of _ "if cascade_fires_triggers eng
          then logged (auto_increment l)
                 (filter (\<lambda>r. user_movies_movie_id r \<in> set (map movies_id (filter R (table_rows m)))) rs)
          else []"]
          exI [of _ "d\<lparr>movies := Some (m\<lparr>table_rows := filter (\<lambda>r. \<not> R r) (table_rows m)\<rparr>),
            user_movies :=
              Some (filter (\<lambda>r. user_movies_movie_id r \<notin> set (map movies_id (filter R (table_rows m)))) rs),
            deletion_logs :=
              Some (if cascade_fires_triggers eng \<and> after_movie_delete d
                    then log_append l
                      (filter (\<lambda>r. user_movies_movie_id r \<in> set (map movies_id (filter R (table_rows m)))) rs)
                    else l)\<rparr>"])
       (simp add: delete_from_movies_result log_append_def logged_keys len)
qed

theorem user_movies_deletion_log_witness:
  "after_movie_delete example_database
   \<and> (\<exists>d' new. delete_from_user_movies (\<lambda>r. user_movies_user_id r = 2) example_database = Inr d'
         \<and> user_movies d' = Some [\<lparr>user_movies_user_id = 1, user_movies_movie_id = 1\<rparr>]
         \<and> deletion_logs d' = Some \<lparr>table_rows = new, auto_increment = 1 + int (length new)\<rparr>
         \<and> map (\<lambda>r. (deletion_logs_user_id r, deletion_logs_movie_id r)) new = [(2, 1)])
   \<and> (\<exists>d' new. delete_from_users mysql (\<lambda>r. users_id r = 2) example_database = Inr d'
         \<and> user_movies d' = Some [\<lparr>user_movies_user_id = 1, user_movies_movie_id = 1\<rparr>]
         \<and> deletion_logs d' = Some \<lparr>table_rows = new, auto_increment = 1 + int (length new)\<rparr>
         \<and> map (\<lambda>r. (deletion_logs_user_id r, deletion_logs_movie_id r)) new = [])"
proof -
  note t = user_movies_deletion_log [OF example_database_tables(6) example_database_tables(1)
      example_database_tables(2) example_database_tables(3) example_database_tables(4)
      example_database_tables(5),
      of "\<lambda>r. user_movies_user_id r = 2" mysql "\<lambda>r. users_id r = 2" "\<lambda>_. True"]
  from t obtain d1 new1 where f1:
    "delete_from_user_movies (\<lambda>r. user_movies_user_id r = 2) example_database = Inr d1
     \<and> user_movies d1 = Some [\<lparr>user_movies_user_id = 1, user_movies_movie_id = 1\<rparr>]
     \<and> deletion_logs d1 = Some \<lparr>table_rows = new1, auto_increment = 1 + int (length new1)\<rparr>
     \<and> map (\<lambda>r. (deletion_logs_user_id r, deletion_logs_movie_id r)) new1 = [(2, 1)]"
    by auto
  from t obtain d2 new2 where f2:
    "delete_from_users mysql (\<lambda>r. users_id r = 2) example_database = Inr d2
     \<and> user_movies d2 = Some [\<lparr>user_movies_user_id = 1, user_movies_movie_id = 1\<rparr>]
     \<and> deletion_logs d2 = Some \<lparr>table_rows = new2, auto_increment = 1 + int (length new2)\<rparr>
     \<and> map (\<lambda>r. (deletion_logs_user_id r, deletion_logs_movie_id r)) new2 = []"
    by (auto simp: mysql_def)
  show ?thesis
  proof (intro conjI)
    show "after_movie_delete example_database" by (rule example_database_tables(6))
    show "\<exists>d' new. delete_from_user_movies (\<lambda>r. user_movies_user_id r = 2) example_database = Inr d'
         \<and> user_movies d' = Some [\<lparr>user_movies_user_id = 1, user_movies_movie_id = 1\<rparr>]
         \<and> deletion_logs d' = Some \<lparr>table_rows = new, auto_increment = 1 + int (length new)\<rparr>
         \<and> map (\<lambda>r. (deletion_logs_user_id r, deletion_logs_movie_id r)) new = [(2, 1)]"
      by (rule exI [of _ d1], rule exI [of _ new1], rule f1)
    show "\<exists>d' new. delete_from_users mysql (\<lambda>r. users_id r = 2) example_database = Inr d'
         \<and> user_movies d' = Some [\<lparr>user_movies_user_id = 1, user_movies_movie_id = 1\<rparr>]
         \<and> deletion_logs d' = Some \<lparr>table_rows = new, auto_increment = 1 + int (length new)\<rparr>
         \<and> map (\<lambda>r. (deletion_logs_user_id r, deletion_logs_movie_id r)) new = []"
      by (rule exI [of _ d2], rule exI [of _ new2], rule f2)
  qed
qed

text \<open>
  On MySQL a cascaded deletion is not logged: with the trigger in place, deleting the
  movies, or the user 1, removes rows of \<^verbatim>\<open>user_movies\<close> and leaves \<^verbatim>\<open>deletion_logs\<close> as it
  was.
\<close>

theorem cascaded_deletion_not_logged:
  "after_movie_delete example_database
   \<and> (\<exists>d'. delete_from_movies mysql (\<lambda>_. True) example_database = Inr d'
         \<and> user_movies example_database =
             Some [\<lparr>user_movies_user_id = 1, user_movies_movie_id = 1\<rparr>,
                   \<lparr>user_movies_user_id = 2, user_movies_movie_id = 1\<rparr>]
         \<and> user_movies d' = Some []
         \<and> deletion_logs d' = deletion_logs example_database)
   \<and> (\<exists>d'. delete_from_users mysql (\<lambda>r. users_id r = 1) example_database = Inr d'
         \<and> user_movies d' = Some [\<lparr>user_movies_user_id = 2, user_movies_movie_id = 1\<rparr>]
         \<and> deletion_logs d' = deletion_logs example_database)"
  by (simp add: example_database_tables mysql_def
        delete_from_movies_result [OF example_database_tables(2) example_database_tables(3)
          example_database_tables(5)]
        delete_from_users_result [OF example_database_tables(1) example_database_tables(3)
          example_database_tables(4) example_database_tables(5)])

lemma initial_database_put [simp]:
  "initial_database (srv\<lparr>databases := (databases srv)(''movie_recommendation_app'' \<mapsto> d)\<rparr>) = d"
  by (simp add: initial_database_def)

lemma seeded_trigger [simp]:
  "after_movie_delete (seeded eng d)" "user_movies (seeded eng d) = Some []"
  by (simp_all add: seeded_def)

lemma provisioned_trigger [simp]:
  "after_movie_delete (provisioned d)" "user_movies (provisioned d) = Some []"
  by (simp_all add: provisioned_def)

text \<open>
  Claim C4, as the code has it. Take a run of \<^verbatim>\<open>setupTestDatabase\<close> that reaches the server
  and returns true. The trigger exists afterwards. A second run against the server it
  leaves returns true exactly when the engine drops a table's triggers with the table, as
  MySQL does: there \<^verbatim>\<open>DROP TABLE IF EXISTS user_movies\<close> has removed the trigger before the
  unguarded \<^verbatim>\<open>CREATE TRIGGER\<close> runs. On an engine that keeps the trigger the second run
  returns false; and whenever it returns false, \<^verbatim>\<open>runTests\<close> sends no request.
\<close>

theorem second_provisioning_run:
  assumes "accepts h (connection_config env) = None" and "fault h = (\<lambda>_. None)"
    and "returned (setupTestDatabase eng h env srv)"
  shows "after_movie_delete (initial_database (server_after (setupTestDatabase eng h env srv)))
    \<and> returned (setupTestDatabase eng h env (server_after (setupTestDatabase eng h env srv)))
        = drop_table_drops_triggers eng
    \<and> (\<not> returned (setupTestDatabase eng h env (server_after (setupTestDatabase eng h env srv))) \<longrightarrow>
          requests_of (snd (runTests eng h env api now (server_after (setupTestDatabase eng h env srv)))) = [])"
proof -
  let ?s1 = "server_after (setupTestDatabase eng h env srv)"
  have k: "\<not> trigger_kept eng (initial_database srv)"
    using assms setupTestDatabase_unfaulted(1) [OF assms(1,2), of eng srv] by simp
  have s1: "?s1 = srv\<lparr>databases := (databases srv)(''movie_recommendation_app'' \<mapsto>
      seeded eng (initial_database srv))\<rparr>"
    using k setupTestDatabase_unfaulted(2) [OF assms(1,2), of eng srv] by simp
  have i: "initial_database ?s1 = seeded eng (initial_database srv)"
    by (simp add: s1)
  have a: "after_movie_delete (initial_database ?s1)" by (simp add: i)
  have b: "returned (setupTestDatabase eng h env ?s1) = drop_table_drops_triggers eng"
    using setupTestDatabase_unfaulted(1) [OF assms(1,2), of eng ?s1]
    by (simp add: i trigger_kept_def)
  have c: "\<not> returned (setupTestDatabase eng h env ?s1) \<longrightarrow>
          requests_of (snd (runTests eng h env api now ?s1)) = []"
    using runTests_skips by blast
  show ?thesis using a b c by blast
qed

theorem second_provisioning_run_witness:
  "accepts reachable (connection_config Map.empty) = None
   \<and> fault reachable = (\<lambda>_. None)
   \<and> returned (setupTestDatabase mysql reachable Map.empty example_server)
   \<and> returned (setupTestDatabase mysql reachable Map.empty
        (server_after (setupTestDatabase mysql reachable Map.empty example_server)))
   \<and> returned (setupTestDatabase keeps_triggers reachable Map.empty no_databases)
   \<and> \<not> returned (setupTestDatabase keeps_triggers reachable Map.empty
        (server_after (setupTestDatabase keeps_triggers reachable Map.empty no_databases)))
   \<and> requests_of (snd (runTests keeps_triggers reachable Map.empty (\<lambda>_ _. NoReply ''unused'') 0
        (server_after (setupTestDatabase keeps_triggers reachable Map.empty no_databases)))) = []"
proof -
  have a: "accepts reachable (connection_config Map.empty) = None" by (simp add: reachable_def)
  have f: "fault reachable = (\<lambda>_. None)" by (simp add: reachable_def)
  have i: "initial_database example_server = example_database"
    by (simp add: initial_database_def example_server_def)
  have j: "initial_database no_databases = empty_database"
    by (simp add: initial_database_def no_databases_def)
  have r1: "returned (setupTestDatabase mysql reachable Map.empty example_server)"
    using setupTestDatabase_unfaulted(1) [OF a f, of mysql example_server]
    by (simp add: i trigger_kept_def mysql_def example_database_def)
  have r2: "returned (setupTestDatabase keeps_triggers reachable Map.empty no_databases)"
    using setupTestDatabase_unfaulted(1) [OF a f, of keeps_triggers no_databases]
    by (simp add: j trigger_kept_def empty_database_def)
  have m: "drop_table_drops_triggers mysql" "\<not> drop_table_drops_triggers keeps_triggers"
    by (simp_all add: mysql_def keeps_triggers_def)
  show ?thesis
    using a f r1 r2 m
      second_provisioning_run [OF a f r1]
      second_provisioning_run [OF a f r2, of "\<lambda>_ _. NoReply ''unused''" 0]
    by simp
qed

text \<open>
  On MySQL the second run does not fail: starting from a server without databases, the
  first run returns true and leaves the trigger, and the second run returns true as well.
\<close>

theorem second_run_succeeds_on_mysql:
  "returned (setupTestDatabase mysql reachable Map.empty no_databases)
   \<and> after_movie_delete
        (initial_database (server_after (setupTestDatabase mysql reachable Map.empty no_databases)))
   \<and> returned (setupTestDatabase mysql reachable Map.empty
        (server_after (setupTestDatabase mysql reachable Map.empty no_databases)))"
proof -
  have a: "accepts reachable (connection_config Map.empty) = None" by (simp add: reachable_def)
  have f: "fault reachable = (\<lambda>_. None)" by (simp add: reachable_def)
  have i: "initial_database no_databases = empty_database"
    by (simp add: initial_database_def no_databases_def)
  have k: "\<not> trigger_kept mysql empty_database"
    by (simp add: trigger_kept_def empty_database_def)
  have r1: "returned (setupTestDatabase mysql reachable Map.empty no_databases)"
    using setupTestDatabase_unfaulted(1) [OF a f, of mysql no_databases] k by (simp add: i)
  have s1: "server_after (setupTestDatabase mysql reachable Map.empty no_databases) =
      no_databases\<lparr>databases := (databases no_databases)(''movie_recommendation_app'' \<mapsto>
        seeded mysql empty_database)\<rparr>"
    using setupTestDatabase_unfaulted(2) [OF a f, of mysql no_databases] k by (simp add: i)
  have i2: "initial_database (server_after (setupTestDatabase mysql reachable Map.empty no_databases))
      = seeded mysql empty_database"
    by (simp add: s1)
  have k2: "\<not> trigger_kept mysql (seeded mysql empty_database)"
    by (simp add: trigger_kept_def mysql_def)
  have r2: "returned (setupTestDatabase mysql reachable Map.empty
        (server_after (setupTestDatabase mysql reachable Map.empty no_databases)))"
    using setupTestDatabase_unfaulted(1) [OF a f, of mysql
        "server_after (setupTestDatabase mysql reachable Map.empty no_databases)"] k2
    by (simp add: i2)
  have t: "after_movie_delete
        (initial_database (server_after (setupTestDatabase mysql reachable Map.empty no_databases)))"
    by (simp add: i2)
  show ?thesis using r1 r2 t by (intro conjI)
qed

lemma keeps_logI: "(\<And>d d'. f d = Inr d' \<Longrightarrow> prefix (deletion_log_rows d) (deletion_log_rows d')) \<Longrightarrow> keeps_log f"
  by (simp add: keeps_log_def)

lemma fire_after_movie_delete_prefix:
  "fire_after_movie_delete olds d = Inr d' \<Longrightarrow> prefix (deletion_log_rows d) (deletion_log_rows d')"
proof (induction olds arbitrary: d)
  case Nil
  then show ?case by simp
next
  case (Cons old olds)
  then obtain d1 where d1: "insert_deletion_log old d = Inr d1" "fire_after_movie_delete olds d1 = Inr d'"
    by (auto split: sum.splits)
  have "prefix (deletion_log_rows d) (deletion_log_rows d1)"
    using d1(1) by (auto simp: insert_deletion_log_def deletion_log_rows_def split: option.splits)
  moreover have "prefix (deletion_log_rows d1) (deletion_log_rows d')"
    using d1(2) by (rule Cons.IH)
  ultimately show ?case by (rule prefix_order.trans)
qed

lemma remove_user_movies_prefix:
  "remove_user_movies a P rs d = Inr d' \<Longrightarrow> prefix (deletion_log_rows d) (deletion_log_rows d')"
proof -
  assume r: "remove_user_movies a P rs d = Inr d'"
  let ?d1 = "d\<lparr>user_movies := Some (filter (\<lambda>r. \<not> P r) rs)\<rparr>"
  have e: "deletion_log_rows ?d1 = deletion_log_rows d" by (simp add: deletion_log_rows_def)
  show ?thesis
  proof (cases "a \<and> after_movie_delete d")
    case True
    then have "fire_after_movie_delete (filter P rs) ?d1 = Inr d'"
      using r by (simp add: remove_user_movies_def Let_def)
    then show ?thesis using fire_after_movie_delete_prefix e by metis
  next
    case False
    then have "d' = ?d1" using r by (auto simp: remove_user_movies_def Let_def)
    then show ?thesis using e by simp
  qed
qed

lemma cascade_user_movies_prefix:
  "cascade_user_movies eng P d = Inr d' \<Longrightarrow> prefix (deletion_log_rows d) (deletion_log_rows d')"
  by (auto simp: cascade_user_movies_def split: option.splits dest: remove_user_movies_prefix)

lemma cascade_user_moods_rows [simp]:
  "deletion_log_rows (cascade_user_moods P d) = deletion_log_rows d"
  by (simp add: cascade_user_moods_def deletion_log_rows_def split: option.splits)

lemma keeps_log_delete_from_user_movies: "keeps_log (delete_from_user_movies P)"
  by (rule keeps_logI)
     (auto simp: delete_from_user_movies_def split: option.splits dest: remove_user_movies_prefix)

lemma keeps_log_delete_from_users: "keeps_log (delete_from_users eng P)"
proof (rule keeps_logI)
  fix d d' assume r: "delete_from_users eng P d = Inr d'"
  then obtain t where t: "users d = Some t" by (auto simp: delete_from_users_def split: option.splits)
  let ?ids = "map users_id (filter P (table_rows t))"
  let ?d1 = "d\<lparr>users := Some (t\<lparr>table_rows := filter (\<lambda>r. \<not> P r) (table_rows t)\<rparr>)\<rparr>"
  obtain d2 where d2: "cascade_user_movies eng (\<lambda>r. user_movies_user_id r \<in> set ?ids) ?d1 = Inr d2"
    and d': "d' = cascade_user_moods (\<lambda>r. user_moods_user_id r \<in> set ?ids) d2"
    using r t by (auto simp: delete_from_users_def Let_def split: sum.splits)
  have "deletion_log_rows ?d1 = deletion_log_rows d" by (simp add: deletion_log_rows_def)
  then show "prefix (deletion_log_rows d) (deletion_log_rows d')"
    using cascade_user_movies_prefix [OF d2] d' by simp
qed

lemma keeps_log_delete_from_movies: "keeps_log (delete_from_movies eng P)"
proof (rule keeps_logI)
  fix d d' assume r: "delete_from_movies eng P d = Inr d'"
  then obtain t where t: "movies d = Some t" by (auto simp: delete_from_movies_def split: option.splits)
  let ?ids = "map movies_id (filter P (table_rows t))"
  let ?d1 = "d\<lparr>movies := Some (t\<lparr>table_rows := filter (\<lambda>r. \<not> P r) (table_rows t)\<rparr>)\<rparr>"
  have d2: "cascade_user_movies eng (\<lambda>r. user_movies_movie_id r \<in> set ?ids) ?d1 = Inr d'"
    using r t by (auto simp: delete_from_movies_def Let_def)
  have "deletion_log_rows ?d1 = deletion_log_rows d" by (simp add: deletion_log_rows_def)
  then show "prefix (deletion_log_rows d) (deletion_log_rows d')"
    using cascade_user_movies_prefix [OF d2] by simp
qed

lemma keeps_log_simple:
  "keeps_log create_table_users_if_not_exists"
  "keeps_log (drop_table_if_exists_user_movies eng)"
  "keeps_log drop_table_if_exists_movies"
  "keeps_log create_table_movies"
  "keeps_log create_table_user_movies"
  "keeps_log create_table_user_moods_if_not_exists"
  "keeps_log create_table_deletion_logs_if_not_exists"
  "keeps_log create_trigger_after_movie_delete"
  "keeps_log delete_from_user_moods"
  "keeps_log (insert_into_movies vs)"
  by (auto simp: keeps_log_def statement_defs deletion_log_rows_def delete_from_user_moods_def
        insert_into_movies_def new_table_def Let_def split: option.splits if_splits)

lemma keeps_log_script:
  "f \<in> set (create_tables eng) \<union> set (clear_test_data eng) \<union> set insert_test_movies \<Longrightarrow> keeps_log f"
  by (auto simp: create_tables_def clear_test_data_def insert_test_movies_def keeps_log_simple
        keeps_log_delete_from_user_movies keeps_log_delete_from_users keeps_log_delete_from_movies)

lemma on_current_db_log_grows:
  assumes "keeps_log f" and "on_current_db f s = Inr s'"
  shows "log_grows s s'"
proof -
  obtain n d d' where n: "current_db s = Some n" "databases (server s) n = Some d" "f d = Inr d'"
    and s': "s' = s\<lparr>server := (server s)\<lparr>databases := (databases (server s))(n \<mapsto> d')\<rparr>\<rparr>"
    using assms(2) by (auto simp: on_current_db_def split: option.splits sum.splits)
  have p: "prefix (deletion_log_rows d) (deletion_log_rows d')"
    using assms(1) n(3) by (simp add: keeps_log_def)
  show ?thesis
    using p n(2) by (simp add: log_grows_def logged_rows_def s')
qed

lemma setup_statements_log_grows:
  assumes "(line, q) \<in> set (setup_queries eng)" and "f \<in> set q" and "f s = Inr s'"
  shows "log_grows s s'"
proof -
  consider (db) "f = create_database_if_not_exists ''movie_recommendation_app''"
    | (use) "f = use_database ''movie_recommendation_app''"
    | (tab) g where "f = on_current_db g"
        "g \<in> set (create_tables eng) \<union> set (clear_test_data eng) \<union> set insert_test_movies"
    using assms(1,2) by (auto simp: setup_queries_def)
  then show ?thesis
  proof cases
    case db
    then show ?thesis
      using assms(3)
      by (auto simp: create_database_if_not_exists_def log_grows_def logged_rows_def
            deletion_log_rows_def empty_database_def split: option.splits)
  next
    case use
    then show ?thesis
      using assms(3) by (auto simp: use_database_def log_grows_def split: if_splits)
  next
    case tab
    then show ?thesis
      using assms(3) on_current_db_log_grows keeps_log_script by blast
  qed
qed

lemma setup_queries_log_grows:
  "log_grows ss (fst (snd (run_queries h k (setup_queries eng) ss t)))"
proof (rule run_queries_invariant [where R = log_grows])
  fix line q f s s'
  assume "(line, q) \<in> set (setup_queries eng)" "f \<in> set q" "f s = Inr s'"
  then show "log_grows s s'" by (rule setup_statements_log_grows)
qed (auto simp: log_grows_def)

lemma setupTestDatabase_log_grows:
  "prefix (logged_rows srv) (logged_rows (server_after (setupTestDatabase eng h env srv)))"
proof (cases "accepts h (connection_config env)")
  case (Some e)
  then show ?thesis by (simp add: setupTestDatabase_def Let_def)
next
  case None
  let ?ss0 = "\<lparr>server = srv\<lparr>open_connections := Suc (open_connections srv)\<rparr>, current_db = None\<rparr>"
  let ?t0 = "[ConsoleLog ''Attempting to connect to MySQL...'' NoData,
                ConsoleLog ''Using host:'' (Text (host (connection_config env))),
                ConsoleLog ''Using user:'' (Text (user (connection_config env))),
                CreateConnection (connection_config env),
                ConsoleLog ''Successfully connected to MySQL'' NoData]"
  obtain err ss1 t1 where r: "run_queries h 0 (setup_queries eng) ?ss0 ?t0 = (err, ss1, t1)"
    by (cases "run_queries h 0 (setup_queries eng) ?ss0 ?t0") auto
  have "log_grows ?ss0 ss1"
    using setup_queries_log_grows [of ?ss0 h 0 eng ?t0] r by simp
  then have "prefix (logged_rows srv) (logged_rows (connection_end ss1))"
    by (simp add: log_grows_def logged_rows_def connection_end_def)
  then show ?thesis
    using None r
    by (simp add: setupTestDatabase_def Let_def split: option.splits sum.splits)
qed

text \<open>
  Claim C10. No statement of the script removes or changes a row of \<^verbatim>\<open>deletion_logs\<close>:
  each one leaves the rows it finds there as a prefix of the rows afterwards, and so do
  \<^verbatim>\<open>setupTestDatabase\<close> and \<^verbatim>\<open>runTests\<close> as a whole, however the run goes. Nothing ties a
  log row to \<^verbatim>\<open>users\<close> or \<^verbatim>\<open>movies\<close>: clearing the test data of the example database logs
  the two associations and then deletes user 2 and movie 1, which the log rows still
  name.
\<close>

theorem deletion_logs_append_only:
  "prefix (logged_rows srv) (logged_rows (server_after (setupTestDatabase eng h env srv)))
   \<and> prefix (logged_rows srv) (logged_rows (fst (runTests eng h env api now srv)))
   \<and> (\<forall>f \<in> set (create_tables eng) \<union> set (clear_test_data eng) \<union> set insert_test_movies.
         \<forall>d d'. f d = Inr d' \<longrightarrow> prefix (deletion_log_rows d) (deletion_log_rows d'))
   \<and> (\<exists>d'. run_statements (clear_test_data mysql) example_database = (None, d')
         \<and> deletion_log_rows d' =
             [\<lparr>deletion_logs_id = 1, deletion_logs_user_id = 1, deletion_logs_movie_id = 1\<rparr>,
              \<lparr>deletion_logs_id = 2, deletion_logs_user_id = 2, deletion_logs_movie_id = 1\<rparr>]
         \<and> users d' = Some \<lparr>table_rows =
               [\<lparr>users_id = 1, users_username = ''alice'', users_password = ''secret''\<rparr>],
               auto_increment = 4\<rparr>
         \<and> movies d' = Some \<lparr>table_rows = [], auto_increment = 2\<rparr>)"
proof -
  have a: "prefix (logged_rows srv) (logged_rows (server_after (setupTestDatabase eng h env srv)))"
    by (rule setupTestDatabase_log_grows)
  have b: "prefix (logged_rows srv) (logged_rows (fst (runTests eng h env api now srv)))"
    using a by (simp add: runTests_def Let_def)
  have c: "\<forall>f \<in> set (create_tables eng) \<union> set (clear_test_data eng) \<union> set insert_test_movies.
         \<forall>d d'. f d = Inr d' \<longrightarrow> prefix (deletion_log_rows d) (deletion_log_rows d')"
    using keeps_log_script [of _ eng] by (auto simp: keeps_log_def)
  have d: "\<exists>d'. run_statements (clear_test_data mysql) example_database = (None, d')
         \<and> deletion_log_rows d' =
             [\<lparr>deletion_logs_id = 1, deletion_logs_user_id = 1, deletion_logs_movie_id = 1\<rparr>,
              \<lparr>deletion_logs_id = 2, deletion_logs_user_id = 2, deletion_logs_movie_id = 1\<rparr>]
         \<and> users d' = Some \<lparr>table_rows =
               [\<lparr>users_id = 1, users_username = ''alice'', users_password = ''secret''\<rparr>],
               auto_increment = 4\<rparr>
         \<and> movies d' = Some \<lparr>table_rows = [], auto_increment = 2\<rparr>"
    by (simp add: clear_test_data_result [OF example_database_tables(1) example_database_tables(2)
          example_database_tables(3) example_database_tables(4) example_database_tables(5)]
        example_database_tables deletion_log_rows_def log_append_def username_like_testuser_def
        mysql_def ascii_lower_def)
  show ?thesis using a b c d by (intro conjI)
qed

theorem deletion_logs_append_only_witness:
  "logged_rows audited_server =
     [\<lparr>deletion_logs_id = 1, deletion_logs_user_id = 7, deletion_logs_movie_id = 9\<rparr>]
   \<and> prefix [\<lparr>deletion_logs_id = 1, deletion_logs_user_id = 7, deletion_logs_movie_id = 9\<rparr>]
        (logged_rows (server_after (setupTestDatabase mysql reachable Map.empty audited_server)))
   \<and> delete_from_user_moods example_database =
        Inr (example_database\<lparr>user_moods := Some \<lparr>table_rows = [], auto_increment = 2\<rparr>\<rparr>)
   \<and> prefix (deletion_log_rows example_database)
        (deletion_log_rows (example_database\<lparr>user_moods := Some \<lparr>table_rows = [], auto_increment = 2\<rparr>\<rparr>))"
proof -
  have l: "logged_rows audited_server =
     [\<lparr>deletion_logs_id = 1, deletion_logs_user_id = 7, deletion_logs_movie_id = 9\<rparr>]"
    by (simp add: logged_rows_def audited_server_def deletion_log_rows_def)
  have m: "delete_from_user_moods example_database =
        Inr (example_database\<lparr>user_moods := Some \<lparr>table_rows = [], auto_increment = 2\<rparr>\<rparr>)"
    by (simp add: delete_from_user_moods_def example_database_tables)
  have i: "delete_from_user_moods \<in> set (create_tables mysql) \<union> set (clear_test_data mysql) \<union> set insert_test_movies"
    by (simp add: clear_test_data_def)
  note t = deletion_logs_append_only [of audited_server mysql reachable Map.empty "\<lambda>_ _. NoReply ''unused''" 0]
  have p: "prefix (deletion_log_rows example_database)
        (deletion_log_rows (example_database\<lparr>user_moods := Some \<lparr>table_rows = [], auto_increment = 2\<rparr>\<rparr>))"
    using t i m by blast
  show ?thesis using l m p t by simp
qed

section \<open>Proofs: the API tests\<close>

lemma all_accepted_snoc:
  "all_accepted api (rs @ [r]) \<longleftrightarrow> all_accepted api rs \<and> \<not> rejected (api rs r)"
  by (auto simp: all_accepted_def less_Suc_eq nth_append)

lemma reports_append [simp]: "reports (a @ b) = reports a @ reports b"
  by (simp add: reports_def)

lemma orderly_console_log: "orderly api (console_log l x)"
  by (cases x) (simp_all add: orderly_def ends_well_def console_log_def requests_of_append reports_def)

lemma orderly_console_error: "x = NoData \<Longrightarrow> orderly api (console_error l x)"
  by (simp add: orderly_def ends_well_def console_error_def requests_of_append reports_def)

lemma orderly_evaluate: "type_errors_only r \<Longrightarrow> orderly api (evaluate r)"
  by (auto simp: orderly_def ends_well_def evaluate_def type_errors_only_def
        split: sum.splits js_error.splits)

lemma orderly_axios: "orderly api (axios api req)"
  by (auto simp: orderly_def ends_well_def axios_def requests_of_append all_accepted_snoc
        rejected_def rejection_def reports_def split: sum.splits prod.splits)

lemma ends_well_thrown:
  "ends_well api t (Inl e :: js_error + 'a, t') \<Longrightarrow> ends_well api t (Inl e :: js_error + 'b, t')"
  by (simp add: ends_well_def split: js_error.splits)

lemma ends_well_from:
  "reports t1 = reports t \<Longrightarrow> ends_well api t1 out \<Longrightarrow> ends_well api t out"
  by (auto simp: ends_well_def split: prod.splits sum.splits js_error.splits)

lemma orderly_await:
  assumes "orderly api m" and "\<And>x. orderly api (f x)"
  shows "orderly api (await_then m f)"
  unfolding orderly_def
proof (intro allI impI)
  fix t assume a: "all_accepted api (requests_of t)"
  obtain res t1 where m: "m t = (res, t1)" by (cases "m t")
  have w: "ends_well api t (res, t1)" using assms(1) a m by (auto simp: orderly_def)
  show "ends_well api t (await_then m f t)"
  proof (cases res)
    case (Inl e)
    then have "await_then m f t = (Inl e, t1)" using m by (simp add: await_then_def)
    then show ?thesis using w Inl ends_well_thrown by metis
  next
    case (Inr x)
    then have e: "await_then m f t = f x t1" using m by (simp add: await_then_def)
    have t1: "reports t1 = reports t" "all_accepted api (requests_of t1)"
      using w Inr by (simp_all add: ends_well_def)
    have "ends_well api t1 (f x t1)" using assms(2) [of x] t1(2) by (simp add: orderly_def)
    then show ?thesis using e t1(1) ends_well_from by metis
  qed
qed

lemma type_errors_only_property [simp]: "type_errors_only (property x f)"
  by (cases x) (simp_all add: property_def cannot_read_def type_errors_only_def)

lemma type_errors_only_index0 [simp]: "type_errors_only (index0 x)"
  by (cases x) (simp_all add: index0_def cannot_read_def type_errors_only_def)

lemma type_errors_only_some_id [simp]: "type_errors_only (some_id k xs)"
proof (induction xs)
  case Nil
  then show ?case by (simp add: type_errors_only_def)
next
  case (Cons x xs)
  have "type_errors_only (property x ''id'')" by simp
  then show ?case using Cons
    by (auto simp: type_errors_only_def split: sum.splits js_error.splits)
qed

lemma type_errors_only_array_some_id [simp]: "type_errors_only (array_some_id k x)"
  by (cases x) (simp_all add: array_some_id_def cannot_read_def, simp_all add: type_errors_only_def)

lemma orderly_testAPI_try: "orderly api (testAPI_try api now)"
  unfolding testAPI_try_def Let_def
  by (intro orderly_await orderly_console_log orderly_axios orderly_evaluate
        type_errors_only_property type_errors_only_index0 type_errors_only_array_some_id)
     (simp add: orderly_console_error orderly_console_log)

lemma reports_simps [simp]:
  "reports [] = []"
  "reports (ConsoleLog l x # es) = reports es"
  "reports (ConsoleError l NoData # es) = reports es"
  "reports (ConsoleError l (Cause c) # es) = reports es"
  "reports (ConsoleError l (Report r) # es) = ConsoleError l (Report r) # reports es"
  "reports (CreateConnection cfg # es) = reports es"
  "reports (ConnectionQuery k # es) = reports es"
  "reports (ConnectionEnd # es) = reports es"
  "reports (Axios req # es) = reports es"
  by (simp_all add: reports_def)

lemma announces_no_reports: "announces es \<Longrightarrow> reports es = []"
proof (induction es)
  case Nil
  then show ?case by simp
next
  case (Cons e es)
  then have "announces es" by (simp add: announces_def)
  then have "reports es = []" by (rule Cons.IH)
  moreover have "reports [e] = []"
    using Cons.prems by (cases e; simp add: announces_def; cases "case e of ConsoleError l x \<Rightarrow> x | _ \<Rightarrow> NoData") (auto simp: reports_def)
  ultimately show ?case using reports_append [of "[e]" es] by simp
qed

lemma setupTestDatabase_no_reports: "reports (events (setupTestDatabase eng h env srv)) = []"
proof -
  obtain mid where "announces mid" and
    "events (setupTestDatabase eng h env srv) =
       ConsoleLog ''Attempting to connect to MySQL...'' NoData #
       ConsoleLog ''Using host:'' (Text (host (connection_config env))) #
       ConsoleLog ''Using user:'' (Text (user (connection_config env))) #
       CreateConnection (connection_config env) #
       mid @ (case accepts h (connection_config env) of None \<Rightarrow> [ConnectionEnd] | Some _ \<Rightarrow> [])"
    using setupTestDatabase_events by blast
  then show ?thesis
    using announces_no_reports [of mid] by (simp split: option.splits)
qed

lemma snoc_position:
  "k = length front \<Longrightarrow> rs = front @ [r] \<Longrightarrow>
   Suc k = length rs \<and> take k rs = front \<and> rs ! k = r"
  by simp

lemma snoc_before:
  "k < length front \<Longrightarrow> rs = front @ [r] \<Longrightarrow> take k rs = take k front \<and> rs ! k = front ! k"
  by (simp add: nth_append)

lemma await_console_log: "await_then (console_log l x) f t = f () (t @ [ConsoleLog l x])"
  by (simp add: await_then_def console_log_def)

lemma await_console_error: "await_then (console_error l x) f t = f () (t @ [ConsoleError l x])"
  by (simp add: await_then_def console_error_def)

lemma await_evaluate:
  "await_then (evaluate r) f t = (case r of Inl e \<Rightarrow> (Inl e, t) | Inr x \<Rightarrow> f x t)"
  by (simp add: await_then_def evaluate_def split: sum.splits)

lemma await_axios:
  "await_then (axios api req) f t =
     (case settle maxRedirects (api (requests_of t) req) of
        Inr (st, b) \<Rightarrow>
          if 200 \<le> st \<and> st < 300 then f b (t @ [Axios req])
          else (Inl (rejection req (api (requests_of t) req)), t @ [Axios req])
      | Inl msg \<Rightarrow> (Inl (rejection req (api (requests_of t) req)), t @ [Axios req]))"
  by (auto simp: await_then_def axios_def rejection_def split: sum.splits prod.splits)

lemmas await_steps = await_console_log await_console_error await_evaluate await_axios

lemma requests_of_snoc [simp]:
  "requests_of (t @ [Axios r]) = requests_of t @ [r]"
  "requests_of (t @ [ConsoleLog l x]) = requests_of t"
  "requests_of (t @ [ConsoleError l x]) = requests_of t"
  by (simp_all add: requests_of_append)

lemma show_nat_42: "show_nat 42 = ''42''"
  by (simp add: show_nat.simps digit_char_def)

lemma runTests_trace:
  "\<exists>t0. requests_of t0 = [] \<and> reports t0 = []
      \<and> snd (runTests eng h env api now srv) =
          (if returned (setupTestDatabase eng h env srv) then testAPI api now t0 else t0)"
proof (cases "returned (setupTestDatabase eng h env srv)")
  case True
  let ?t0 = "ConsoleLog ''Setting up test database...'' NoData # events (setupTestDatabase eng h env srv)
               @ [ConsoleLog ''Starting API tests...'' NoData]"
  have "requests_of ?t0 = []" "reports ?t0 = []"
    by (simp_all add: requests_of_append setupTestDatabase_no_requests setupTestDatabase_no_reports)
  moreover have "snd (runTests eng h env api now srv) = testAPI api now ?t0"
    using True by (simp add: runTests_def Let_def)
  ultimately show ?thesis using True by (intro exI [of _ ?t0]) simp
next
  case False
  let ?t0 = "ConsoleLog ''Setting up test database...'' NoData # events (setupTestDatabase eng h env srv)
               @ [ConsoleLog ''Skipping API tests due to database setup failure'' NoData]"
  have "requests_of ?t0 = []" "reports ?t0 = []"
    by (simp_all add: requests_of_append setupTestDatabase_no_requests setupTestDatabase_no_reports)
  moreover have "snd (runTests eng h env api now srv) = ?t0"
    using False by (simp add: runTests_def Let_def)
  ultimately show ?thesis using False by (intro exI [of _ ?t0]) simp
qed

lemma failure_report_rejection:
  "failure_report (rejection req r) =
     \<lparr>message = (case settle maxRedirects r of
                   Inr (st, b) \<Rightarrow> js_or (optional_prop b ''message'')
                                   (JStr (''Request failed with status code '' @ show_nat st))
                 | Inl msg \<Rightarrow> JStr msg),
      status = (case settle maxRedirects r of Inr (st, b) \<Rightarrow> Some st | Inl msg \<Rightarrow> None),
      endpoint = Some (url req),
      method = Some (config_method (http_method req)),
      data = config_data (body req)\<rparr>"
  by (cases "settle maxRedirects r")
     (auto simp: failure_report_def rejection_def js_or_def truthy_def)

lemma report_in_reports:
  "ConsoleError l (Report rep) \<in> set t \<Longrightarrow> ConsoleError l (Report rep) \<in> set (reports t)"
  by (simp add: reports_def)

lemma testAPI_outcome:
  assumes "requests_of t0 = []" and "reports t0 = []"
  shows "(\<forall>k < length (requests_of (testAPI api now t0)).
            rejected (api (take k (requests_of (testAPI api now t0))) (requests_of (testAPI api now t0) ! k)) \<longrightarrow>
              Suc k = length (requests_of (testAPI api now t0))
            \<and> last (testAPI api now t0) =
                ConsoleError ''Test failed:''
                  (Report (failure_report
                    (rejection (requests_of (testAPI api now t0) ! k)
                       (api (take k (requests_of (testAPI api now t0)))
                            (requests_of (testAPI api now t0) ! k))))))
       \<and> (reports (testAPI api now t0) = [] \<or> reports (testAPI api now t0) = [last (testAPI api now t0)])
       \<and> (all_accepted api (requests_of (testAPI api now t0)) \<longrightarrow>
            (\<forall>l rep. ConsoleError l (Report rep) \<in> set (testAPI api now t0) \<longrightarrow>
               (\<exists>msg. message rep = JStr msg) \<and> status rep = None \<and> endpoint rep = None
               \<and> method rep = None \<and> data rep = JUndefined))"
proof -
  obtain res t' where r: "testAPI_try api now t0 = (res, t')" by (cases "testAPI_try api now t0")
  have "all_accepted api (requests_of t0)" using assms(1) by (simp add: all_accepted_def)
  then have w: "ends_well api t0 (res, t')"
    using orderly_testAPI_try [of api now] r by (auto simp: orderly_def)
  let ?T = "testAPI api now t0"
  let ?rs = "requests_of ?T"
  show ?thesis
  proof (cases res)
    case (Inr x)
    then have T: "?T = t'" using r by (simp add: testAPI_def)
    have f: "reports t' = []" "all_accepted api (requests_of t')"
      using w Inr assms(2) by (simp_all add: ends_well_def)
    have a: "\<forall>k < length ?rs. rejected (api (take k ?rs) (?rs ! k)) \<longrightarrow>
              Suc k = length ?rs \<and>
              last ?T = ConsoleError ''Test failed:''
                (Report (failure_report (rejection (?rs ! k) (api (take k ?rs) (?rs ! k)))))"
      using f(2) by (simp add: T all_accepted_def)
    have b: "reports ?T = [] \<or> reports ?T = [last ?T]" using f(1) by (simp add: T)
    have c: "all_accepted api ?rs \<longrightarrow>
            (\<forall>l rep. ConsoleError l (Report rep) \<in> set ?T \<longrightarrow>
               (\<exists>msg. message rep = JStr msg) \<and> status rep = None \<and> endpoint rep = None
               \<and> method rep = None \<and> data rep = JUndefined)"
      using f(1) report_in_reports [of _ _ t'] by (auto simp: T)
    show ?thesis using a b c by (intro conjI)
  next
    case (Inl e)
    then have T: "?T = t' @ [ConsoleError ''Test failed:'' (Report (failure_report e))]"
      using r by (simp add: testAPI_def)
    then have rs: "?rs = requests_of t'" by (simp add: requests_of_append)
    have rep1: "reports [ConsoleError ''Test failed:'' (Report (failure_report e))] =
        [ConsoleError ''Test failed:'' (Report (failure_report e))]"
      by (simp add: reports_def)
    have l: "last ?T = ConsoleError ''Test failed:'' (Report (failure_report e))"
      by (simp add: T)
    show ?thesis
    proof (cases e)
      case (TypeError m)
      have f: "reports t' = []" "all_accepted api (requests_of t')"
        using w Inl TypeError assms(2) by (simp_all add: ends_well_def)
      have a: "\<forall>k < length ?rs. rejected (api (take k ?rs) (?rs ! k)) \<longrightarrow>
              Suc k = length ?rs \<and>
              last ?T = ConsoleError ''Test failed:''
                (Report (failure_report (rejection (?rs ! k) (api (take k ?rs) (?rs ! k)))))"
        using f(2) unfolding rs by (simp add: all_accepted_def)
      have rT: "reports ?T = [ConsoleError ''Test failed:'' (Report (failure_report e))]"
        using f(1) rep1 by (simp add: T)
      have b: "reports ?T = [] \<or> reports ?T = [last ?T]"
        using rT l by simp
      have c: "all_accepted api ?rs \<longrightarrow>
            (\<forall>l rep. ConsoleError l (Report rep) \<in> set ?T \<longrightarrow>
               (\<exists>msg. message rep = JStr msg) \<and> status rep = None \<and> endpoint rep = None
               \<and> method rep = None \<and> data rep = JUndefined)"
      proof (intro impI allI)
        fix l' rep assume "ConsoleError l' (Report rep) \<in> set ?T"
        then have "ConsoleError l' (Report rep) \<in> set (reports ?T)" by (rule report_in_reports)
        then have "rep = failure_report e" using rT by simp
        then show "(\<exists>msg. message rep = JStr msg) \<and> status rep = None \<and> endpoint rep = None
               \<and> method rep = None \<and> data rep = JUndefined"
          using TypeError by (simp add: failure_report_def)
      qed
      show ?thesis using a b c by (intro conjI)
    next
      case (AxiosError msg resp req)
      have f: "reports t' = reports t0" "requests_of t' \<noteq> []" "last (requests_of t') = req"
        "all_accepted api (butlast (requests_of t'))"
        "rejected (api (butlast (requests_of t')) req)"
        "e = rejection req (api (butlast (requests_of t')) req)"
        using w Inl AxiosError by (simp_all add: ends_well_def)
      let ?front = "butlast (requests_of t')"
      have bl: "butlast (requests_of t') @ [last (requests_of t')] = requests_of t'"
        using f(2) by (rule append_butlast_last_id)
      have sp: "?rs = ?front @ [req]"
        unfolding rs f(3) [symmetric] by (rule bl [symmetric])
      have main: "\<forall>k < length ?rs. rejected (api (take k ?rs) (?rs ! k)) \<longrightarrow>
              Suc k = length ?rs \<and>
              last ?T = ConsoleError ''Test failed:''
                (Report (failure_report (rejection (?rs ! k) (api (take k ?rs) (?rs ! k)))))"
      proof (intro allI impI)
        fix k assume k: "k < length ?rs" and rej: "rejected (api (take k ?rs) (?rs ! k))"
        have "k = length ?front"
        proof (rule ccontr)
          assume "k \<noteq> length ?front"
          then have "k < Suc (length ?front)" using k sp by (simp only: length_append_singleton)
          with \<open>k \<noteq> length ?front\<close> have k0: "k < length ?front" by linarith
          then have "take k ?rs = take k ?front \<and> ?rs ! k = ?front ! k"
            using sp by (intro snoc_before)
          then have "take k ?rs = take k ?front" "?rs ! k = ?front ! k" by blast+
          then show False using rej f(4) k0 by (simp add: all_accepted_def)
        qed
        then have "Suc k = length ?rs \<and> take k ?rs = ?front \<and> ?rs ! k = req"
          using sp by (intro snoc_position)
        then have k1: "Suc k = length ?rs" and k2: "take k ?rs = ?front" and k3: "?rs ! k = req"
          by blast+
        have e': "rejection (?rs ! k) (api (take k ?rs) (?rs ! k)) = e"
          using f(6) by (simp only: k2 k3)
        show "Suc k = length ?rs \<and>
              last ?T = ConsoleError ''Test failed:''
                (Report (failure_report (rejection (?rs ! k) (api (take k ?rs) (?rs ! k)))))"
        proof (intro conjI)
          show "Suc k = length ?rs" by (rule k1)
          show "last ?T = ConsoleError ''Test failed:''
                (Report (failure_report (rejection (?rs ! k) (api (take k ?rs) (?rs ! k)))))"
            unfolding e' by (rule l)
        qed
      qed
      have rT: "reports ?T = [ConsoleError ''Test failed:'' (Report (failure_report e))]"
        using f(1) assms(2) rep1 by (simp add: T)
      have b: "reports ?T = [] \<or> reports ?T = [last ?T]"
        using rT l by simp
      have "\<not> all_accepted api (?front @ [req])"
        using f(5) by (simp add: all_accepted_snoc)
      then have c: "all_accepted api ?rs \<longrightarrow>
            (\<forall>l rep. ConsoleError l (Report rep) \<in> set ?T \<longrightarrow>
               (\<exists>msg. message rep = JStr msg) \<and> status rep = None \<and> endpoint rep = None
               \<and> method rep = None \<and> data rep = JUndefined)"
        unfolding sp by blast
      show ?thesis using main b c by (intro conjI)
    qed
  qed
qed

lemma testAPI_login_refused:
  "testAPI login_refused 42 t =
     t @ [ConsoleLog ''=== Starting API Tests ==='' NoData,
          ConsoleLog ''1. Testing user creation...'' NoData,
          Axios \<lparr>http_method = POST, url = ''http://localhost:3000/users'',
                 body = JObj [(''username'', JStr ''testuser_42''), (''password'', JStr ''password123'')]\<rparr>,
          ConsoleLog ''User created:'' (Data (JObj [(''userId'', JNum ''7'')])),
          ConsoleLog ''2. Testing login...'' NoData,
          Axios \<lparr>http_method = POST, url = ''http://localhost:3000/login'',
                 body = JObj [(''username'', JStr ''testuser_42''), (''password'', JStr ''password123'')]\<rparr>,
          ConsoleError ''Test failed:''
            (Report \<lparr>message = JStr ''Invalid credentials'', status = Some 401,
                      endpoint = Some ''http://localhost:3000/login'', method = Some ''post'',
                      data = JStr ''{\"username\":\"testuser_42\",\"password\":\"password123\"}''\<rparr>)]"
  by (simp add: testAPI_def testAPI_try_def Let_def await_steps login_refused_def API_URL_def
        show_nat_42 failure_report_rejection js_or_def truthy_def optional_prop_def property_def
        config_method_def config_data_def json_quote_def json_escapes_def)

lemma testAPI_empty_catalog:
  "testAPI empty_catalog 42 t =
     t @ [ConsoleLog ''=== Starting API Tests ==='' NoData,
          ConsoleLog ''1. Testing user creation...'' NoData,
          Axios \<lparr>http_method = POST, url = ''http://localhost:3000/users'',
                 body = JObj [(''username'', JStr ''testuser_42''), (''password'', JStr ''password123'')]\<rparr>,
          ConsoleLog ''User created:'' (Data (JObj [(''userId'', JNum ''7'')])),
          ConsoleLog ''2. Testing login...'' NoData,
          Axios \<lparr>http_method = POST, url = ''http://localhost:3000/login'',
                 body = JObj [(''username'', JStr ''testuser_42''), (''password'', JStr ''password123'')]\<rparr>,
          ConsoleLog ''Login successful:'' (Data (JObj [(''message'', JStr ''ok'')])),
          ConsoleLog ''3. Testing get users...'' NoData,
          Axios \<lparr>http_method = GET, url = ''http://localhost:3000/users'', body = JUndefined\<rparr>,
          ConsoleLog ''Users retrieved:'' (Data (JArr [])),
          ConsoleLog ''4. Testing get all movies...'' NoData,
          Axios \<lparr>http_method = GET, url = ''http://localhost:3000/movies'', body = JUndefined\<rparr>,
          ConsoleLog ''Available movies:'' (Data (JArr [])),
          ConsoleLog ''5. Testing adding movie to user...'' NoData,
          ConsoleError ''Test failed:''
            (Report \<lparr>message = JStr ''Cannot read properties of undefined (reading 'tmdb_id')'',
                      status = None, endpoint = None, method = None, data = JUndefined\<rparr>)]"
  by (simp add: testAPI_def testAPI_try_def Let_def await_steps empty_catalog_def API_URL_def
        show_nat_42 failure_report_def property_def index0_def cannot_read_def)

lemma setupTestDatabase_fresh:
  "returned (setupTestDatabase mysql reachable Map.empty no_databases)"
proof -
  have a: "accepts reachable (connection_config Map.empty) = None" by (simp add: reachable_def)
  have f: "fault reachable = (\<lambda>_. None)" by (simp add: reachable_def)
  have "\<not> trigger_kept mysql (initial_database no_databases)"
    by (simp add: trigger_kept_def initial_database_def no_databases_def empty_database_def)
  then show ?thesis
    using setupTestDatabase_unfaulted(1) [OF a f, of mysql no_databases] by simp
qed

lemma all_accepted_empty_catalog: "all_accepted empty_catalog rs"
  by (simp add: all_accepted_def rejected_def empty_catalog_def)

section \<open>Proofs: the claims about the API tests\<close>




lemma follows_await:
  assumes "follows sc k c k1 c1 Q m" and "\<And>x. Q x \<Longrightarrow> follows sc k1 c1 k2 c2 R (f x)"
  shows "follows sc k c k2 c2 R (await_then m f)"
  unfolding follows_def
proof (intro allI impI)
  fix t assume t: "requests_of t = take k sc \<and> verdicts t = c"
  obtain res t1 where m: "m t = (res, t1)" by (cases "m t")
  show "case await_then m f t of
           (Inr x, t') \<Rightarrow> requests_of t' = take k2 sc \<and> verdicts t' = c2 \<and> R x
         | (Inl e, t') \<Rightarrow> (\<exists>j. requests_of t' = take j sc)"
  proof (cases res)
    case (Inl e)
    then have "\<exists>j. requests_of t1 = take j sc"
      using assms(1) t m by (auto simp: follows_def)
    then show ?thesis using m Inl by (simp add: await_then_def)
  next
    case (Inr x)
    then have x: "requests_of t1 = take k1 sc \<and> verdicts t1 = c1" "Q x"
      using assms(1) t m by (auto simp: follows_def)
    have "follows sc k1 c1 k2 c2 R (f x)" using x(2) by (rule assms(2))
    then show ?thesis using x(1) m Inr by (simp add: await_then_def follows_def)
  qed
qed

lemma follows_log:
  "verdicts [ConsoleLog l x] = [] \<Longrightarrow> c' = c \<Longrightarrow> follows sc k c k c' (\<lambda>_. True) (console_log l x)"
  by (simp add: follows_def console_log_def verdicts_def)

lemma follows_check:
  "c' = c @ [if b then ConsoleError ''Test failed: Movie was not deleted.'' NoData
             else ConsoleLog ''Test passed: Movie successfully deleted.'' NoData] \<Longrightarrow>
   follows sc k c k c' (\<lambda>_. True)
     (if b then console_error ''Test failed: Movie was not deleted.'' NoData
      else console_log ''Test passed: Movie successfully deleted.'' NoData)"
  by (simp add: follows_def console_log_def console_error_def verdicts_def)

lemma follows_evaluate: "follows sc k c k c (\<lambda>x. r = Inr x) (evaluate r)"
  by (cases r) (auto simp: follows_def evaluate_def)

lemma follows_axios:
  assumes "k < length sc" and "sc ! k = req"
  shows "follows sc k c (Suc k) c (\<lambda>x. x = reply_data (api (take k sc) req)) (axios api req)"
  using assms
  by (auto simp: follows_def axios_def reply_data_def take_Suc_conv_app_nth verdicts_def
        split: sum.splits prod.splits intro: exI [of _ "Suc k"])

lemma property_JObj:
  "property (JObj kvs) f = Inr (case map_of (rev kvs) f of None \<Rightarrow> JUndefined | Some v \<Rightarrow> v)"
  by (simp add: property_def)

lemmas scenario_defs =
  script_requests_def scenario_def scenario_start_def test_user_def API_URL_def user_movies_url_def
  created_user_id_def first_movie_def optional_prop_def property_JObj

lemma testAPI_try_follows:
  assumes sc: "sc = script_requests api now"
  shows "follows sc 0 [] (Suc (Suc (Suc (Suc (Suc (Suc (Suc (Suc (Suc (Suc 0))))))))))
           [verdict_for (reply_data (api (take 7 sc) (sc ! 7)))]
           (\<lambda>_. True) (testAPI_try api now)"
  unfolding testAPI_try_def Let_def
  apply ((rule follows_await,
          ((rule follows_log, (simp add: verdicts_def; fail), rule refl)
           | (rule follows_check, rule refl)
           | rule follows_evaluate
           | (rule follows_axios,
              (simp add: sc script_requests_def scenario_def scenario_start_def; fail),
              (simp add: sc scenario_defs; fail))))+)
  apply (rule follows_log)
   apply (simp add: verdicts_def)
  apply (simp add: sc scenario_defs verdict_for_def eval_nat_numeral)
  done

lemma testAPI_returned:
  "fst (testAPI_try api now t) = Inr x \<Longrightarrow> testAPI api now t = snd (testAPI_try api now t)"
  by (cases "testAPI_try api now t") (simp add: testAPI_def)

lemma testAPI_requests:
  "requests_of (testAPI api now t) = requests_of (snd (testAPI_try api now t))"
  by (cases "testAPI_try api now t"; cases "fst (testAPI_try api now t)")
     (simp_all add: testAPI_def requests_of_append)

lemmas run_defs =
  testAPI_try_def Let_def await_steps API_URL_def user_movies_url_def show_nat_42
  property_JObj index0_def array_some_id_def js_or_def truthy_def console_log_def
  maxRedirects_def

lemma testAPI_try_accommodating:
  "fst (testAPI_try accommodating 42 []) = Inr ()
   \<and> requests_of (snd (testAPI_try accommodating 42 [])) =
     [\<lparr>http_method = POST, url = ''http://localhost:3000/users'',
       body = JObj [(''username'', JStr ''testuser_42''), (''password'', JStr ''password123'')]\<rparr>,
      \<lparr>http_method = POST, url = ''http://localhost:3000/login'',
       body = JObj [(''username'', JStr ''testuser_42''), (''password'', JStr ''password123'')]\<rparr>,
      \<lparr>http_method = GET, url = ''http://localhost:3000/users'', body = JUndefined\<rparr>,
      \<lparr>http_method = GET, url = ''http://localhost:3000/movies'', body = JUndefined\<rparr>,
      \<lparr>http_method = POST, url = ''http://localhost:3000/user/7/movies'',
       body = JObj [(''movieId'', JNum ''278''),
                    (''movieDetails'',
                       JObj [(''title'', JStr ''The Shawshank Redemption''),
                             (''overview'', JStr ''Two imprisoned men bond over a number of years.''),
                             (''poster_path'', JStr ''/path/to/poster1.jpg''),
                             (''vote_average'', JStr ''9.3'')])]\<rparr>,
      \<lparr>http_method = GET, url = ''http://localhost:3000/user/7/movies'', body = JUndefined\<rparr>,
      \<lparr>http_method = DELETE, url = ''http://localhost:3000/user/7/movies/1'', body = JUndefined\<rparr>,
      \<lparr>http_method = GET, url = ''http://localhost:3000/user/7/movies'', body = JUndefined\<rparr>,
      \<lparr>http_method = PUT, url = ''http://localhost:3000/user/7/password'',
       body = JObj [(''newPassword'', JStr ''newpassword456'')]\<rparr>,
      \<lparr>http_method = POST, url = ''http://localhost:3000/login'',
       body = JObj [(''username'', JStr ''testuser_42''), (''password'', JStr ''newpassword456'')]\<rparr>]
   \<and> last (snd (testAPI_try accommodating 42 [])) =
       ConsoleLog ''=== All tests completed successfully ==='' NoData"
  by (simp add: run_defs accommodating_def)

lemma testAPI_try_forgetful:
  "fst (testAPI_try forgetful 42 []) = Inr ()
   \<and> length (requests_of (snd (testAPI_try forgetful 42 []))) = 10
   \<and> last (snd (testAPI_try forgetful 42 [])) =
       ConsoleLog ''=== All tests completed successfully ==='' NoData"
  by (simp add: run_defs forgetful_def accommodating_def)

lemma verdict_forgetful:
  "verdict_for (reply_data (forgetful (take 7 (script_requests forgetful 42)) (script_requests forgetful 42 ! 7))) =
     ConsoleError ''Test failed: Movie was not deleted.'' NoData"
  by (simp add: scenario_defs verdict_for_def reply_data_def forgetful_def accommodating_def
        array_some_id_def show_nat_42 maxRedirects_def)




end
